theory Spec2Isabelle
  imports Complex_Main "HOL-Library.Char_ord" "HOL-Library.List_Lexorder" "HOL-Library.Product_Lexorder"
    "HOL-Library.AList" "HOL-Library.Multiset"
begin

section \<open>Threshold selection\<close>

text \<open>
  The \<open>if/elif\<close> chain of \<open>process_transactions\<close> (anomaly_engine.py, lines 146-160) that
  maps the number of registered checks to the minimum score that flags a record.
\<close>

definition select_threshold :: "nat \<Rightarrow> int" where
  "select_threshold total_possible_risks =
     (if total_possible_risks = 0 then 1
      else if total_possible_risks = 1 then 1
      else if total_possible_risks = 2 then 2
      else if total_possible_risks = 3 then 3
      else if total_possible_risks = 4 then 3
      else if total_possible_risks = 5 then 4
      else 5)"


section \<open>Data model\<close>

text \<open>
  A cell of a data frame. \<open>CNa\<close> stands for every missing marker of the library
  (\<open>NaN\<close>, \<open>NaT\<close>, \<open>pd.NA\<close>, \<open>None\<close>); \<open>CNum\<close> is a floating-point number read as
  a real; \<open>CTime\<close> is a parsed UTC instant in whole seconds since the epoch; \<open>CList\<close> is
  a Python list of strings.
\<close>

datatype cell = CNa | CBool bool | CInt int | CNum real | CStr string | CTime int
  | CList "string list"

text \<open>
  A row is the association list of its cells in column order; a frame is its header and
  its rows in index order.
\<close>

type_synonym row = "(string \<times> cell) list"

record frame =
  columns :: "string list"
  rows :: "row list"

text \<open>
  \<open>KeyError c\<close>: the column \<open>c\<close> is read but the frame does not have it.
  \<open>Unmodelled\<close>: the input lies outside what this development covers (a sender account,
  amount or time stamp cell that is not of the type of the input contract, or a time stamp
  outside the ISO-8601 profile of \<open>to_datetime\<close> below); nothing is claimed for such
  inputs.
\<close>

datatype error = KeyError string | Unmodelled

text \<open>\<open>df[c]\<close> as a list of cells; a row without a value for a header column reads as missing.\<close>

definition cell_at :: "string \<Rightarrow> row \<Rightarrow> cell" where
  "cell_at c r = (case map_of r c of Some v \<Rightarrow> v | None \<Rightarrow> CNa)"

definition get_column :: "string \<Rightarrow> frame \<Rightarrow> error + cell list" where
  "get_column c df =
     (if c \<in> set (columns df) then Inr (map (cell_at c) (rows df)) else Inl (KeyError c))"

text \<open>\<open>df[c] = vs\<close>: overwrite the column in place, or append it as the last column.\<close>

definition set_column :: "string \<Rightarrow> cell list \<Rightarrow> frame \<Rightarrow> frame" where
  "set_column c vs df =
     \<lparr>columns = (if c \<in> set (columns df) then columns df else columns df @ [c]),
      rows = map (\<lambda>rv. AList.update c (snd rv) (fst rv)) (zip (rows df) vs)\<rparr>"

text \<open>\<open>df[c] = v\<close> for a scalar \<open>v\<close>.\<close>

definition set_scalar :: "string \<Rightarrow> cell \<Rightarrow> frame \<Rightarrow> frame" where
  "set_scalar c v df = set_column c (replicate (length (rows df)) v) df"

fun the_str :: "cell \<Rightarrow> string option" where
  "the_str (CStr s) = Some s"
| "the_str _ = None"

fun the_num :: "cell \<Rightarrow> real option" where
  "the_num (CNum x) = Some x"
| "the_num (CInt n) = Some (real_of_int n)"
| "the_num _ = None"

fun all_some :: "'a option list \<Rightarrow> 'a list option" where
  "all_some [] = Some []"
| "all_some (x # xs) =
     (case x of None \<Rightarrow> None
      | Some y \<Rightarrow> (case all_some xs of None \<Rightarrow> None | Some ys \<Rightarrow> Some (y # ys)))"

definition typed_column :: "(cell \<Rightarrow> 'a option) \<Rightarrow> string \<Rightarrow> frame \<Rightarrow> error + 'a list" where
  "typed_column rd c df =
     (case get_column c df of
        Inl e \<Rightarrow> Inl e
      | Inr vs \<Rightarrow> (case all_some (map rd vs) of None \<Rightarrow> Inl Unmodelled | Some xs \<Rightarrow> Inr xs))"

text \<open>Total readers used on rows whose column has been read with \<open>typed_column\<close> before.\<close>

definition str_of :: "string \<Rightarrow> row \<Rightarrow> string" where
  "str_of c r = (case cell_at c r of CStr s \<Rightarrow> s | _ \<Rightarrow> [])"

definition time_of :: "string \<Rightarrow> row \<Rightarrow> int" where
  "time_of c r = (case cell_at c r of CTime t \<Rightarrow> t | _ \<Rightarrow> 0)"

definition int_of :: "string \<Rightarrow> row \<Rightarrow> int" where
  "int_of c r = (case cell_at c r of CInt n \<Rightarrow> n | _ \<Rightarrow> 0)"

definition truthy :: "string \<Rightarrow> row \<Rightarrow> bool" where
  "truthy c r = (map_of r c = Some (CBool True))"

section \<open>Library operations used by the engine\<close>

subsection \<open>Parsing time stamps\<close>

text \<open>
  \<open>pd.to_datetime(s, format="ISO8601", utc=True)\<close> on the profile
  \<open>YYYY-MM-DDThh:mm:ss\<close>, optionally followed by \<open>Z\<close> or a \<open>+hh:mm\<close> / \<open>-hh:mm\<close> offset.
  A stamp without offset is taken as UTC. The result is the instant in seconds since
  1970-01-01T00:00:00Z; \<open>None\<close> for anything outside the profile.
\<close>

definition digit :: "char \<Rightarrow> nat option" where
  "digit c = (let n = (of_char c :: nat) in if 48 \<le> n \<and> n \<le> 57 then Some (n - 48) else None)"

fun number :: "string \<Rightarrow> nat option" where
  "number [] = None"
| "number cs =
     (case all_some (map digit cs) of None \<Rightarrow> None
      | Some ds \<Rightarrow> Some (foldl (\<lambda>acc d. 10 * acc + d) 0 ds))"

definition is_leap :: "nat \<Rightarrow> bool" where
  "is_leap y = (y mod 4 = 0 \<and> (y mod 100 \<noteq> 0 \<or> y mod 400 = 0))"

definition days_in_month :: "nat \<Rightarrow> nat \<Rightarrow> nat" where
  "days_in_month y m =
     (if m = 2 then (if is_leap y then 29 else 28)
      else if m = 4 \<or> m = 6 \<or> m = 9 \<or> m = 11 then 30 else 31)"

definition days_from_civil :: "nat \<Rightarrow> nat \<Rightarrow> nat \<Rightarrow> int" where
  "days_from_civil y m d =
     (let y' = (if m \<le> 2 then int y - 1 else int y);
          era = y' div 400;
          yoe = y' - era * 400;
          mp = (if m > 2 then int m - 3 else int m + 9);
          doy = (153 * mp + 2) div 5 + int d - 1;
          doe = yoe * 365 + yoe div 4 - yoe div 100 + doy
      in era * 146097 + doe - 719468)"

definition utc_offset :: "string \<Rightarrow> int option" where
  "utc_offset z =
     (if z = [] \<or> z = ''Z'' then Some 0
      else if length z = 6 \<and> (z ! 0 = CHR ''+'' \<or> z ! 0 = CHR ''-'') \<and> z ! 3 = CHR '':'' then
        (case (number (take 2 (drop 1 z)), number (drop 4 z)) of
           (Some h, Some m) \<Rightarrow>
             (if h < 24 \<and> m < 60 then
                Some ((if z ! 0 = CHR ''-'' then -1 else 1) * (int h * 3600 + int m * 60))
              else None)
         | _ \<Rightarrow> None)
      else None)"

definition to_datetime :: "string \<Rightarrow> int option" where
  "to_datetime s =
     (if length s < 19 \<or> s ! 4 \<noteq> CHR ''-'' \<or> s ! 7 \<noteq> CHR ''-'' \<or> s ! 10 \<noteq> CHR ''T''
         \<or> s ! 13 \<noteq> CHR '':'' \<or> s ! 16 \<noteq> CHR '':'' then None
      else
        (case (number (take 4 s), number (take 2 (drop 5 s)), number (take 2 (drop 8 s)),
               number (take 2 (drop 11 s)), number (take 2 (drop 14 s)),
               number (take 2 (drop 17 s)), utc_offset (drop 19 s)) of
           (Some y, Some mo, Some d, Some h, Some mi, Some sec, Some off) \<Rightarrow>
             (if 1 \<le> mo \<and> mo \<le> 12 \<and> 1 \<le> d \<and> d \<le> days_in_month y mo
                 \<and> h < 24 \<and> mi < 60 \<and> sec < 60 then
                Some (days_from_civil y mo d * 86400 + int h * 3600 + int mi * 60 + int sec - off)
              else None)
         | _ \<Rightarrow> None))"

text \<open>\<open>Series.dt.hour\<close> of a UTC instant.\<close>

definition hour_of :: "int \<Rightarrow> int" where
  "hour_of t = (t div 3600) mod 24"


subsection \<open>Grouping, sorting, comparing\<close>

definition bind_err :: "error + 'a \<Rightarrow> ('a \<Rightarrow> error + 'b) \<Rightarrow> error + 'b" where
  "bind_err m f = (case m of Inl e \<Rightarrow> Inl e | Inr x \<Rightarrow> f x)"

text \<open>
  \<open>df.groupby(key)[col].transform(f)\<close>: \<open>f\<close> is applied to the values of each group, taken
  in frame order, and every row receives the entry of its own position within its group.
\<close>

definition groupby_transform :: "'k list \<Rightarrow> ('a list \<Rightarrow> 'b list) \<Rightarrow> 'a list \<Rightarrow> 'b list" where
  "groupby_transform keys f vals =
     map (\<lambda>i. f (map snd (filter (\<lambda>kv. fst kv = keys ! i) (zip keys vals)))
               ! length (filter (\<lambda>k. k = keys ! i) (take i keys)))
         [0..<length vals]"

text \<open>\<open>Series.duplicated()\<close>: true where the value occurred earlier in the series.\<close>

fun duplicated_from :: "'a list \<Rightarrow> 'a list \<Rightarrow> bool list" where
  "duplicated_from seen [] = []"
| "duplicated_from seen (x # xs) = (x \<in> set seen) # duplicated_from (x # seen) xs"

definition duplicated :: "'a list \<Rightarrow> bool list" where
  "duplicated xs = duplicated_from [] xs"

text \<open>\<open>Series.shift(1)\<close>: every value moves one place down, the first place is missing.\<close>

definition shift1 :: "cell list \<Rightarrow> cell list" where
  "shift1 xs = (if xs = [] then [] else CNa # butlast xs)"

text \<open>Elementwise \<open>!=\<close>: a missing value is unequal to everything, itself included.\<close>

definition cell_ne :: "cell \<Rightarrow> cell \<Rightarrow> bool" where
  "cell_ne a b = (a = CNa \<or> b = CNa \<or> a \<noteq> b)"

text \<open>Elementwise \<open>>= k\<close> on a numeric column: false on a missing value.\<close>

fun cell_ge :: "cell \<Rightarrow> int \<Rightarrow> bool" where
  "cell_ge (CNum x) k = (x \<ge> real_of_int k)"
| "cell_ge (CInt n) k = (n \<ge> k)"
| "cell_ge _ k = False"

text \<open>\<open>df.sort_values([...])\<close> on several keys is a stable sort.\<close>

definition sort_values :: "(row \<Rightarrow> 'k::linorder) \<Rightarrow> frame \<Rightarrow> frame" where
  "sort_values key df = df\<lparr>rows := sort_key key (rows df)\<rparr>"

text \<open>\<open>groupby(key).head(1)\<close>: the first row of every group, in frame order.\<close>

fun head_from :: "'k list \<Rightarrow> ('a \<Rightarrow> 'k) \<Rightarrow> 'a list \<Rightarrow> 'a list" where
  "head_from seen key [] = []"
| "head_from seen key (x # xs) =
     (if key x \<in> set seen then head_from seen key xs else x # head_from (key x # seen) key xs)"

text \<open>
  \<open>groupby(key, dropna=True).cumcount()\<close>: the number of earlier rows of the same group;
  missing on a row whose key is missing.
\<close>

definition cumcount :: "cell list \<Rightarrow> cell list" where
  "cumcount keys =
     map (\<lambda>i. if keys ! i = CNa then CNa
              else CInt (int (length (filter (\<lambda>k. k = keys ! i) (take i keys)))))
         [0..<length keys]"

fun cell_add :: "cell \<Rightarrow> int \<Rightarrow> cell" where
  "cell_add (CInt n) k = CInt (n + k)"
| "cell_add (CNum x) k = CNum (x + real_of_int k)"
| "cell_add c k = CNa"

subsection \<open>Statistics\<close>

definition mean :: "real list \<Rightarrow> real" where
  "mean xs = sum_list xs / real (length xs)"

text \<open>\<open>Series.std()\<close>: the sample standard deviation (\<open>ddof = 1\<close>); \<open>NaN\<close>, here \<open>None\<close>, below two values.\<close>

definition std :: "real list \<Rightarrow> real option" where
  "std xs =
     (if length xs < 2 then None
      else Some (sqrt (sum_list (map (\<lambda>x. (x - mean xs)\<^sup>2) xs) / real (length xs - 1))))"

text \<open>
  The square root has no executable equation: evaluation leaves \<open>sqrt\<close> terms as they are,
  and frames without an amount column evaluate fully.
\<close>

declare root_def [code del]

text \<open>Decimal rendering of a number, as in an f-string.\<close>

fun str_nat :: "nat \<Rightarrow> string" where
  "str_nat n =
     (if n < 10 then [char_of (48 + n)] else str_nat (n div 10) @ [char_of (48 + n mod 10)])"

declare str_nat.simps [simp del]

section \<open>The engine\<close>

text \<open>The engine's working state: the frame \<open>df\<close> and the list \<open>active_risks\<close>.\<close>

type_synonym risks = "(string \<times> string) list"

subsection \<open>Time stamp handling (lines 19-25)\<close>

definition timestamp_block :: "bool \<Rightarrow> frame \<Rightarrow> error + frame" where
  "timestamp_block has_timestamp df =
     (if has_timestamp then
        bind_err (typed_column the_str ''timestamp'' df) (\<lambda>raw.
          case all_some (map to_datetime raw) of
            None \<Rightarrow> Inl Unmodelled
          | Some ts \<Rightarrow>
              (let df1 = set_column ''timestamp'' (map CTime ts) df in
               bind_err (typed_column the_str ''sender_account'' df1) (\<lambda>accts.
                 let df2 = sort_values
                             (\<lambda>r. (str_of ''sender_account'' r, time_of ''timestamp'' r)) df1
                 in Inr (set_column ''hour''
                           (map (\<lambda>r. CInt (hour_of (time_of ''timestamp'' r))) (rows df2)) df2))))
      else Inr (set_scalar ''hour'' (CInt 12) df))"

subsection \<open>Amount z-score (lines 28-38)\<close>

text \<open>The lambda handed to \<open>transform\<close>: \<open>(x - x.mean()) / x.std() if x.std() > 0 else 0\<close>.\<close>

definition zscore :: "real list \<Rightarrow> cell list" where
  "zscore x =
     (if (case std x of Some s \<Rightarrow> s > 0 | None \<Rightarrow> False)
      then map (\<lambda>v. CNum ((v - mean x) / the (std x))) x
      else replicate (length x) (CInt 0))"

definition amount_block :: "bool \<Rightarrow> frame \<times> risks \<Rightarrow> error + frame \<times> risks" where
  "amount_block has_amount st =
     (case st of (df, active_risks) \<Rightarrow>
      if has_amount then
        bind_err (typed_column the_str ''sender_account'' df) (\<lambda>accts.
        bind_err (typed_column the_num ''amount'' df) (\<lambda>amounts.
          let df1 = set_column ''amount_zscore'' (groupby_transform accts zscore amounts) df;
              df2 = set_column ''risk_amount''
                      (map (\<lambda>r. CBool (cell_ge (cell_at ''amount_zscore'' r) 1)) (rows df1)) df1
          in Inr (df2, active_risks @ [(''risk_amount'', ''Unusual transaction amount'')])))
      else
        Inr (set_scalar ''amount_zscore'' (CInt 0) (set_scalar ''risk_amount'' (CBool False) df),
             active_risks))"

subsection \<open>New device and new IP address (lines 41-60)\<close>

text \<open>The lambda handed to \<open>transform\<close>: \<open>~x.duplicated()\<close>.\<close>

definition not_duplicated :: "cell list \<Rightarrow> cell list" where
  "not_duplicated x = map (\<lambda>b. CBool (\<not> b)) (duplicated x)"

definition first_seen_block ::
  "bool \<Rightarrow> string \<Rightarrow> string \<Rightarrow> string \<Rightarrow> string \<Rightarrow> frame \<times> risks \<Rightarrow> error + frame \<times> risks" where
  "first_seen_block has_feature feature is_new risk description st =
     (case st of (df, active_risks) \<Rightarrow>
      if has_feature then
        bind_err (typed_column the_str ''sender_account'' df) (\<lambda>accts.
        bind_err (get_column feature df) (\<lambda>vals.
          let df1 = set_column is_new (groupby_transform accts not_duplicated vals) df;
              df2 = set_column risk (map (cell_at is_new) (rows df1)) df1
          in Inr (df2, active_risks @ [(risk, description)])))
      else
        Inr (set_scalar risk (CBool False) (set_scalar is_new (CBool False) df), active_risks))"

definition device_block :: "bool \<Rightarrow> frame \<times> risks \<Rightarrow> error + frame \<times> risks" where
  "device_block has_device =
     first_seen_block has_device ''device_hash'' ''is_new_device'' ''risk_new_device''
       ''New device detected''"

definition ip_block :: "bool \<Rightarrow> frame \<times> risks \<Rightarrow> error + frame \<times> risks" where
  "ip_block has_ip =
     first_seen_block has_ip ''ip_address'' ''is_new_ip'' ''risk_new_ip''
       ''New IP address detected''"

subsection \<open>Location change (lines 63-72)\<close>

definition location_block :: "bool \<Rightarrow> frame \<times> risks \<Rightarrow> error + frame \<times> risks" where
  "location_block has_location st =
     (case st of (df, active_risks) \<Rightarrow>
      if has_location then
        bind_err (typed_column the_str ''sender_account'' df) (\<lambda>accts.
        bind_err (get_column ''location'' df) (\<lambda>locs.
          let df1 = set_column ''prev_location'' (groupby_transform accts shift1 locs) df;
              df2 = set_column ''location_changed''
                      (map (\<lambda>r. CBool (cell_ne (cell_at ''location'' r) (cell_at ''prev_location'' r)))
                           (rows df1)) df1;
              df3 = set_column ''risk_location_change''
                      (map (cell_at ''location_changed'') (rows df2)) df2
          in Inr (df3, active_risks @ [(''risk_location_change'', ''Transaction location changed'')])))
      else
        Inr (set_scalar ''risk_location_change'' (CBool False)
               (set_scalar ''location_changed'' (CBool False)
                  (set_scalar ''prev_location'' CNa df)),
             active_risks))"

subsection \<open>Off-hour activity (lines 75-92)\<close>

text \<open>
  The series \<open>dominant_hour\<close>: group sizes per (account, hour) in ascending key order, sorted
  stably by account ascending and count descending, first row of every account.
\<close>

definition dominant_hour :: "(string \<times> int) list \<Rightarrow> (string \<times> int) list" where
  "dominant_hour pairs =
     (let sizes = map (\<lambda>k. (k, count_list pairs k)) (sort (remdups pairs));
          sorted = sort_key (\<lambda>kc. (fst (fst kc), - int (snd kc))) sizes;
          heads = head_from [] (\<lambda>kc. fst (fst kc)) sorted
      in map fst heads)"

definition off_hour_block :: "bool \<Rightarrow> frame \<times> risks \<Rightarrow> error + frame \<times> risks" where
  "off_hour_block has_timestamp st =
     (case st of (df, active_risks) \<Rightarrow>
      if has_timestamp then
        bind_err (typed_column the_str ''sender_account'' df) (\<lambda>accts.
          let dominant = dominant_hour (map (\<lambda>r. (str_of ''sender_account'' r, int_of ''hour'' r)) (rows df));
              df1 = set_column ''dominant_hour''
                      (map (\<lambda>a. case map_of dominant a of Some h \<Rightarrow> CInt h | None \<Rightarrow> CNa) accts) df;
              df2 = set_column ''off_hour_txn''
                      (map (\<lambda>r. CBool (cell_ne (cell_at ''hour'' r) (cell_at ''dominant_hour'' r)))
                           (rows df1)) df1;
              df3 = set_column ''risk_off_hour'' (map (cell_at ''off_hour_txn'') (rows df2)) df2
          in Inr (df3, active_risks @ [(''risk_off_hour'', ''Transaction at unusual time'')]))
      else
        Inr (set_scalar ''risk_off_hour'' (CBool False)
               (set_scalar ''off_hour_txn'' (CBool False)
                  (set_scalar ''dominant_hour'' (CInt 12) df)),
             active_risks))"

subsection \<open>Risk flags aggregation (lines 95-100)\<close>

definition base_score_block :: "frame \<times> risks \<Rightarrow> frame \<times> risks" where
  "base_score_block st =
     (case st of (df, active_risks) \<Rightarrow>
      let base_risk_cols = map fst active_risks in
      (if base_risk_cols \<noteq> [] then
         set_column ''base_risk_score''
           (map (\<lambda>r. CInt (sum_list (map (\<lambda>c. if truthy c r then 1 else 0) base_risk_cols)))
                (rows df)) df
       else set_scalar ''base_risk_score'' (CInt 0) df,
       active_risks))"

subsection \<open>Velocity simulation (lines 103-125)\<close>

text \<open>
  The body of the loop over \<open>s\<close>: the rows \<open>s * session_size\<close> up to
  \<open>(s + 1) * session_size\<close> receive the session name and, at position \<open>j\<close> of the slice,
  the first row's time stamp plus \<open>10 * j\<close> seconds.
\<close>

definition assign_session :: "nat \<Rightarrow> nat \<Rightarrow> row list \<Rightarrow> row list" where
  "assign_session session_size s rs =
     (let base_time = time_of ''timestamp'' (rs ! (s * session_size));
          session = ''SIM_SESSION_'' @ str_nat s
      in foldl (\<lambda>rs' j. rs'[s * session_size + j :=
                            AList.update ''sim_timestamp'' (CTime (base_time + 10 * int j))
                              (AList.update ''session_id'' (CStr session)
                                 (rs' ! (s * session_size + j)))])
               rs [0..<session_size])"

text \<open>The sort key \<open>["session_id", "sim_timestamp"]\<close> with \<open>na_position="last"\<close>.\<close>

definition session_key :: "row \<Rightarrow> (nat \<times> string) \<times> (nat \<times> int)" where
  "session_key r =
     ((case cell_at ''session_id'' r of CStr s \<Rightarrow> (0, s) | _ \<Rightarrow> (1, [])),
      (case cell_at ''sim_timestamp'' r of CTime t \<Rightarrow> (0, t) | _ \<Rightarrow> (1, 0)))"

definition velocity_block :: "bool \<Rightarrow> bool \<Rightarrow> frame \<times> risks \<Rightarrow> frame \<times> risks" where
  "velocity_block simulation_mode has_timestamp st =
     (case st of (df, active_risks) \<Rightarrow>
      let df1 = set_scalar ''risk_velocity_sim'' (CBool False) df;
          df2 = set_scalar ''txn_count_sim'' (CInt 1) df1;
          df3 = set_scalar ''session_id'' CNa df2;
          df4 = (if has_timestamp
                 then set_column ''sim_timestamp'' (map (cell_at ''timestamp'') (rows df3)) df3
                 else set_scalar ''sim_timestamp'' CNa df3)
      in if simulation_mode \<and> has_timestamp then
           let session_size = 5;
               num_sessions = min 100 (length (rows df4) div session_size);
               df5 = df4\<lparr>rows := foldl (\<lambda>rs s. assign_session session_size s rs) (rows df4)
                                       [0..<num_sessions]\<rparr>;
               df6 = sort_values session_key df5;
               df7 = set_column ''txn_count_sim''
                       (map (\<lambda>c. cell_add c 1) (cumcount (map (cell_at ''session_id'') (rows df6))))
                       df6;
               df8 = set_column ''risk_velocity_sim''
                       (map (\<lambda>r. CBool (cell_ge (cell_at ''txn_count_sim'' r) 3)) (rows df7)) df7
           in (df8, active_risks @ [(''risk_velocity_sim'', ''Multiple transactions in short time'')])
         else (df4, active_risks))"

subsection \<open>Final score, reasons and verdict (lines 128-169)\<close>

text \<open>\<open>{r[0]: r[1] for r in active_risks}\<close>: a dictionary keeps the order of first insertion.\<close>

definition dict_of :: "risks \<Rightarrow> risks" where
  "dict_of pairs = foldl (\<lambda>d kv. AList.update (fst kv) (snd kv) d) [] pairs"

fun build_reasons :: "risks \<Rightarrow> row \<Rightarrow> string list" where
  "build_reasons [] row = []"
| "build_reasons ((risk_col, description) # items) row =
     (if truthy risk_col row then description # build_reasons items row
      else build_reasons items row)"

record result =
  data :: frame
  attrs_active_risks :: risks
  attrs_threshold :: int
  attrs_available_features :: "string set"

definition final_block :: "string set \<Rightarrow> frame \<times> risks \<Rightarrow> result" where
  "final_block available_features st =
     (case st of (df, active_risks) \<Rightarrow>
      let df1 = set_column ''final_risk_score''
                  (map (\<lambda>r. CInt (int_of ''base_risk_score'' r
                                    + (if truthy ''risk_velocity_sim'' r then 1 else 0)))
                       (rows df)) df;
          risk_descriptions = dict_of active_risks;
          df2 = set_column ''final_reasons''
                  (map (\<lambda>r. CList (build_reasons risk_descriptions r)) (rows df1)) df1;
          total_possible_risks = length active_risks;
          threshold = select_threshold total_possible_risks;
          df3 = set_column ''final_is_anomalous''
                  (map (\<lambda>r. CBool (int_of ''final_risk_score'' r \<ge> threshold)) (rows df2)) df2
      in \<lparr>data = df3, attrs_active_risks = active_risks, attrs_threshold = threshold,
          attrs_available_features = available_features\<rparr>)"

definition process_transactions :: "frame \<Rightarrow> bool \<Rightarrow> string set option \<Rightarrow> error + result" where
  "process_transactions df simulation_mode available_features_arg =
     (let available_features =
            (case available_features_arg of None \<Rightarrow> set (columns df) | Some fs \<Rightarrow> fs);
          has_timestamp = (''timestamp'' \<in> available_features);
          has_amount = (''amount'' \<in> available_features);
          has_device = (''device_hash'' \<in> available_features);
          has_ip = (''ip_address'' \<in> available_features);
          has_location = (''location'' \<in> available_features)
      in bind_err (timestamp_block has_timestamp df) (\<lambda>df1.
         bind_err (amount_block has_amount (df1, [])) (\<lambda>st2.
         bind_err (device_block has_device st2) (\<lambda>st3.
         bind_err (ip_block has_ip st3) (\<lambda>st4.
         bind_err (location_block has_location st4) (\<lambda>st5.
         bind_err (off_hour_block has_timestamp st5) (\<lambda>st6.
           Inr (final_block available_features
                  (velocity_block simulation_mode has_timestamp (base_score_block st6))))))))))"

section \<open>Notions used in the statements\<close>

text \<open>Two rows agree on every column outside \<open>W\<close>.\<close>

definition agree_off :: "string set \<Rightarrow> row \<Rightarrow> row \<Rightarrow> bool" where
  "agree_off W r r' = (\<forall>c. c \<notin> W \<longrightarrow> map_of r' c = map_of r c)"

definition features_of :: "frame \<Rightarrow> string set option \<Rightarrow> string set" where
  "features_of df available_features_arg =
     (case available_features_arg of None \<Rightarrow> set (columns df) | Some fs \<Rightarrow> fs)"

definition base_risks :: "string set \<Rightarrow> risks" where
  "base_risks fs =
     (if ''amount'' \<in> fs then [(''risk_amount'', ''Unusual transaction amount'')] else [])
     @ (if ''device_hash'' \<in> fs then [(''risk_new_device'', ''New device detected'')] else [])
     @ (if ''ip_address'' \<in> fs then [(''risk_new_ip'', ''New IP address detected'')] else [])
     @ (if ''location'' \<in> fs then [(''risk_location_change'', ''Transaction location changed'')] else [])
     @ (if ''timestamp'' \<in> fs then [(''risk_off_hour'', ''Transaction at unusual time'')] else [])"

definition velocity_risk :: "bool \<Rightarrow> string set \<Rightarrow> risks" where
  "velocity_risk simulation_mode fs =
     (if simulation_mode \<and> ''timestamp'' \<in> fs
      then [(''risk_velocity_sim'', ''Multiple transactions in short time'')] else [])"

definition velocity_columns :: "string set" where
  "velocity_columns = {''risk_velocity_sim'', ''txn_count_sim'', ''session_id'', ''sim_timestamp''}"

definition one_record :: frame where
  "one_record =
     \<lparr>columns = [''transaction_id'', ''sender_account'', ''timestamp'', ''location''],
      rows = [[(''transaction_id'', CStr ''t1''), (''sender_account'', CStr ''A''),
               (''timestamp'', CStr ''2024-01-01T10:00:00+05:30''), (''location'', CStr ''NYC'')]]\<rparr>"

definition one_record_1 :: "frame" where
  "one_record_1 =
     \<lparr>columns = [''transaction_id'', ''sender_account'', ''timestamp'', ''location'',
     ''hour''], rows = [[(''transaction_id'', CStr ''t1''), (''sender_account'', CStr ''A''),
     (''timestamp'', CTime 1704083400), (''location'', CStr ''NYC''), (''hour'', CInt 4)]]\<rparr>"

definition one_record_2 :: "frame \<times> risks" where
  "one_record_2 =
     (\<lparr>columns = [''transaction_id'', ''sender_account'', ''timestamp'', ''location'',
     ''hour'', ''risk_amount'', ''amount_zscore''], rows = [[(''transaction_id'', CStr ''t1''),
     (''sender_account'', CStr ''A''), (''timestamp'', CTime 1704083400), (''location'', CStr
     ''NYC''), (''hour'', CInt 4), (''risk_amount'', CBool False), (''amount_zscore'', CInt
     0)]]\<rparr>, [])"

definition one_record_3 :: "frame \<times> risks" where
  "one_record_3 =
     (\<lparr>columns = [''transaction_id'', ''sender_account'', ''timestamp'', ''location'',
     ''hour'', ''risk_amount'', ''amount_zscore'', ''is_new_device'', ''risk_new_device''],
     rows = [[(''transaction_id'', CStr ''t1''), (''sender_account'', CStr ''A''), (''timestamp'',
     CTime 1704083400), (''location'', CStr ''NYC''), (''hour'', CInt 4), (''risk_amount'',
     CBool False), (''amount_zscore'', CInt 0), (''is_new_device'', CBool False), (''risk_new_device'',
     CBool False)]]\<rparr>, [])"

definition one_record_4 :: "frame \<times> risks" where
  "one_record_4 =
     (\<lparr>columns = [''transaction_id'', ''sender_account'', ''timestamp'', ''location'',
     ''hour'', ''risk_amount'', ''amount_zscore'', ''is_new_device'', ''risk_new_device'',
     ''is_new_ip'', ''risk_new_ip''], rows = [[(''transaction_id'', CStr ''t1''), (''sender_account'',
     CStr ''A''), (''timestamp'', CTime 1704083400), (''location'', CStr ''NYC''), (''hour'',
     CInt 4), (''risk_amount'', CBool False), (''amount_zscore'', CInt 0), (''is_new_device'',
     CBool False), (''risk_new_device'', CBool False), (''is_new_ip'', CBool False), (''risk_new_ip'',
     CBool False)]]\<rparr>, [])"

definition one_record_5 :: "frame \<times> risks" where
  "one_record_5 =
     (\<lparr>columns = [''transaction_id'', ''sender_account'', ''timestamp'', ''location'',
     ''hour'', ''risk_amount'', ''amount_zscore'', ''is_new_device'', ''risk_new_device'',
     ''is_new_ip'', ''risk_new_ip'', ''prev_location'', ''location_changed'', ''risk_location_change''],
     rows = [[(''transaction_id'', CStr ''t1''), (''sender_account'', CStr ''A''), (''timestamp'',
     CTime 1704083400), (''location'', CStr ''NYC''), (''hour'', CInt 4), (''risk_amount'',
     CBool False), (''amount_zscore'', CInt 0), (''is_new_device'', CBool False), (''risk_new_device'',
     CBool False), (''is_new_ip'', CBool False), (''risk_new_ip'', CBool False), (''prev_location'',
     CNa), (''location_changed'', CBool True), (''risk_location_change'', CBool True)]]\<rparr>,
     [(''risk_location_change'', ''Transaction location changed'')])"

definition one_record_6 :: "frame \<times> risks" where
  "one_record_6 =
     (\<lparr>columns = [''transaction_id'', ''sender_account'', ''timestamp'', ''location'',
     ''hour'', ''risk_amount'', ''amount_zscore'', ''is_new_device'', ''risk_new_device'',
     ''is_new_ip'', ''risk_new_ip'', ''prev_location'', ''location_changed'', ''risk_location_change'',
     ''dominant_hour'', ''off_hour_txn'', ''risk_off_hour''], rows = [[(''transaction_id'',
     CStr ''t1''), (''sender_account'', CStr ''A''), (''timestamp'', CTime 1704083400), (''location'',
     CStr ''NYC''), (''hour'', CInt 4), (''risk_amount'', CBool False), (''amount_zscore'',
     CInt 0), (''is_new_device'', CBool False), (''risk_new_device'', CBool False), (''is_new_ip'',
     CBool False), (''risk_new_ip'', CBool False), (''prev_location'', CNa), (''location_changed'',
     CBool True), (''risk_location_change'', CBool True), (''dominant_hour'', CInt 4), (''off_hour_txn'',
     CBool False), (''risk_off_hour'', CBool False)]]\<rparr>, [(''risk_location_change'',
     ''Transaction location changed''), (''risk_off_hour'', ''Transaction at unusual time'')])"

definition one_record_7 :: "frame \<times> risks" where
  "one_record_7 =
     (\<lparr>columns = [''transaction_id'', ''sender_account'', ''timestamp'', ''location'',
     ''hour'', ''risk_amount'', ''amount_zscore'', ''is_new_device'', ''risk_new_device'',
     ''is_new_ip'', ''risk_new_ip'', ''prev_location'', ''location_changed'', ''risk_location_change'',
     ''dominant_hour'', ''off_hour_txn'', ''risk_off_hour'', ''base_risk_score''], rows =
     [[(''transaction_id'', CStr ''t1''), (''sender_account'', CStr ''A''), (''timestamp'',
     CTime 1704083400), (''location'', CStr ''NYC''), (''hour'', CInt 4), (''risk_amount'',
     CBool False), (''amount_zscore'', CInt 0), (''is_new_device'', CBool False), (''risk_new_device'',
     CBool False), (''is_new_ip'', CBool False), (''risk_new_ip'', CBool False), (''prev_location'',
     CNa), (''location_changed'', CBool True), (''risk_location_change'', CBool True), (''dominant_hour'',
     CInt 4), (''off_hour_txn'', CBool False), (''risk_off_hour'', CBool False), (''base_risk_score'',
     CInt 1)]]\<rparr>, [(''risk_location_change'', ''Transaction location changed''), (''risk_off_hour'',
     ''Transaction at unusual time'')])"

definition one_record_8 :: "frame \<times> risks" where
  "one_record_8 =
     (\<lparr>columns = [''transaction_id'', ''sender_account'', ''timestamp'', ''location'',
     ''hour'', ''risk_amount'', ''amount_zscore'', ''is_new_device'', ''risk_new_device'',
     ''is_new_ip'', ''risk_new_ip'', ''prev_location'', ''location_changed'', ''risk_location_change'',
     ''dominant_hour'', ''off_hour_txn'', ''risk_off_hour'', ''base_risk_score'', ''risk_velocity_sim'',
     ''txn_count_sim'', ''session_id'', ''sim_timestamp''], rows = [[(''transaction_id'',
     CStr ''t1''), (''sender_account'', CStr ''A''), (''timestamp'', CTime 1704083400), (''location'',
     CStr ''NYC''), (''hour'', CInt 4), (''risk_amount'', CBool False), (''amount_zscore'',
     CInt 0), (''is_new_device'', CBool False), (''risk_new_device'', CBool False), (''is_new_ip'',
     CBool False), (''risk_new_ip'', CBool False), (''prev_location'', CNa), (''location_changed'',
     CBool True), (''risk_location_change'', CBool True), (''dominant_hour'', CInt 4), (''off_hour_txn'',
     CBool False), (''risk_off_hour'', CBool False), (''base_risk_score'', CInt 1), (''risk_velocity_sim'',
     CBool False), (''txn_count_sim'', CNa), (''session_id'', CNa), (''sim_timestamp'', CTime
     1704083400)]]\<rparr>, [(''risk_location_change'', ''Transaction location changed''),
     (''risk_off_hour'', ''Transaction at unusual time''), (''risk_velocity_sim'', ''Multiple transactions in short time'')])"

definition one_record_9 :: "result" where
  "one_record_9 =
     \<lparr>data = \<lparr>columns = [''transaction_id'', ''sender_account'', ''timestamp'',
     ''location'', ''hour'', ''risk_amount'', ''amount_zscore'', ''is_new_device'', ''risk_new_device'',
     ''is_new_ip'', ''risk_new_ip'', ''prev_location'', ''location_changed'', ''risk_location_change'',
     ''dominant_hour'', ''off_hour_txn'', ''risk_off_hour'', ''base_risk_score'', ''risk_velocity_sim'',
     ''txn_count_sim'', ''session_id'', ''sim_timestamp'', ''final_risk_score'', ''final_reasons'',
     ''final_is_anomalous''], rows = [[(''transaction_id'', CStr ''t1''), (''sender_account'',
     CStr ''A''), (''timestamp'', CTime 1704083400), (''location'', CStr ''NYC''), (''hour'',
     CInt 4), (''risk_amount'', CBool False), (''amount_zscore'', CInt 0), (''is_new_device'',
     CBool False), (''risk_new_device'', CBool False), (''is_new_ip'', CBool False), (''risk_new_ip'',
     CBool False), (''prev_location'', CNa), (''location_changed'', CBool True), (''risk_location_change'',
     CBool True), (''dominant_hour'', CInt 4), (''off_hour_txn'', CBool False), (''risk_off_hour'',
     CBool False), (''base_risk_score'', CInt 1), (''risk_velocity_sim'', CBool False), (''txn_count_sim'',
     CNa), (''session_id'', CNa), (''sim_timestamp'', CTime 1704083400), (''final_risk_score'',
     CInt 1), (''final_reasons'', CList [''Transaction location changed'']), (''final_is_anomalous'',
     CBool False)]]\<rparr>, attrs_active_risks = [(''risk_location_change'', ''Transaction location changed''),
     (''risk_off_hour'', ''Transaction at unusual time''), (''risk_velocity_sim'', ''Multiple transactions in short time'')],
     attrs_threshold = 3, attrs_available_features = {''transaction_id'', ''sender_account'',
     ''timestamp'', ''location''}\<rparr>"

definition bare_records :: frame where
  "bare_records =
     \<lparr>columns = [''transaction_id'', ''sender_account''],
      rows = [[(''transaction_id'', CStr ''t1''), (''sender_account'', CStr ''A'')],
              [(''transaction_id'', CStr ''t2''), (''sender_account'', CStr ''B'')]]\<rparr>"

definition bare_records_1 :: "frame" where
  "bare_records_1 =
     \<lparr>columns = [''transaction_id'', ''sender_account'', ''hour''], rows = [[(''transaction_id'',
     CStr ''t1''), (''sender_account'', CStr ''A''), (''hour'', CInt 12)], [(''transaction_id'',
     CStr ''t2''), (''sender_account'', CStr ''B''), (''hour'', CInt 12)]]\<rparr>"

definition bare_records_2 :: "frame \<times> risks" where
  "bare_records_2 =
     (\<lparr>columns = [''transaction_id'', ''sender_account'', ''hour'', ''risk_amount'',
     ''amount_zscore''], rows = [[(''transaction_id'', CStr ''t1''), (''sender_account'',
     CStr ''A''), (''hour'', CInt 12), (''risk_amount'', CBool False), (''amount_zscore'',
     CInt 0)], [(''transaction_id'', CStr ''t2''), (''sender_account'', CStr ''B''), (''hour'',
     CInt 12), (''risk_amount'', CBool False), (''amount_zscore'', CInt 0)]]\<rparr>, [])"

definition bare_records_3 :: "frame \<times> risks" where
  "bare_records_3 =
     (\<lparr>columns = [''transaction_id'', ''sender_account'', ''hour'', ''risk_amount'',
     ''amount_zscore'', ''is_new_device'', ''risk_new_device''], rows = [[(''transaction_id'',
     CStr ''t1''), (''sender_account'', CStr ''A''), (''hour'', CInt 12), (''risk_amount'',
     CBool False), (''amount_zscore'', CInt 0), (''is_new_device'', CBool False), (''risk_new_device'',
     CBool False)], [(''transaction_id'', CStr ''t2''), (''sender_account'', CStr ''B''),
     (''hour'', CInt 12), (''risk_amount'', CBool False), (''amount_zscore'', CInt 0), (''is_new_device'',
     CBool False), (''risk_new_device'', CBool False)]]\<rparr>, [])"

definition bare_records_4 :: "frame \<times> risks" where
  "bare_records_4 =
     (\<lparr>columns = [''transaction_id'', ''sender_account'', ''hour'', ''risk_amount'',
     ''amount_zscore'', ''is_new_device'', ''risk_new_device'', ''is_new_ip'', ''risk_new_ip''],
     rows = [[(''transaction_id'', CStr ''t1''), (''sender_account'', CStr ''A''), (''hour'',
     CInt 12), (''risk_amount'', CBool False), (''amount_zscore'', CInt 0), (''is_new_device'',
     CBool False), (''risk_new_device'', CBool False), (''is_new_ip'', CBool False), (''risk_new_ip'',
     CBool False)], [(''transaction_id'', CStr ''t2''), (''sender_account'', CStr ''B''),
     (''hour'', CInt 12), (''risk_amount'', CBool False), (''amount_zscore'', CInt 0), (''is_new_device'',
     CBool False), (''risk_new_device'', CBool False), (''is_new_ip'', CBool False), (''risk_new_ip'',
     CBool False)]]\<rparr>, [])"

definition bare_records_5 :: "frame \<times> risks" where
  "bare_records_5 =
     (\<lparr>columns = [''transaction_id'', ''sender_account'', ''hour'', ''risk_amount'',
     ''amount_zscore'', ''is_new_device'', ''risk_new_device'', ''is_new_ip'', ''risk_new_ip'',
     ''prev_location'', ''location_changed'', ''risk_location_change''], rows = [[(''transaction_id'',
     CStr ''t1''), (''sender_account'', CStr ''A''), (''hour'', CInt 12), (''risk_amount'',
     CBool False), (''amount_zscore'', CInt 0), (''is_new_device'', CBool False), (''risk_new_device'',
     CBool False), (''is_new_ip'', CBool False), (''risk_new_ip'', CBool False), (''prev_location'',
     CNa), (''location_changed'', CBool False), (''risk_location_change'', CBool False)],
     [(''transaction_id'', CStr ''t2''), (''sender_account'', CStr ''B''), (''hour'', CInt
     12), (''risk_amount'', CBool False), (''amount_zscore'', CInt 0), (''is_new_device'',
     CBool False), (''risk_new_device'', CBool False), (''is_new_ip'', CBool False), (''risk_new_ip'',
     CBool False), (''prev_location'', CNa), (''location_changed'', CBool False), (''risk_location_change'',
     CBool False)]]\<rparr>, [])"

definition bare_records_6 :: "frame \<times> risks" where
  "bare_records_6 =
     (\<lparr>columns = [''transaction_id'', ''sender_account'', ''hour'', ''risk_amount'',
     ''amount_zscore'', ''is_new_device'', ''risk_new_device'', ''is_new_ip'', ''risk_new_ip'',
     ''prev_location'', ''location_changed'', ''risk_location_change'', ''dominant_hour'',
     ''off_hour_txn'', ''risk_off_hour''], rows = [[(''transaction_id'', CStr ''t1''), (''sender_account'',
     CStr ''A''), (''hour'', CInt 12), (''risk_amount'', CBool False), (''amount_zscore'',
     CInt 0), (''is_new_device'', CBool False), (''risk_new_device'', CBool False), (''is_new_ip'',
     CBool False), (''risk_new_ip'', CBool False), (''prev_location'', CNa), (''location_changed'',
     CBool False), (''risk_location_change'', CBool False), (''dominant_hour'', CInt 12),
     (''off_hour_txn'', CBool False), (''risk_off_hour'', CBool False)], [(''transaction_id'',
     CStr ''t2''), (''sender_account'', CStr ''B''), (''hour'', CInt 12), (''risk_amount'',
     CBool False), (''amount_zscore'', CInt 0), (''is_new_device'', CBool False), (''risk_new_device'',
     CBool False), (''is_new_ip'', CBool False), (''risk_new_ip'', CBool False), (''prev_location'',
     CNa), (''location_changed'', CBool False), (''risk_location_change'', CBool False), (''dominant_hour'',
     CInt 12), (''off_hour_txn'', CBool False), (''risk_off_hour'', CBool False)]]\<rparr>,
     [])"

definition bare_records_7 :: "frame \<times> risks" where
  "bare_records_7 =
     (\<lparr>columns = [''transaction_id'', ''sender_account'', ''hour'', ''risk_amount'',
     ''amount_zscore'', ''is_new_device'', ''risk_new_device'', ''is_new_ip'', ''risk_new_ip'',
     ''prev_location'', ''location_changed'', ''risk_location_change'', ''dominant_hour'',
     ''off_hour_txn'', ''risk_off_hour'', ''base_risk_score''], rows = [[(''transaction_id'',
     CStr ''t1''), (''sender_account'', CStr ''A''), (''hour'', CInt 12), (''risk_amount'',
     CBool False), (''amount_zscore'', CInt 0), (''is_new_device'', CBool False), (''risk_new_device'',
     CBool False), (''is_new_ip'', CBool False), (''risk_new_ip'', CBool False), (''prev_location'',
     CNa), (''location_changed'', CBool False), (''risk_location_change'', CBool False), (''dominant_hour'',
     CInt 12), (''off_hour_txn'', CBool False), (''risk_off_hour'', CBool False), (''base_risk_score'',
     CInt 0)], [(''transaction_id'', CStr ''t2''), (''sender_account'', CStr ''B''), (''hour'',
     CInt 12), (''risk_amount'', CBool False), (''amount_zscore'', CInt 0), (''is_new_device'',
     CBool False), (''risk_new_device'', CBool False), (''is_new_ip'', CBool False), (''risk_new_ip'',
     CBool False), (''prev_location'', CNa), (''location_changed'', CBool False), (''risk_location_change'',
     CBool False), (''dominant_hour'', CInt 12), (''off_hour_txn'', CBool False), (''risk_off_hour'',
     CBool False), (''base_risk_score'', CInt 0)]]\<rparr>, [])"

definition bare_records_8 :: "frame \<times> risks" where
  "bare_records_8 =
     (\<lparr>columns = [''transaction_id'', ''sender_account'', ''hour'', ''risk_amount'',
     ''amount_zscore'', ''is_new_device'', ''risk_new_device'', ''is_new_ip'', ''risk_new_ip'',
     ''prev_location'', ''location_changed'', ''risk_location_change'', ''dominant_hour'',
     ''off_hour_txn'', ''risk_off_hour'', ''base_risk_score'', ''risk_velocity_sim'', ''txn_count_sim'',
     ''session_id'', ''sim_timestamp''], rows = [[(''transaction_id'', CStr ''t1''), (''sender_account'',
     CStr ''A''), (''hour'', CInt 12), (''risk_amount'', CBool False), (''amount_zscore'',
     CInt 0), (''is_new_device'', CBool False), (''risk_new_device'', CBool False), (''is_new_ip'',
     CBool False), (''risk_new_ip'', CBool False), (''prev_location'', CNa), (''location_changed'',
     CBool False), (''risk_location_change'', CBool False), (''dominant_hour'', CInt 12),
     (''off_hour_txn'', CBool False), (''risk_off_hour'', CBool False), (''base_risk_score'',
     CInt 0), (''risk_velocity_sim'', CBool False), (''txn_count_sim'', CInt 1), (''session_id'',
     CNa), (''sim_timestamp'', CNa)], [(''transaction_id'', CStr ''t2''), (''sender_account'',
     CStr ''B''), (''hour'', CInt 12), (''risk_amount'', CBool False), (''amount_zscore'',
     CInt 0), (''is_new_device'', CBool False), (''risk_new_device'', CBool False), (''is_new_ip'',
     CBool False), (''risk_new_ip'', CBool False), (''prev_location'', CNa), (''location_changed'',
     CBool False), (''risk_location_change'', CBool False), (''dominant_hour'', CInt 12),
     (''off_hour_txn'', CBool False), (''risk_off_hour'', CBool False), (''base_risk_score'',
     CInt 0), (''risk_velocity_sim'', CBool False), (''txn_count_sim'', CInt 1), (''session_id'',
     CNa), (''sim_timestamp'', CNa)]]\<rparr>, [])"

definition bare_records_9 :: "result" where
  "bare_records_9 =
     \<lparr>data = \<lparr>columns = [''transaction_id'', ''sender_account'', ''hour'', ''risk_amount'',
     ''amount_zscore'', ''is_new_device'', ''risk_new_device'', ''is_new_ip'', ''risk_new_ip'',
     ''prev_location'', ''location_changed'', ''risk_location_change'', ''dominant_hour'',
     ''off_hour_txn'', ''risk_off_hour'', ''base_risk_score'', ''risk_velocity_sim'', ''txn_count_sim'',
     ''session_id'', ''sim_timestamp'', ''final_risk_score'', ''final_reasons'', ''final_is_anomalous''],
     rows = [[(''transaction_id'', CStr ''t1''), (''sender_account'', CStr ''A''), (''hour'',
     CInt 12), (''risk_amount'', CBool False), (''amount_zscore'', CInt 0), (''is_new_device'',
     CBool False), (''risk_new_device'', CBool False), (''is_new_ip'', CBool False), (''risk_new_ip'',
     CBool False), (''prev_location'', CNa), (''location_changed'', CBool False), (''risk_location_change'',
     CBool False), (''dominant_hour'', CInt 12), (''off_hour_txn'', CBool False), (''risk_off_hour'',
     CBool False), (''base_risk_score'', CInt 0), (''risk_velocity_sim'', CBool False), (''txn_count_sim'',
     CInt 1), (''session_id'', CNa), (''sim_timestamp'', CNa), (''final_risk_score'', CInt
     0), (''final_reasons'', CList []), (''final_is_anomalous'', CBool False)], [(''transaction_id'',
     CStr ''t2''), (''sender_account'', CStr ''B''), (''hour'', CInt 12), (''risk_amount'',
     CBool False), (''amount_zscore'', CInt 0), (''is_new_device'', CBool False), (''risk_new_device'',
     CBool False), (''is_new_ip'', CBool False), (''risk_new_ip'', CBool False), (''prev_location'',
     CNa), (''location_changed'', CBool False), (''risk_location_change'', CBool False), (''dominant_hour'',
     CInt 12), (''off_hour_txn'', CBool False), (''risk_off_hour'', CBool False), (''base_risk_score'',
     CInt 0), (''risk_velocity_sim'', CBool False), (''txn_count_sim'', CInt 1), (''session_id'',
     CNa), (''sim_timestamp'', CNa), (''final_risk_score'', CInt 0), (''final_reasons'', CList
     []), (''final_is_anomalous'', CBool False)]]\<rparr>, attrs_active_risks = [], attrs_threshold
     = 1, attrs_available_features = {''transaction_id'', ''sender_account''}\<rparr>"

definition derived_columns :: "string set" where
  "derived_columns =
     {''hour'', ''amount_zscore'', ''risk_amount'', ''is_new_device'', ''risk_new_device'',
      ''is_new_ip'', ''risk_new_ip'', ''prev_location'', ''location_changed'',
      ''risk_location_change'', ''dominant_hour'', ''off_hour_txn'', ''risk_off_hour'',
      ''base_risk_score'', ''risk_velocity_sim'', ''txn_count_sim'', ''session_id'',
      ''sim_timestamp'', ''final_risk_score'', ''final_reasons'', ''final_is_anomalous''}"

definition engine_columns :: "bool \<Rightarrow> string set" where
  "engine_columns has_timestamp =
     derived_columns \<union> (if has_timestamp then {''timestamp''} else {})"

definition stems_from :: "bool \<Rightarrow> row \<Rightarrow> row \<Rightarrow> bool" where
  "stems_from has_timestamp r r' =
     (agree_off (engine_columns has_timestamp) r r'
      \<and> (has_timestamp \<longrightarrow>
           (\<exists>s t. cell_at ''timestamp'' r = CStr s \<and> to_datetime s = Some t
                  \<and> cell_at ''timestamp'' r' = CTime t)))"

definition is_dominant_hour :: "(string \<times> int) list \<Rightarrow> string \<Rightarrow> int \<Rightarrow> bool" where
  "is_dominant_hour pairs a h =
     ((a, h) \<in> set pairs
      \<and> (\<forall>h'. (a, h') \<in> set pairs \<longrightarrow>
             count_list pairs (a, h') < count_list pairs (a, h)
             \<or> (count_list pairs (a, h') = count_list pairs (a, h) \<and> h \<le> h')))"

definition mid_columns :: "string set" where
  "mid_columns =
     {''amount_zscore'', ''risk_amount'', ''is_new_device'', ''risk_new_device'',
      ''is_new_ip'', ''risk_new_ip'', ''prev_location'', ''location_changed'',
      ''risk_location_change''}"

definition late_columns :: "string set" where
  "late_columns =
     {''base_risk_score'', ''risk_velocity_sim'', ''txn_count_sim'', ''session_id'',
      ''sim_timestamp'', ''final_risk_score'', ''final_reasons'', ''final_is_anomalous''}"

definition hours_by_account :: "row list \<Rightarrow> (string \<times> int) list" where
  "hours_by_account rs = map (\<lambda>r. (str_of ''sender_account'' r, int_of ''hour'' r)) rs"

definition off_hour_columns :: "string set" where
  "off_hour_columns = {''dominant_hour'', ''off_hour_txn'', ''risk_off_hour''}"

definition four_hours :: frame where
  "four_hours =
     \<lparr>columns = [''transaction_id'', ''sender_account'', ''timestamp''],
      rows = [[(''transaction_id'', CStr ''t1''), (''sender_account'', CStr ''A''),
               (''timestamp'', CStr ''2024-01-01T09:00:00Z'')],
              [(''transaction_id'', CStr ''t2''), (''sender_account'', CStr ''A''),
               (''timestamp'', CStr ''2024-01-02T09:30:00Z'')],
              [(''transaction_id'', CStr ''t3''), (''sender_account'', CStr ''A''),
               (''timestamp'', CStr ''2024-01-03T09:59:59Z'')],
              [(''transaction_id'', CStr ''t4''), (''sender_account'', CStr ''A''),
               (''timestamp'', CStr ''2024-01-04T14:00:00Z'')]]\<rparr>"

definition four_hours_1 :: "frame" where
  "four_hours_1 =
     \<lparr>columns = [''transaction_id'', ''sender_account'', ''timestamp'', ''hour''],
     rows = [[(''transaction_id'', CStr ''t1''), (''sender_account'', CStr ''A''), (''timestamp'',
     CTime 1704099600), (''hour'', CInt 9)], [(''transaction_id'', CStr ''t2''), (''sender_account'',
     CStr ''A''), (''timestamp'', CTime 1704187800), (''hour'', CInt 9)], [(''transaction_id'',
     CStr ''t3''), (''sender_account'', CStr ''A''), (''timestamp'', CTime 1704275999), (''hour'',
     CInt 9)], [(''transaction_id'', CStr ''t4''), (''sender_account'', CStr ''A''), (''timestamp'',
     CTime 1704376800), (''hour'', CInt 14)]]\<rparr>"

definition four_hours_2 :: "frame \<times> risks" where
  "four_hours_2 =
     (\<lparr>columns = [''transaction_id'', ''sender_account'', ''timestamp'', ''hour'',
     ''risk_amount'', ''amount_zscore''], rows = [[(''transaction_id'', CStr ''t1''), (''sender_account'',
     CStr ''A''), (''timestamp'', CTime 1704099600), (''hour'', CInt 9), (''risk_amount'',
     CBool False), (''amount_zscore'', CInt 0)], [(''transaction_id'', CStr ''t2''), (''sender_account'',
     CStr ''A''), (''timestamp'', CTime 1704187800), (''hour'', CInt 9), (''risk_amount'',
     CBool False), (''amount_zscore'', CInt 0)], [(''transaction_id'', CStr ''t3''), (''sender_account'',
     CStr ''A''), (''timestamp'', CTime 1704275999), (''hour'', CInt 9), (''risk_amount'',
     CBool False), (''amount_zscore'', CInt 0)], [(''transaction_id'', CStr ''t4''), (''sender_account'',
     CStr ''A''), (''timestamp'', CTime 1704376800), (''hour'', CInt 14), (''risk_amount'',
     CBool False), (''amount_zscore'', CInt 0)]]\<rparr>, [])"

definition four_hours_3 :: "frame \<times> risks" where
  "four_hours_3 =
     (\<lparr>columns = [''transaction_id'', ''sender_account'', ''timestamp'', ''hour'',
     ''risk_amount'', ''amount_zscore'', ''is_new_device'', ''risk_new_device''], rows = [[(''transaction_id'',
     CStr ''t1''), (''sender_account'', CStr ''A''), (''timestamp'', CTime 1704099600), (''hour'',
     CInt 9), (''risk_amount'', CBool False), (''amount_zscore'', CInt 0), (''is_new_device'',
     CBool False), (''risk_new_device'', CBool False)], [(''transaction_id'', CStr ''t2''),
     (''sender_account'', CStr ''A''), (''timestamp'', CTime 1704187800), (''hour'', CInt
     9), (''risk_amount'', CBool False), (''amount_zscore'', CInt 0), (''is_new_device'',
     CBool False), (''risk_new_device'', CBool False)], [(''transaction_id'', CStr ''t3''),
     (''sender_account'', CStr ''A''), (''timestamp'', CTime 1704275999), (''hour'', CInt
     9), (''risk_amount'', CBool False), (''amount_zscore'', CInt 0), (''is_new_device'',
     CBool False), (''risk_new_device'', CBool False)], [(''transaction_id'', CStr ''t4''),
     (''sender_account'', CStr ''A''), (''timestamp'', CTime 1704376800), (''hour'', CInt
     14), (''risk_amount'', CBool False), (''amount_zscore'', CInt 0), (''is_new_device'',
     CBool False), (''risk_new_device'', CBool False)]]\<rparr>, [])"

definition four_hours_4 :: "frame \<times> risks" where
  "four_hours_4 =
     (\<lparr>columns = [''transaction_id'', ''sender_account'', ''timestamp'', ''hour'',
     ''risk_amount'', ''amount_zscore'', ''is_new_device'', ''risk_new_device'', ''is_new_ip'',
     ''risk_new_ip''], rows = [[(''transaction_id'', CStr ''t1''), (''sender_account'', CStr
     ''A''), (''timestamp'', CTime 1704099600), (''hour'', CInt 9), (''risk_amount'', CBool
     False), (''amount_zscore'', CInt 0), (''is_new_device'', CBool False), (''risk_new_device'',
     CBool False), (''is_new_ip'', CBool False), (''risk_new_ip'', CBool False)], [(''transaction_id'',
     CStr ''t2''), (''sender_account'', CStr ''A''), (''timestamp'', CTime 1704187800), (''hour'',
     CInt 9), (''risk_amount'', CBool False), (''amount_zscore'', CInt 0), (''is_new_device'',
     CBool False), (''risk_new_device'', CBool False), (''is_new_ip'', CBool False), (''risk_new_ip'',
     CBool False)], [(''transaction_id'', CStr ''t3''), (''sender_account'', CStr ''A''),
     (''timestamp'', CTime 1704275999), (''hour'', CInt 9), (''risk_amount'', CBool False),
     (''amount_zscore'', CInt 0), (''is_new_device'', CBool False), (''risk_new_device'',
     CBool False), (''is_new_ip'', CBool False), (''risk_new_ip'', CBool False)], [(''transaction_id'',
     CStr ''t4''), (''sender_account'', CStr ''A''), (''timestamp'', CTime 1704376800), (''hour'',
     CInt 14), (''risk_amount'', CBool False), (''amount_zscore'', CInt 0), (''is_new_device'',
     CBool False), (''risk_new_device'', CBool False), (''is_new_ip'', CBool False), (''risk_new_ip'',
     CBool False)]]\<rparr>, [])"

definition four_hours_5 :: "frame \<times> risks" where
  "four_hours_5 =
     (\<lparr>columns = [''transaction_id'', ''sender_account'', ''timestamp'', ''hour'',
     ''risk_amount'', ''amount_zscore'', ''is_new_device'', ''risk_new_device'', ''is_new_ip'',
     ''risk_new_ip'', ''prev_location'', ''location_changed'', ''risk_location_change''],
     rows = [[(''transaction_id'', CStr ''t1''), (''sender_account'', CStr ''A''), (''timestamp'',
     CTime 1704099600), (''hour'', CInt 9), (''risk_amount'', CBool False), (''amount_zscore'',
     CInt 0), (''is_new_device'', CBool False), (''risk_new_device'', CBool False), (''is_new_ip'',
     CBool False), (''risk_new_ip'', CBool False), (''prev_location'', CNa), (''location_changed'',
     CBool False), (''risk_location_change'', CBool False)], [(''transaction_id'', CStr ''t2''),
     (''sender_account'', CStr ''A''), (''timestamp'', CTime 1704187800), (''hour'', CInt
     9), (''risk_amount'', CBool False), (''amount_zscore'', CInt 0), (''is_new_device'',
     CBool False), (''risk_new_device'', CBool False), (''is_new_ip'', CBool False), (''risk_new_ip'',
     CBool False), (''prev_location'', CNa), (''location_changed'', CBool False), (''risk_location_change'',
     CBool False)], [(''transaction_id'', CStr ''t3''), (''sender_account'', CStr ''A''),
     (''timestamp'', CTime 1704275999), (''hour'', CInt 9), (''risk_amount'', CBool False),
     (''amount_zscore'', CInt 0), (''is_new_device'', CBool False), (''risk_new_device'',
     CBool False), (''is_new_ip'', CBool False), (''risk_new_ip'', CBool False), (''prev_location'',
     CNa), (''location_changed'', CBool False), (''risk_location_change'', CBool False)],
     [(''transaction_id'', CStr ''t4''), (''sender_account'', CStr ''A''), (''timestamp'',
     CTime 1704376800), (''hour'', CInt 14), (''risk_amount'', CBool False), (''amount_zscore'',
     CInt 0), (''is_new_device'', CBool False), (''risk_new_device'', CBool False), (''is_new_ip'',
     CBool False), (''risk_new_ip'', CBool False), (''prev_location'', CNa), (''location_changed'',
     CBool False), (''risk_location_change'', CBool False)]]\<rparr>, [])"

definition four_hours_6 :: "frame \<times> risks" where
  "four_hours_6 =
     (\<lparr>columns = [''transaction_id'', ''sender_account'', ''timestamp'', ''hour'',
     ''risk_amount'', ''amount_zscore'', ''is_new_device'', ''risk_new_device'', ''is_new_ip'',
     ''risk_new_ip'', ''prev_location'', ''location_changed'', ''risk_location_change'', ''dominant_hour'',
     ''off_hour_txn'', ''risk_off_hour''], rows = [[(''transaction_id'', CStr ''t1''), (''sender_account'',
     CStr ''A''), (''timestamp'', CTime 1704099600), (''hour'', CInt 9), (''risk_amount'',
     CBool False), (''amount_zscore'', CInt 0), (''is_new_device'', CBool False), (''risk_new_device'',
     CBool False), (''is_new_ip'', CBool False), (''risk_new_ip'', CBool False), (''prev_location'',
     CNa), (''location_changed'', CBool False), (''risk_location_change'', CBool False), (''dominant_hour'',
     CInt 9), (''off_hour_txn'', CBool False), (''risk_off_hour'', CBool False)], [(''transaction_id'',
     CStr ''t2''), (''sender_account'', CStr ''A''), (''timestamp'', CTime 1704187800), (''hour'',
     CInt 9), (''risk_amount'', CBool False), (''amount_zscore'', CInt 0), (''is_new_device'',
     CBool False), (''risk_new_device'', CBool False), (''is_new_ip'', CBool False), (''risk_new_ip'',
     CBool False), (''prev_location'', CNa), (''location_changed'', CBool False), (''risk_location_change'',
     CBool False), (''dominant_hour'', CInt 9), (''off_hour_txn'', CBool False), (''risk_off_hour'',
     CBool False)], [(''transaction_id'', CStr ''t3''), (''sender_account'', CStr ''A''),
     (''timestamp'', CTime 1704275999), (''hour'', CInt 9), (''risk_amount'', CBool False),
     (''amount_zscore'', CInt 0), (''is_new_device'', CBool False), (''risk_new_device'',
     CBool False), (''is_new_ip'', CBool False), (''risk_new_ip'', CBool False), (''prev_location'',
     CNa), (''location_changed'', CBool False), (''risk_location_change'', CBool False), (''dominant_hour'',
     CInt 9), (''off_hour_txn'', CBool False), (''risk_off_hour'', CBool False)], [(''transaction_id'',
     CStr ''t4''), (''sender_account'', CStr ''A''), (''timestamp'', CTime 1704376800), (''hour'',
     CInt 14), (''risk_amount'', CBool False), (''amount_zscore'', CInt 0), (''is_new_device'',
     CBool False), (''risk_new_device'', CBool False), (''is_new_ip'', CBool False), (''risk_new_ip'',
     CBool False), (''prev_location'', CNa), (''location_changed'', CBool False), (''risk_location_change'',
     CBool False), (''dominant_hour'', CInt 9), (''off_hour_txn'', CBool True), (''risk_off_hour'',
     CBool True)]]\<rparr>, [(''risk_off_hour'', ''Transaction at unusual time'')])"

definition four_hours_7 :: "frame \<times> risks" where
  "four_hours_7 =
     (\<lparr>columns = [''transaction_id'', ''sender_account'', ''timestamp'', ''hour'',
     ''risk_amount'', ''amount_zscore'', ''is_new_device'', ''risk_new_device'', ''is_new_ip'',
     ''risk_new_ip'', ''prev_location'', ''location_changed'', ''risk_location_change'', ''dominant_hour'',
     ''off_hour_txn'', ''risk_off_hour'', ''base_risk_score''], rows = [[(''transaction_id'',
     CStr ''t1''), (''sender_account'', CStr ''A''), (''timestamp'', CTime 1704099600), (''hour'',
     CInt 9), (''risk_amount'', CBool False), (''amount_zscore'', CInt 0), (''is_new_device'',
     CBool False), (''risk_new_device'', CBool False), (''is_new_ip'', CBool False), (''risk_new_ip'',
     CBool False), (''prev_location'', CNa), (''location_changed'', CBool False), (''risk_location_change'',
     CBool False), (''dominant_hour'', CInt 9), (''off_hour_txn'', CBool False), (''risk_off_hour'',
     CBool False), (''base_risk_score'', CInt 0)], [(''transaction_id'', CStr ''t2''), (''sender_account'',
     CStr ''A''), (''timestamp'', CTime 1704187800), (''hour'', CInt 9), (''risk_amount'',
     CBool False), (''amount_zscore'', CInt 0), (''is_new_device'', CBool False), (''risk_new_device'',
     CBool False), (''is_new_ip'', CBool False), (''risk_new_ip'', CBool False), (''prev_location'',
     CNa), (''location_changed'', CBool False), (''risk_location_change'', CBool False), (''dominant_hour'',
     CInt 9), (''off_hour_txn'', CBool False), (''risk_off_hour'', CBool False), (''base_risk_score'',
     CInt 0)], [(''transaction_id'', CStr ''t3''), (''sender_account'', CStr ''A''), (''timestamp'',
     CTime 1704275999), (''hour'', CInt 9), (''risk_amount'', CBool False), (''amount_zscore'',
     CInt 0), (''is_new_device'', CBool False), (''risk_new_device'', CBool False), (''is_new_ip'',
     CBool False), (''risk_new_ip'', CBool False), (''prev_location'', CNa), (''location_changed'',
     CBool False), (''risk_location_change'', CBool False), (''dominant_hour'', CInt 9), (''off_hour_txn'',
     CBool False), (''risk_off_hour'', CBool False), (''base_risk_score'', CInt 0)], [(''transaction_id'',
     CStr ''t4''), (''sender_account'', CStr ''A''), (''timestamp'', CTime 1704376800), (''hour'',
     CInt 14), (''risk_amount'', CBool False), (''amount_zscore'', CInt 0), (''is_new_device'',
     CBool False), (''risk_new_device'', CBool False), (''is_new_ip'', CBool False), (''risk_new_ip'',
     CBool False), (''prev_location'', CNa), (''location_changed'', CBool False), (''risk_location_change'',
     CBool False), (''dominant_hour'', CInt 9), (''off_hour_txn'', CBool True), (''risk_off_hour'',
     CBool True), (''base_risk_score'', CInt 1)]]\<rparr>, [(''risk_off_hour'', ''Transaction at unusual time'')])"

definition four_hours_8 :: "frame \<times> risks" where
  "four_hours_8 =
     (\<lparr>columns = [''transaction_id'', ''sender_account'', ''timestamp'', ''hour'',
     ''risk_amount'', ''amount_zscore'', ''is_new_device'', ''risk_new_device'', ''is_new_ip'',
     ''risk_new_ip'', ''prev_location'', ''location_changed'', ''risk_location_change'', ''dominant_hour'',
     ''off_hour_txn'', ''risk_off_hour'', ''base_risk_score'', ''risk_velocity_sim'', ''txn_count_sim'',
     ''session_id'', ''sim_timestamp''], rows = [[(''transaction_id'', CStr ''t1''), (''sender_account'',
     CStr ''A''), (''timestamp'', CTime 1704099600), (''hour'', CInt 9), (''risk_amount'',
     CBool False), (''amount_zscore'', CInt 0), (''is_new_device'', CBool False), (''risk_new_device'',
     CBool False), (''is_new_ip'', CBool False), (''risk_new_ip'', CBool False), (''prev_location'',
     CNa), (''location_changed'', CBool False), (''risk_location_change'', CBool False), (''dominant_hour'',
     CInt 9), (''off_hour_txn'', CBool False), (''risk_off_hour'', CBool False), (''base_risk_score'',
     CInt 0), (''risk_velocity_sim'', CBool False), (''txn_count_sim'', CInt 1), (''session_id'',
     CNa), (''sim_timestamp'', CTime 1704099600)], [(''transaction_id'', CStr ''t2''), (''sender_account'',
     CStr ''A''), (''timestamp'', CTime 1704187800), (''hour'', CInt 9), (''risk_amount'',
     CBool False), (''amount_zscore'', CInt 0), (''is_new_device'', CBool False), (''risk_new_device'',
     CBool False), (''is_new_ip'', CBool False), (''risk_new_ip'', CBool False), (''prev_location'',
     CNa), (''location_changed'', CBool False), (''risk_location_change'', CBool False), (''dominant_hour'',
     CInt 9), (''off_hour_txn'', CBool False), (''risk_off_hour'', CBool False), (''base_risk_score'',
     CInt 0), (''risk_velocity_sim'', CBool False), (''txn_count_sim'', CInt 1), (''session_id'',
     CNa), (''sim_timestamp'', CTime 1704187800)], [(''transaction_id'', CStr ''t3''), (''sender_account'',
     CStr ''A''), (''timestamp'', CTime 1704275999), (''hour'', CInt 9), (''risk_amount'',
     CBool False), (''amount_zscore'', CInt 0), (''is_new_device'', CBool False), (''risk_new_device'',
     CBool False), (''is_new_ip'', CBool False), (''risk_new_ip'', CBool False), (''prev_location'',
     CNa), (''location_changed'', CBool False), (''risk_location_change'', CBool False), (''dominant_hour'',
     CInt 9), (''off_hour_txn'', CBool False), (''risk_off_hour'', CBool False), (''base_risk_score'',
     CInt 0), (''risk_velocity_sim'', CBool False), (''txn_count_sim'', CInt 1), (''session_id'',
     CNa), (''sim_timestamp'', CTime 1704275999)], [(''transaction_id'', CStr ''t4''), (''sender_account'',
     CStr ''A''), (''timestamp'', CTime 1704376800), (''hour'', CInt 14), (''risk_amount'',
     CBool False), (''amount_zscore'', CInt 0), (''is_new_device'', CBool False), (''risk_new_device'',
     CBool False), (''is_new_ip'', CBool False), (''risk_new_ip'', CBool False), (''prev_location'',
     CNa), (''location_changed'', CBool False), (''risk_location_change'', CBool False), (''dominant_hour'',
     CInt 9), (''off_hour_txn'', CBool True), (''risk_off_hour'', CBool True), (''base_risk_score'',
     CInt 1), (''risk_velocity_sim'', CBool False), (''txn_count_sim'', CInt 1), (''session_id'',
     CNa), (''sim_timestamp'', CTime 1704376800)]]\<rparr>, [(''risk_off_hour'', ''Transaction at unusual time'')])"

definition four_hours_9 :: "result" where
  "four_hours_9 =
     \<lparr>data = \<lparr>columns = [''transaction_id'', ''sender_account'', ''timestamp'',
     ''hour'', ''risk_amount'', ''amount_zscore'', ''is_new_device'', ''risk_new_device'',
     ''is_new_ip'', ''risk_new_ip'', ''prev_location'', ''location_changed'', ''risk_location_change'',
     ''dominant_hour'', ''off_hour_txn'', ''risk_off_hour'', ''base_risk_score'', ''risk_velocity_sim'',
     ''txn_count_sim'', ''session_id'', ''sim_timestamp'', ''final_risk_score'', ''final_reasons'',
     ''final_is_anomalous''], rows = [[(''transaction_id'', CStr ''t1''), (''sender_account'',
     CStr ''A''), (''timestamp'', CTime 1704099600), (''hour'', CInt 9), (''risk_amount'',
     CBool False), (''amount_zscore'', CInt 0), (''is_new_device'', CBool False), (''risk_new_device'',
     CBool False), (''is_new_ip'', CBool False), (''risk_new_ip'', CBool False), (''prev_location'',
     CNa), (''location_changed'', CBool False), (''risk_location_change'', CBool False), (''dominant_hour'',
     CInt 9), (''off_hour_txn'', CBool False), (''risk_off_hour'', CBool False), (''base_risk_score'',
     CInt 0), (''risk_velocity_sim'', CBool False), (''txn_count_sim'', CInt 1), (''session_id'',
     CNa), (''sim_timestamp'', CTime 1704099600), (''final_risk_score'', CInt 0), (''final_reasons'',
     CList []), (''final_is_anomalous'', CBool False)], [(''transaction_id'', CStr ''t2''),
     (''sender_account'', CStr ''A''), (''timestamp'', CTime 1704187800), (''hour'', CInt
     9), (''risk_amount'', CBool False), (''amount_zscore'', CInt 0), (''is_new_device'',
     CBool False), (''risk_new_device'', CBool False), (''is_new_ip'', CBool False), (''risk_new_ip'',
     CBool False), (''prev_location'', CNa), (''location_changed'', CBool False), (''risk_location_change'',
     CBool False), (''dominant_hour'', CInt 9), (''off_hour_txn'', CBool False), (''risk_off_hour'',
     CBool False), (''base_risk_score'', CInt 0), (''risk_velocity_sim'', CBool False), (''txn_count_sim'',
     CInt 1), (''session_id'', CNa), (''sim_timestamp'', CTime 1704187800), (''final_risk_score'',
     CInt 0), (''final_reasons'', CList []), (''final_is_anomalous'', CBool False)], [(''transaction_id'',
     CStr ''t3''), (''sender_account'', CStr ''A''), (''timestamp'', CTime 1704275999), (''hour'',
     CInt 9), (''risk_amount'', CBool False), (''amount_zscore'', CInt 0), (''is_new_device'',
     CBool False), (''risk_new_device'', CBool False), (''is_new_ip'', CBool False), (''risk_new_ip'',
     CBool False), (''prev_location'', CNa), (''location_changed'', CBool False), (''risk_location_change'',
     CBool False), (''dominant_hour'', CInt 9), (''off_hour_txn'', CBool False), (''risk_off_hour'',
     CBool False), (''base_risk_score'', CInt 0), (''risk_velocity_sim'', CBool False), (''txn_count_sim'',
     CInt 1), (''session_id'', CNa), (''sim_timestamp'', CTime 1704275999), (''final_risk_score'',
     CInt 0), (''final_reasons'', CList []), (''final_is_anomalous'', CBool False)], [(''transaction_id'',
     CStr ''t4''), (''sender_account'', CStr ''A''), (''timestamp'', CTime 1704376800), (''hour'',
     CInt 14), (''risk_amount'', CBool False), (''amount_zscore'', CInt 0), (''is_new_device'',
     CBool False), (''risk_new_device'', CBool False), (''is_new_ip'', CBool False), (''risk_new_ip'',
     CBool False), (''prev_location'', CNa), (''location_changed'', CBool False), (''risk_location_change'',
     CBool False), (''dominant_hour'', CInt 9), (''off_hour_txn'', CBool True), (''risk_off_hour'',
     CBool True), (''base_risk_score'', CInt 1), (''risk_velocity_sim'', CBool False), (''txn_count_sim'',
     CInt 1), (''session_id'', CNa), (''sim_timestamp'', CTime 1704376800), (''final_risk_score'',
     CInt 1), (''final_reasons'', CList [''Transaction at unusual time'']), (''final_is_anomalous'',
     CBool True)]]\<rparr>, attrs_active_risks = [(''risk_off_hour'', ''Transaction at unusual time'')],
     attrs_threshold = 1, attrs_available_features = {''transaction_id'', ''sender_account'',
     ''timestamp''}\<rparr>"

definition session_name :: "nat \<Rightarrow> string" where
  "session_name s = ''SIM_SESSION_'' @ str_nat s"

definition sessioned :: "nat \<Rightarrow> int \<Rightarrow> nat \<Rightarrow> row \<Rightarrow> row" where
  "sessioned s base_time j r =
     AList.update ''sim_timestamp'' (CTime (base_time + 10 * int j))
       (AList.update ''session_id'' (CStr (session_name s)) r)"

definition num_sessions :: "nat \<Rightarrow> nat" where
  "num_sessions batch_size = min 100 (batch_size div 5)"

definition prepared :: "row \<Rightarrow> row" where
  "prepared r =
     AList.update ''sim_timestamp'' (cell_at ''timestamp'' r)
       (AList.update ''session_id'' CNa
          (AList.update ''txn_count_sim'' (CInt 1)
             (AList.update ''risk_velocity_sim'' (CBool False) r)))"

definition presorted :: "row list \<Rightarrow> nat \<Rightarrow> row" where
  "presorted rs i =
     (if i < num_sessions (length rs) * 5
      then sessioned (i div 5) (time_of ''timestamp'' (rs ! (i div 5 * 5))) (i mod 5)
             (prepared (rs ! i))
      else prepared (rs ! i))"

definition simulated :: "row list \<Rightarrow> nat \<Rightarrow> row" where
  "simulated rs i =
     AList.update ''risk_velocity_sim''
       (CBool (i < num_sessions (length rs) * 5 \<and> 3 \<le> i mod 5 + 1))
       (AList.update ''txn_count_sim''
          (if i < num_sessions (length rs) * 5 then CInt (int (i mod 5) + 1) else CNa)
          (presorted rs i))"

definition seventeen_records :: frame where
  "seventeen_records =
     \<lparr>columns = [''transaction_id'', ''sender_account'', ''timestamp''],
      rows = [[(''transaction_id'', CStr ''t1''), (''sender_account'', CStr ''A''),
               (''timestamp'', CStr ''2024-01-01T08:00:00Z'')],
              [(''transaction_id'', CStr ''t2''), (''sender_account'', CStr ''B''),
               (''timestamp'', CStr ''2024-01-02T15:13:00Z'')],
              [(''transaction_id'', CStr ''t3''), (''sender_account'', CStr ''C''),
               (''timestamp'', CStr ''2024-01-03T12:26:00Z'')],
              [(''transaction_id'', CStr ''t4''), (''sender_account'', CStr ''A''),
               (''timestamp'', CStr ''2024-01-04T09:39:00Z'')],
              [(''transaction_id'', CStr ''t5''), (''sender_account'', CStr ''B''),
               (''timestamp'', CStr ''2024-01-01T16:52:00Z'')],
              [(''transaction_id'', CStr ''t6''), (''sender_account'', CStr ''C''),
               (''timestamp'', CStr ''2024-01-02T13:05:00Z'')],
              [(''transaction_id'', CStr ''t7''), (''sender_account'', CStr ''A''),
               (''timestamp'', CStr ''2024-01-03T10:18:00Z'')],
              [(''transaction_id'', CStr ''t8''), (''sender_account'', CStr ''B''),
               (''timestamp'', CStr ''2024-01-04T17:31:00Z'')],
              [(''transaction_id'', CStr ''t9''), (''sender_account'', CStr ''C''),
               (''timestamp'', CStr ''2024-01-01T14:44:00Z'')],
              [(''transaction_id'', CStr ''t10''), (''sender_account'', CStr ''A''),
               (''timestamp'', CStr ''2024-01-02T11:57:00Z'')],
              [(''transaction_id'', CStr ''t11''), (''sender_account'', CStr ''B''),
               (''timestamp'', CStr ''2024-01-03T08:10:00Z'')],
              [(''transaction_id'', CStr ''t12''), (''sender_account'', CStr ''C''),
               (''timestamp'', CStr ''2024-01-04T15:23:00Z'')],
              [(''transaction_id'', CStr ''t13''), (''sender_account'', CStr ''A''),
               (''timestamp'', CStr ''2024-01-01T12:36:00Z'')],
              [(''transaction_id'', CStr ''t14''), (''sender_account'', CStr ''B''),
               (''timestamp'', CStr ''2024-01-02T09:49:00Z'')],
              [(''transaction_id'', CStr ''t15''), (''sender_account'', CStr ''C''),
               (''timestamp'', CStr ''2024-01-03T16:02:00Z'')],
              [(''transaction_id'', CStr ''t16''), (''sender_account'', CStr ''A''),
               (''timestamp'', CStr ''2024-01-04T13:15:00Z'')],
              [(''transaction_id'', CStr ''t17''), (''sender_account'', CStr ''B''),
               (''timestamp'', CStr ''2024-01-01T10:28:00Z'')]]\<rparr>"

definition seventeen_records_1 :: "frame" where
  "seventeen_records_1 = projr (timestamp_block True seventeen_records)"

definition seventeen_records_2 :: "frame \<times> risks" where
  "seventeen_records_2 = projr (amount_block False (seventeen_records_1, []))"

definition seventeen_records_3 :: "frame \<times> risks" where
  "seventeen_records_3 = projr (device_block False seventeen_records_2)"

definition seventeen_records_4 :: "frame \<times> risks" where
  "seventeen_records_4 = projr (ip_block False seventeen_records_3)"

definition seventeen_records_5 :: "frame \<times> risks" where
  "seventeen_records_5 = projr (location_block False seventeen_records_4)"

definition seventeen_records_6 :: "frame \<times> risks" where
  "seventeen_records_6 = projr (off_hour_block True seventeen_records_5)"

definition seventeen_records_7 :: "frame \<times> risks" where
  "seventeen_records_7 = base_score_block seventeen_records_6"

definition seventeen_records_8 :: "frame \<times> risks" where
  "seventeen_records_8 = velocity_block True True seventeen_records_7"

definition seventeen_records_9 :: "result" where
  "seventeen_records_9 =
     \<lparr>data = \<lparr>columns = [''transaction_id'', ''sender_account'', ''timestamp'',
     ''hour'', ''risk_amount'', ''amount_zscore'', ''is_new_device'', ''risk_new_device'',
     ''is_new_ip'', ''risk_new_ip'', ''prev_location'', ''location_changed'', ''risk_location_change'',
     ''dominant_hour'', ''off_hour_txn'', ''risk_off_hour'', ''base_risk_score'', ''risk_velocity_sim'',
     ''txn_count_sim'', ''session_id'', ''sim_timestamp'', ''final_risk_score'', ''final_reasons'',
     ''final_is_anomalous''], rows = [[(''transaction_id'', CStr ''t1''), (''sender_account'',
     CStr ''A''), (''timestamp'', CTime 1704096000), (''hour'', CInt 8), (''risk_amount'',
     CBool False), (''amount_zscore'', CInt 0), (''is_new_device'', CBool False), (''risk_new_device'',
     CBool False), (''is_new_ip'', CBool False), (''risk_new_ip'', CBool False), (''prev_location'',
     CNa), (''location_changed'', CBool False), (''risk_location_change'', CBool False), (''dominant_hour'',
     CInt 8), (''off_hour_txn'', CBool False), (''risk_off_hour'', CBool False), (''base_risk_score'',
     CInt 0), (''risk_velocity_sim'', CBool False), (''txn_count_sim'', CInt 1), (''session_id'',
     CStr ''SIM_SESSION_0''), (''sim_timestamp'', CTime 1704096000), (''final_risk_score'',
     CInt 0), (''final_reasons'', CList []), (''final_is_anomalous'', CBool False)], [(''transaction_id'',
     CStr ''t13''), (''sender_account'', CStr ''A''), (''timestamp'', CTime 1704112560), (''hour'',
     CInt 12), (''risk_amount'', CBool False), (''amount_zscore'', CInt 0), (''is_new_device'',
     CBool False), (''risk_new_device'', CBool False), (''is_new_ip'', CBool False), (''risk_new_ip'',
     CBool False), (''prev_location'', CNa), (''location_changed'', CBool False), (''risk_location_change'',
     CBool False), (''dominant_hour'', CInt 8), (''off_hour_txn'', CBool True), (''risk_off_hour'',
     CBool True), (''base_risk_score'', CInt 1), (''risk_velocity_sim'', CBool False), (''txn_count_sim'',
     CInt 2), (''session_id'', CStr ''SIM_SESSION_0''), (''sim_timestamp'', CTime 1704096010),
     (''final_risk_score'', CInt 1), (''final_reasons'', CList [''Transaction at unusual time'']),
     (''final_is_anomalous'', CBool False)], [(''transaction_id'', CStr ''t10''), (''sender_account'',
     CStr ''A''), (''timestamp'', CTime 1704196620), (''hour'', CInt 11), (''risk_amount'',
     CBool False), (''amount_zscore'', CInt 0), (''is_new_device'', CBool False), (''risk_new_device'',
     CBool False), (''is_new_ip'', CBool False), (''risk_new_ip'', CBool False), (''prev_location'',
     CNa), (''location_changed'', CBool False), (''risk_location_change'', CBool False), (''dominant_hour'',
     CInt 8), (''off_hour_txn'', CBool True), (''risk_off_hour'', CBool True), (''base_risk_score'',
     CInt 1), (''risk_velocity_sim'', CBool True), (''txn_count_sim'', CInt 3), (''session_id'',
     CStr ''SIM_SESSION_0''), (''sim_timestamp'', CTime 1704096020), (''final_risk_score'',
     CInt 2), (''final_reasons'', CList [''Transaction at unusual time'', ''Multiple transactions in short time'']),
     (''final_is_anomalous'', CBool True)], [(''transaction_id'', CStr ''t7''), (''sender_account'',
     CStr ''A''), (''timestamp'', CTime 1704277080), (''hour'', CInt 10), (''risk_amount'',
     CBool False), (''amount_zscore'', CInt 0), (''is_new_device'', CBool False), (''risk_new_device'',
     CBool False), (''is_new_ip'', CBool False), (''risk_new_ip'', CBool False), (''prev_location'',
     CNa), (''location_changed'', CBool False), (''risk_location_change'', CBool False), (''dominant_hour'',
     CInt 8), (''off_hour_txn'', CBool True), (''risk_off_hour'', CBool True), (''base_risk_score'',
     CInt 1), (''risk_velocity_sim'', CBool True), (''txn_count_sim'', CInt 4), (''session_id'',
     CStr ''SIM_SESSION_0''), (''sim_timestamp'', CTime 1704096030), (''final_risk_score'',
     CInt 2), (''final_reasons'', CList [''Transaction at unusual time'', ''Multiple transactions in short time'']),
     (''final_is_anomalous'', CBool True)], [(''transaction_id'', CStr ''t4''), (''sender_account'',
     CStr ''A''), (''timestamp'', CTime 1704361140), (''hour'', CInt 9), (''risk_amount'',
     CBool False), (''amount_zscore'', CInt 0), (''is_new_device'', CBool False), (''risk_new_device'',
     CBool False), (''is_new_ip'', CBool False), (''risk_new_ip'', CBool False), (''prev_location'',
     CNa), (''location_changed'', CBool False), (''risk_location_change'', CBool False), (''dominant_hour'',
     CInt 8), (''off_hour_txn'', CBool True), (''risk_off_hour'', CBool True), (''base_risk_score'',
     CInt 1), (''risk_velocity_sim'', CBool True), (''txn_count_sim'', CInt 5), (''session_id'',
     CStr ''SIM_SESSION_0''), (''sim_timestamp'', CTime 1704096040), (''final_risk_score'',
     CInt 2), (''final_reasons'', CList [''Transaction at unusual time'', ''Multiple transactions in short time'']),
     (''final_is_anomalous'', CBool True)], [(''transaction_id'', CStr ''t16''), (''sender_account'',
     CStr ''A''), (''timestamp'', CTime 1704374100), (''hour'', CInt 13), (''risk_amount'',
     CBool False), (''amount_zscore'', CInt 0), (''is_new_device'', CBool False), (''risk_new_device'',
     CBool False), (''is_new_ip'', CBool False), (''risk_new_ip'', CBool False), (''prev_location'',
     CNa), (''location_changed'', CBool False), (''risk_location_change'', CBool False), (''dominant_hour'',
     CInt 8), (''off_hour_txn'', CBool True), (''risk_off_hour'', CBool True), (''base_risk_score'',
     CInt 1), (''risk_velocity_sim'', CBool False), (''txn_count_sim'', CInt 1), (''session_id'',
     CStr ''SIM_SESSION_1''), (''sim_timestamp'', CTime 1704374100), (''final_risk_score'',
     CInt 1), (''final_reasons'', CList [''Transaction at unusual time'']), (''final_is_anomalous'',
     CBool False)], [(''transaction_id'', CStr ''t17''), (''sender_account'', CStr ''B''),
     (''timestamp'', CTime 1704104880), (''hour'', CInt 10), (''risk_amount'', CBool False),
     (''amount_zscore'', CInt 0), (''is_new_device'', CBool False), (''risk_new_device'',
     CBool False), (''is_new_ip'', CBool False), (''risk_new_ip'', CBool False), (''prev_location'',
     CNa), (''location_changed'', CBool False), (''risk_location_change'', CBool False), (''dominant_hour'',
     CInt 8), (''off_hour_txn'', CBool True), (''risk_off_hour'', CBool True), (''base_risk_score'',
     CInt 1), (''risk_velocity_sim'', CBool False), (''txn_count_sim'', CInt 2), (''session_id'',
     CStr ''SIM_SESSION_1''), (''sim_timestamp'', CTime 1704374110), (''final_risk_score'',
     CInt 1), (''final_reasons'', CList [''Transaction at unusual time'']), (''final_is_anomalous'',
     CBool False)], [(''transaction_id'', CStr ''t5''), (''sender_account'', CStr ''B''),
     (''timestamp'', CTime 1704127920), (''hour'', CInt 16), (''risk_amount'', CBool False),
     (''amount_zscore'', CInt 0), (''is_new_device'', CBool False), (''risk_new_device'',
     CBool False), (''is_new_ip'', CBool False), (''risk_new_ip'', CBool False), (''prev_location'',
     CNa), (''location_changed'', CBool False), (''risk_location_change'', CBool False), (''dominant_hour'',
     CInt 8), (''off_hour_txn'', CBool True), (''risk_off_hour'', CBool True), (''base_risk_score'',
     CInt 1), (''risk_velocity_sim'', CBool True), (''txn_count_sim'', CInt 3), (''session_id'',
     CStr ''SIM_SESSION_1''), (''sim_timestamp'', CTime 1704374120), (''final_risk_score'',
     CInt 2), (''final_reasons'', CList [''Transaction at unusual time'', ''Multiple transactions in short time'']),
     (''final_is_anomalous'', CBool True)], [(''transaction_id'', CStr ''t14''), (''sender_account'',
     CStr ''B''), (''timestamp'', CTime 1704188940), (''hour'', CInt 9), (''risk_amount'',
     CBool False), (''amount_zscore'', CInt 0), (''is_new_device'', CBool False), (''risk_new_device'',
     CBool False), (''is_new_ip'', CBool False), (''risk_new_ip'', CBool False), (''prev_location'',
     CNa), (''location_changed'', CBool False), (''risk_location_change'', CBool False), (''dominant_hour'',
     CInt 8), (''off_hour_txn'', CBool True), (''risk_off_hour'', CBool True), (''base_risk_score'',
     CInt 1), (''risk_velocity_sim'', CBool True), (''txn_count_sim'', CInt 4), (''session_id'',
     CStr ''SIM_SESSION_1''), (''sim_timestamp'', CTime 1704374130), (''final_risk_score'',
     CInt 2), (''final_reasons'', CList [''Transaction at unusual time'', ''Multiple transactions in short time'']),
     (''final_is_anomalous'', CBool True)], [(''transaction_id'', CStr ''t2''), (''sender_account'',
     CStr ''B''), (''timestamp'', CTime 1704208380), (''hour'', CInt 15), (''risk_amount'',
     CBool False), (''amount_zscore'', CInt 0), (''is_new_device'', CBool False), (''risk_new_device'',
     CBool False), (''is_new_ip'', CBool False), (''risk_new_ip'', CBool False), (''prev_location'',
     CNa), (''location_changed'', CBool False), (''risk_location_change'', CBool False), (''dominant_hour'',
     CInt 8), (''off_hour_txn'', CBool True), (''risk_off_hour'', CBool True), (''base_risk_score'',
     CInt 1), (''risk_velocity_sim'', CBool True), (''txn_count_sim'', CInt 5), (''session_id'',
     CStr ''SIM_SESSION_1''), (''sim_timestamp'', CTime 1704374140), (''final_risk_score'',
     CInt 2), (''final_reasons'', CList [''Transaction at unusual time'', ''Multiple transactions in short time'']),
     (''final_is_anomalous'', CBool True)], [(''transaction_id'', CStr ''t11''), (''sender_account'',
     CStr ''B''), (''timestamp'', CTime 1704269400), (''hour'', CInt 8), (''risk_amount'',
     CBool False), (''amount_zscore'', CInt 0), (''is_new_device'', CBool False), (''risk_new_device'',
     CBool False), (''is_new_ip'', CBool False), (''risk_new_ip'', CBool False), (''prev_location'',
     CNa), (''location_changed'', CBool False), (''risk_location_change'', CBool False), (''dominant_hour'',
     CInt 8), (''off_hour_txn'', CBool False), (''risk_off_hour'', CBool False), (''base_risk_score'',
     CInt 0), (''risk_velocity_sim'', CBool False), (''txn_count_sim'', CInt 1), (''session_id'',
     CStr ''SIM_SESSION_2''), (''sim_timestamp'', CTime 1704269400), (''final_risk_score'',
     CInt 0), (''final_reasons'', CList []), (''final_is_anomalous'', CBool False)], [(''transaction_id'',
     CStr ''t8''), (''sender_account'', CStr ''B''), (''timestamp'', CTime 1704389460), (''hour'',
     CInt 17), (''risk_amount'', CBool False), (''amount_zscore'', CInt 0), (''is_new_device'',
     CBool False), (''risk_new_device'', CBool False), (''is_new_ip'', CBool False), (''risk_new_ip'',
     CBool False), (''prev_location'', CNa), (''location_changed'', CBool False), (''risk_location_change'',
     CBool False), (''dominant_hour'', CInt 8), (''off_hour_txn'', CBool True), (''risk_off_hour'',
     CBool True), (''base_risk_score'', CInt 1), (''risk_velocity_sim'', CBool False), (''txn_count_sim'',
     CInt 2), (''session_id'', CStr ''SIM_SESSION_2''), (''sim_timestamp'', CTime 1704269410),
     (''final_risk_score'', CInt 1), (''final_reasons'', CList [''Transaction at unusual time'']),
     (''final_is_anomalous'', CBool False)], [(''transaction_id'', CStr ''t9''), (''sender_account'',
     CStr ''C''), (''timestamp'', CTime 1704120240), (''hour'', CInt 14), (''risk_amount'',
     CBool False), (''amount_zscore'', CInt 0), (''is_new_device'', CBool False), (''risk_new_device'',
     CBool False), (''is_new_ip'', CBool False), (''risk_new_ip'', CBool False), (''prev_location'',
     CNa), (''location_changed'', CBool False), (''risk_location_change'', CBool False), (''dominant_hour'',
     CInt 12), (''off_hour_txn'', CBool True), (''risk_off_hour'', CBool True), (''base_risk_score'',
     CInt 1), (''risk_velocity_sim'', CBool True), (''txn_count_sim'', CInt 3), (''session_id'',
     CStr ''SIM_SESSION_2''), (''sim_timestamp'', CTime 1704269420), (''final_risk_score'',
     CInt 2), (''final_reasons'', CList [''Transaction at unusual time'', ''Multiple transactions in short time'']),
     (''final_is_anomalous'', CBool True)], [(''transaction_id'', CStr ''t6''), (''sender_account'',
     CStr ''C''), (''timestamp'', CTime 1704200700), (''hour'', CInt 13), (''risk_amount'',
     CBool False), (''amount_zscore'', CInt 0), (''is_new_device'', CBool False), (''risk_new_device'',
     CBool False), (''is_new_ip'', CBool False), (''risk_new_ip'', CBool False), (''prev_location'',
     CNa), (''location_changed'', CBool False), (''risk_location_change'', CBool False), (''dominant_hour'',
     CInt 12), (''off_hour_txn'', CBool True), (''risk_off_hour'', CBool True), (''base_risk_score'',
     CInt 1), (''risk_velocity_sim'', CBool True), (''txn_count_sim'', CInt 4), (''session_id'',
     CStr ''SIM_SESSION_2''), (''sim_timestamp'', CTime 1704269430), (''final_risk_score'',
     CInt 2), (''final_reasons'', CList [''Transaction at unusual time'', ''Multiple transactions in short time'']),
     (''final_is_anomalous'', CBool True)], [(''transaction_id'', CStr ''t3''), (''sender_account'',
     CStr ''C''), (''timestamp'', CTime 1704284760), (''hour'', CInt 12), (''risk_amount'',
     CBool False), (''amount_zscore'', CInt 0), (''is_new_device'', CBool False), (''risk_new_device'',
     CBool False), (''is_new_ip'', CBool False), (''risk_new_ip'', CBool False), (''prev_location'',
     CNa), (''location_changed'', CBool False), (''risk_location_change'', CBool False), (''dominant_hour'',
     CInt 12), (''off_hour_txn'', CBool False), (''risk_off_hour'', CBool False), (''base_risk_score'',
     CInt 0), (''risk_velocity_sim'', CBool True), (''txn_count_sim'', CInt 5), (''session_id'',
     CStr ''SIM_SESSION_2''), (''sim_timestamp'', CTime 1704269440), (''final_risk_score'',
     CInt 1), (''final_reasons'', CList [''Multiple transactions in short time'']), (''final_is_anomalous'',
     CBool False)], [(''transaction_id'', CStr ''t15''), (''sender_account'', CStr ''C''),
     (''timestamp'', CTime 1704297720), (''hour'', CInt 16), (''risk_amount'', CBool False),
     (''amount_zscore'', CInt 0), (''is_new_device'', CBool False), (''risk_new_device'',
     CBool False), (''is_new_ip'', CBool False), (''risk_new_ip'', CBool False), (''prev_location'',
     CNa), (''location_changed'', CBool False), (''risk_location_change'', CBool False), (''dominant_hour'',
     CInt 12), (''off_hour_txn'', CBool True), (''risk_off_hour'', CBool True), (''base_risk_score'',
     CInt 1), (''risk_velocity_sim'', CBool False), (''txn_count_sim'', CNa), (''session_id'',
     CNa), (''sim_timestamp'', CTime 1704297720), (''final_risk_score'', CInt 1), (''final_reasons'',
     CList [''Transaction at unusual time'']), (''final_is_anomalous'', CBool False)], [(''transaction_id'',
     CStr ''t12''), (''sender_account'', CStr ''C''), (''timestamp'', CTime 1704381780), (''hour'',
     CInt 15), (''risk_amount'', CBool False), (''amount_zscore'', CInt 0), (''is_new_device'',
     CBool False), (''risk_new_device'', CBool False), (''is_new_ip'', CBool False), (''risk_new_ip'',
     CBool False), (''prev_location'', CNa), (''location_changed'', CBool False), (''risk_location_change'',
     CBool False), (''dominant_hour'', CInt 12), (''off_hour_txn'', CBool True), (''risk_off_hour'',
     CBool True), (''base_risk_score'', CInt 1), (''risk_velocity_sim'', CBool False), (''txn_count_sim'',
     CNa), (''session_id'', CNa), (''sim_timestamp'', CTime 1704381780), (''final_risk_score'',
     CInt 1), (''final_reasons'', CList [''Transaction at unusual time'']), (''final_is_anomalous'',
     CBool False)]]\<rparr>, attrs_active_risks = [(''risk_off_hour'', ''Transaction at unusual time''),
     (''risk_velocity_sim'', ''Multiple transactions in short time'')], attrs_threshold =
     2, attrs_available_features = {''transaction_id'', ''sender_account'', ''timestamp''}\<rparr>"

section \<open>Basic facts\<close>


lemma bind_err_Inr_iff: "bind_err m f = Inr y \<longleftrightarrow> (\<exists>x. m = Inr x \<and> f x = Inr y)"
  by (cases m) (simp_all add: bind_err_def)


lemma agree_off_refl: "agree_off W r r" by (simp add: agree_off_def)

lemma agree_off_trans: "agree_off W r r' \<Longrightarrow> agree_off W' r' r'' \<Longrightarrow> agree_off (W \<union> W') r r''"
  by (simp add: agree_off_def)

lemma agree_off_mono: "agree_off W r r' \<Longrightarrow> W \<subseteq> W' \<Longrightarrow> agree_off W' r r'"
  by (auto simp add: agree_off_def)

lemma agree_off_update: "c \<in> W \<Longrightarrow> agree_off W r (AList.update c v r)"
  by (auto simp add: agree_off_def update_conv')

lemma cell_at_update: "cell_at c' (AList.update c v r) = (if c' = c then v else cell_at c' r)"
  by (simp add: cell_at_def update_conv')

lemma truthy_update: "truthy c' (AList.update c v r) = (if c' = c then v = CBool True else truthy c' r)"
  by (simp add: truthy_def update_conv')

lemma int_of_update: "int_of c' (AList.update c v r) = (if c' = c then (case v of CInt n \<Rightarrow> n | _ \<Rightarrow> 0) else int_of c' r)"
  by (simp add: int_of_def cell_at_update)

lemma agree_off_cell_at: "agree_off W r r' \<Longrightarrow> c \<notin> W \<Longrightarrow> cell_at c r' = cell_at c r"
  by (simp add: agree_off_def cell_at_def)

lemma agree_off_truthy: "agree_off W r r' \<Longrightarrow> c \<notin> W \<Longrightarrow> truthy c r' = truthy c r"
  by (simp add: agree_off_def truthy_def)

lemma agree_off_int_of: "agree_off W r r' \<Longrightarrow> c \<notin> W \<Longrightarrow> int_of c r' = int_of c r"
  by (simp add: int_of_def agree_off_cell_at)

lemma rows_set_column_map:
  "rows (set_column c (map f (rows df)) df) = map (\<lambda>r. AList.update c (f r) r) (rows df)"
  by (simp add: set_column_def zip_map2 zip_same_conv_map)

lemma rows_set_scalar: "rows (set_scalar c v df) = map (AList.update c v) (rows df)"
  by (simp add: set_scalar_def set_column_def map_zip_map2 zip_replicate2 list_eq_iff_nth_eq)

lemma rows_set_column_nth:
  "length vs = length (rows df) \<Longrightarrow> i < length (rows df) \<Longrightarrow>
   rows (set_column c vs df) ! i = AList.update c (vs ! i) (rows df ! i)"
  by (simp add: set_column_def)

lemma length_rows_set_column:
  "length vs = length (rows df) \<Longrightarrow> length (rows (set_column c vs df)) = length (rows df)"
  by (simp add: set_column_def)

lemma columns_set_column: "set (columns (set_column c vs df)) = insert c (set (columns df))"
  by (auto simp add: set_column_def)

lemma amount_block_risks:
  "amount_block h (df, a) = Inr (df', a') \<Longrightarrow>
   a' = a @ (if h then [(''risk_amount'', ''Unusual transaction amount'')] else [])"
  by (auto simp add: amount_block_def bind_err_Inr_iff Let_def split: if_splits)

lemma first_seen_block_risks:
  "first_seen_block h f n r d (df, a) = Inr (df', a') \<Longrightarrow>
   a' = a @ (if h then [(r, d)] else [])"
  by (auto simp add: first_seen_block_def bind_err_Inr_iff Let_def split: if_splits)

lemma location_block_risks:
  "location_block h (df, a) = Inr (df', a') \<Longrightarrow>
   a' = a @ (if h then [(''risk_location_change'', ''Transaction location changed'')] else [])"
  by (auto simp add: location_block_def bind_err_Inr_iff Let_def split: if_splits)

lemma off_hour_block_risks:
  "off_hour_block h (df, a) = Inr (df', a') \<Longrightarrow>
   a' = a @ (if h then [(''risk_off_hour'', ''Transaction at unusual time'')] else [])"
  by (auto simp add: off_hour_block_def bind_err_Inr_iff Let_def split: if_splits)

lemma velocity_block_risks:
  "snd (velocity_block sim ts (df, a)) =
   a @ (if sim \<and> ts then [(''risk_velocity_sim'', ''Multiple transactions in short time'')] else [])"
  by (simp add: velocity_block_def Let_def)

lemma base_score_block_risks: "snd (base_score_block (df, a)) = a"
  by (simp add: base_score_block_def Let_def)

lemma process_transactions_tail:
  assumes "process_transactions df sim af = Inr res"
  shows "\<exists>df6. res = final_block (features_of df af)
                  (velocity_block sim (''timestamp'' \<in> features_of df af)
                     (base_score_block (df6, base_risks (features_of df af))))"
proof -
  let ?fs = "features_of df af"
  from assms obtain df1 st2 st3 st4 st5 st6 where
    b2: "amount_block (''amount'' \<in> ?fs) (df1, []) = Inr st2" and
    b3: "device_block (''device_hash'' \<in> ?fs) st2 = Inr st3" and
    b4: "ip_block (''ip_address'' \<in> ?fs) st3 = Inr st4" and
    b5: "location_block (''location'' \<in> ?fs) st4 = Inr st5" and
    b6: "off_hour_block (''timestamp'' \<in> ?fs) st5 = Inr st6" and
    r: "res = final_block ?fs (velocity_block sim (''timestamp'' \<in> ?fs) (base_score_block st6))"
    unfolding process_transactions_def features_of_def Let_def bind_err_Inr_iff by auto
  have a2: "snd st2 = (if ''amount'' \<in> ?fs then [(''risk_amount'', ''Unusual transaction amount'')] else [])"
    using amount_block_risks [of _ df1 "[]" "fst st2" "snd st2"] b2 by simp
  have a3: "snd st3 = snd st2 @ (if ''device_hash'' \<in> ?fs then [(''risk_new_device'', ''New device detected'')] else [])"
    using first_seen_block_risks [of _ _ _ _ _ "fst st2" "snd st2" "fst st3" "snd st3"] b3
    by (simp add: device_block_def)
  have a4: "snd st4 = snd st3 @ (if ''ip_address'' \<in> ?fs then [(''risk_new_ip'', ''New IP address detected'')] else [])"
    using first_seen_block_risks [of _ _ _ _ _ "fst st3" "snd st3" "fst st4" "snd st4"] b4
    by (simp add: ip_block_def)
  have a5: "snd st5 = snd st4 @ (if ''location'' \<in> ?fs then [(''risk_location_change'', ''Transaction location changed'')] else [])"
    using location_block_risks [of _ "fst st4" "snd st4" "fst st5" "snd st5"] b5 by simp
  have a6: "snd st6 = snd st5 @ (if ''timestamp'' \<in> ?fs then [(''risk_off_hour'', ''Transaction at unusual time'')] else [])"
    using off_hour_block_risks [of _ "fst st5" "snd st5" "fst st6" "snd st6"] b6 by simp
  have "snd st6 = base_risks ?fs"
    unfolding base_risks_def a6 a5 a4 a3 a2 by simp
  then have "st6 = (fst st6, base_risks ?fs)" by (metis prod.collapse)
  with r show ?thesis by metis
qed

lemma rows_base_score_block:
  "rows (fst (base_score_block (df, a))) =
   map (\<lambda>r. AList.update ''base_risk_score''
               (CInt (sum_list (map (\<lambda>c. if truthy c r then 1 else 0) (map fst a)))) r) (rows df)"
  by (cases "a = []") (simp_all add: base_score_block_def Let_def rows_set_scalar rows_set_column_map)

lemma list_all2_agree_update:
  assumes "list_all2 (agree_off W) rs rs'" "c1 \<in> W" "c2 \<in> W"
  shows "list_all2 (agree_off W) rs (rs'[i := AList.update c1 v1 (AList.update c2 v2 (rs' ! i))])"
proof (cases "i < length rs'")
  case True
  have "agree_off W (rs ! i) (AList.update c1 v1 (AList.update c2 v2 (rs' ! i)))"
    using assms True by (auto simp add: agree_off_def update_conv' list_all2_conv_all_nth)
  then show ?thesis using assms(1) True
    by (auto simp add: list_all2_conv_all_nth nth_list_update)
next
  case False
  then show ?thesis using assms(1) by (simp add: list_update_beyond)
qed

lemma list_all2_agree_foldl:
  assumes "\<And>rs' j. list_all2 (agree_off W) rs rs' \<Longrightarrow> list_all2 (agree_off W) rs (step rs' j)"
  shows "list_all2 (agree_off W) rs rs0 \<Longrightarrow> list_all2 (agree_off W) rs (foldl step rs0 js)"
  by (induction js arbitrary: rs0) (simp_all add: assms)

lemma assign_session_agree:
  assumes "list_all2 (agree_off W) rs rs'" "''session_id'' \<in> W" "''sim_timestamp'' \<in> W"
  shows "list_all2 (agree_off W) rs (assign_session m s rs')"
  unfolding assign_session_def Let_def
  by (rule list_all2_agree_foldl [OF _ assms(1)]) (rule list_all2_agree_update, simp_all add: assms)

lemma simulate_agree:
  assumes "''session_id'' \<in> W" "''sim_timestamp'' \<in> W"
  shows "list_all2 (agree_off W) rs (foldl (\<lambda>rs s. assign_session m s rs) rs ss)"
  by (rule list_all2_agree_foldl [OF assign_session_agree])
     (simp_all add: assms list_all2_conv_all_nth agree_off_refl)

lemma length_cumcount: "length (cumcount ks) = length ks"
  by (simp add: cumcount_def)

lemma set_rows_set_column:
  assumes "length vs = length (rows df)" "r' \<in> set (rows (set_column c vs df))"
  shows "\<exists>r v. r \<in> set (rows df) \<and> v \<in> set vs \<and> r' = AList.update c v r"
proof -
  from assms obtain i where "i < length (rows df)" "r' = rows (set_column c vs df) ! i"
    by (metis in_set_conv_nth length_rows_set_column)
  then show ?thesis using assms(1) rows_set_column_nth [of vs df i c]
    by (metis nth_mem)
qed

lemma velocity_block_rows:
  assumes "r' \<in> set (rows (fst (velocity_block sim ts (df, a))))"
  shows "\<exists>r\<in>set (rows df). agree_off velocity_columns r r'
           \<and> (\<not> (sim \<and> ts) \<longrightarrow> cell_at ''risk_velocity_sim'' r' = CBool False)"
proof -
  define df3 where "df3 = set_scalar ''session_id'' CNa (set_scalar ''txn_count_sim'' (CInt 1)
                            (set_scalar ''risk_velocity_sim'' (CBool False) df))"
  define df4 where "df4 = (if ts then set_column ''sim_timestamp'' (map (cell_at ''timestamp'') (rows df3)) df3
                           else set_scalar ''sim_timestamp'' CNa df3)"
  have r4: "\<forall>r4\<in>set (rows df4). \<exists>r\<in>set (rows df). agree_off velocity_columns r r4
             \<and> cell_at ''risk_velocity_sim'' r4 = CBool False"
  proof -
    have r3: "rows df3 = map (\<lambda>r. AList.update ''session_id'' CNa (AList.update ''txn_count_sim'' (CInt 1)
                (AList.update ''risk_velocity_sim'' (CBool False) r))) (rows df)"
      by (simp add: df3_def rows_set_scalar)
    have "rows df4 = map (\<lambda>r. AList.update ''sim_timestamp''
                (if ts then cell_at ''timestamp'' r else CNa) r) (rows df3)"
      unfolding df4_def by (cases ts) (simp_all add: rows_set_column_map rows_set_scalar)
    then show ?thesis unfolding r3
      by (auto simp add: agree_off_def update_conv' velocity_columns_def cell_at_def)
  qed
  show ?thesis
  proof (cases "sim \<and> ts")
    case False
    then have "fst (velocity_block sim ts (df, a)) = df4"
      by (auto simp add: velocity_block_def Let_def df4_def df3_def)
    with assms r4 False show ?thesis by auto
  next
    case True
    define df5 where "df5 = df4\<lparr>rows := foldl (\<lambda>rs s. assign_session 5 s rs) (rows df4)
                                       [0..<min 100 (length (rows df4) div 5)]\<rparr>"
    define df6 where "df6 = sort_values session_key df5"
    define df7 where "df7 = set_column ''txn_count_sim''
                       (map (\<lambda>c. cell_add c 1) (cumcount (map (cell_at ''session_id'') (rows df6)))) df6"
    define df8 where "df8 = set_column ''risk_velocity_sim''
                       (map (\<lambda>r. CBool (cell_ge (cell_at ''txn_count_sim'' r) 3)) (rows df7)) df7"
    have out: "fst (velocity_block sim ts (df, a)) = df8"
      using True by (simp add: velocity_block_def Let_def df8_def df7_def df6_def df5_def df4_def df3_def)
    have "list_all2 (agree_off velocity_columns) (rows df4) (rows df5)"
      unfolding df5_def by (simp add: simulate_agree velocity_columns_def)
    then have r5: "\<forall>r5\<in>set (rows df5). \<exists>r4\<in>set (rows df4). agree_off velocity_columns r4 r5"
      by (metis in_set_conv_nth list_all2_conv_all_nth)
    have s6: "set (rows df6) = set (rows df5)" by (simp add: df6_def sort_values_def)
    from assms out have "r' \<in> set (rows df8)" by simp
    then obtain r7 where r7: "r7 \<in> set (rows df7)"
        and e8: "r' = AList.update ''risk_velocity_sim'' (CBool (cell_ge (cell_at ''txn_count_sim'' r7) 3)) r7"
      by (auto simp add: df8_def rows_set_column_map)
    have "\<exists>r6 v. r6 \<in> set (rows df6) \<and> v \<in> set (map (\<lambda>c. cell_add c 1) (cumcount (map (cell_at ''session_id'') (rows df6))))
            \<and> r7 = AList.update ''txn_count_sim'' v r6"
      by (rule set_rows_set_column) (use r7 in \<open>simp_all add: length_cumcount df7_def\<close>)
    then obtain r6 v where r6: "r6 \<in> set (rows df6)" and e7: "r7 = AList.update ''txn_count_sim'' v r6"
      by blast
    from r6 s6 r5 obtain r4 where r4': "r4 \<in> set (rows df4)" and a46: "agree_off velocity_columns r4 r6"
      by auto
    from r4 r4' obtain r where r: "r \<in> set (rows df)" and a04: "agree_off velocity_columns r r4" by auto
    have "agree_off velocity_columns r r'"
      using a04 a46 unfolding e8 e7
      by (auto simp add: agree_off_def update_conv' velocity_columns_def)
    with r True show ?thesis by auto
  qed
qed

lemma rows_final_block:
  "rows (data (final_block fs (df, a))) =
   map (\<lambda>r. let r1 = AList.update ''final_risk_score''
                        (CInt (int_of ''base_risk_score'' r + (if truthy ''risk_velocity_sim'' r then 1 else 0))) r;
                 r2 = AList.update ''final_reasons'' (CList (build_reasons (dict_of a) r1)) r1
             in AList.update ''final_is_anomalous''
                  (CBool (int_of ''final_risk_score'' r2 \<ge> select_threshold (length a))) r2)
       (rows df)"
proof -
  define df1 where "df1 = set_column ''final_risk_score''
      (map (\<lambda>r. CInt (int_of ''base_risk_score'' r + (if truthy ''risk_velocity_sim'' r then 1 else 0)))
           (rows df)) df"
  define df2 where "df2 = set_column ''final_reasons''
      (map (\<lambda>r. CList (build_reasons (dict_of a) r)) (rows df1)) df1"
  define df3 where "df3 = set_column ''final_is_anomalous''
      (map (\<lambda>r. CBool (int_of ''final_risk_score'' r \<ge> select_threshold (length a))) (rows df2)) df2"
  have "data (final_block fs (df, a)) = df3"
    by (simp add: final_block_def Let_def df3_def df2_def df1_def)
  moreover have "rows df3 = map (\<lambda>r. AList.update ''final_is_anomalous''
      (CBool (int_of ''final_risk_score'' r \<ge> select_threshold (length a))) r) (rows df2)"
    unfolding df3_def by (rule rows_set_column_map)
  moreover have "rows df2 = map (\<lambda>r. AList.update ''final_reasons''
      (CList (build_reasons (dict_of a) r)) r) (rows df1)"
    unfolding df2_def by (rule rows_set_column_map)
  moreover have "rows df1 = map (\<lambda>r. AList.update ''final_risk_score''
      (CInt (int_of ''base_risk_score'' r + (if truthy ''risk_velocity_sim'' r then 1 else 0))) r) (rows df)"
    unfolding df1_def by (rule rows_set_column_map)
  ultimately show ?thesis by (simp add: Let_def o_def)
qed

lemma final_block_attrs:
  "attrs_active_risks (final_block fs (df, a)) = a"
  "attrs_threshold (final_block fs (df, a)) = select_threshold (length a)"
  "attrs_available_features (final_block fs (df, a)) = fs"
  by (simp_all add: final_block_def Let_def)

lemma base_risks_names:
  "c \<in> fst ` set (base_risks fs) \<Longrightarrow>
   c \<in> {''risk_amount'', ''risk_new_device'', ''risk_new_ip'', ''risk_location_change'', ''risk_off_hour''}"
  by (auto simp add: base_risks_def split: if_splits)

lemma distinct_all_risks: "distinct (map fst (base_risks fs @ velocity_risk sim fs))"
  by (simp add: base_risks_def velocity_risk_def)

lemma update_fresh: "k \<notin> fst ` set al \<Longrightarrow> AList.update k v al = al @ [(k, v)]"
  by (induction al) auto

lemma dict_of_snoc: "dict_of (ps @ [p]) = AList.update (fst p) (snd p) (dict_of ps)"
  by (simp add: dict_of_def)

lemma dict_of_distinct: "distinct (map fst ps) \<Longrightarrow> dict_of ps = ps"
proof (induction ps rule: rev_induct)
  case Nil
  then show ?case by (simp add: dict_of_def)
next
  case (snoc p ps)
  then have "dict_of ps = ps" and "fst p \<notin> fst ` set ps" by auto
  then show ?case by (simp add: dict_of_snoc update_fresh)
qed

lemma build_reasons_filter:
  "build_reasons items r = map snd (filter (\<lambda>check. truthy (fst check) r) items)"
  by (induction items r rule: build_reasons.induct) simp_all

lemma count_filter_sum:
  "int (length (filter (\<lambda>check. truthy (fst check) r) items)) =
   sum_list (map (\<lambda>c. if truthy c r then 1 else 0) (map fst items))"
  by (induction items) simp_all

lemma filter_truthy_cong:
  "(\<And>c. c \<in> fst ` set items \<Longrightarrow> truthy c r = truthy c r') \<Longrightarrow>
   filter (\<lambda>check. truthy (fst check) r) items = filter (\<lambda>check. truthy (fst check) r') items"
  by (rule filter_cong) auto

text \<open>Every row of the result, described through the row it stems from.\<close>

lemma output_row:
  assumes run: "process_transactions df sim af = Inr res"
    and row: "r'' \<in> set (rows (data res))"
  defines "fs \<equiv> features_of df af"
  defines "A \<equiv> base_risks fs @ velocity_risk sim fs"
  defines "n \<equiv> int (length (filter (\<lambda>check. truthy (fst check) r'') A))"
  shows "attrs_active_risks res = A"
    and "attrs_threshold res = select_threshold (length A)"
    and "cell_at ''final_risk_score'' r'' = CInt n"
    and "cell_at ''final_reasons'' r'' = CList (map snd (filter (\<lambda>check. truthy (fst check) r'') A))"
    and "cell_at ''final_is_anomalous'' r'' = CBool (n \<ge> select_threshold (length A))"
proof -
  let ?ts = "''timestamp'' \<in> fs"
  let ?a = "base_risks fs"
  from process_transactions_tail [OF run] obtain df6 where
    res: "res = final_block fs (velocity_block sim ?ts (base_score_block (df6, ?a)))"
    unfolding fs_def by blast
  define dfb where "dfb = fst (base_score_block (df6, ?a))"
  define dfv where "dfv = fst (velocity_block sim ?ts (dfb, ?a))"
  have stb: "base_score_block (df6, ?a) = (dfb, ?a)"
    by (simp add: dfb_def base_score_block_risks prod_eq_iff)
  have stv: "velocity_block sim ?ts (dfb, ?a) = (dfv, A)"
    by (simp add: dfv_def velocity_block_risks prod_eq_iff A_def velocity_risk_def)
  have res': "res = final_block fs (dfv, A)" by (simp add: res stb stv)
  show act: "attrs_active_risks res = A" and thr: "attrs_threshold res = select_threshold (length A)"
    by (simp_all add: res' final_block_attrs)
  have dA: "dict_of A = A" unfolding A_def by (rule dict_of_distinct [OF distinct_all_risks])
  from row obtain r' where r': "r' \<in> set (rows dfv)" and
    e: "r'' = (let r1 = AList.update ''final_risk_score''
                        (CInt (int_of ''base_risk_score'' r' + (if truthy ''risk_velocity_sim'' r' then 1 else 0))) r';
                 r2 = AList.update ''final_reasons'' (CList (build_reasons A r1)) r1
             in AList.update ''final_is_anomalous''
                  (CBool (int_of ''final_risk_score'' r2 \<ge> select_threshold (length A))) r2)"
    unfolding res' rows_final_block dA by auto
  from velocity_block_rows [of r' sim ?ts dfb ?a] r' obtain r where
    r: "r \<in> set (rows dfb)" and ag: "agree_off velocity_columns r r'" and
    nov: "\<not> (sim \<and> ?ts) \<Longrightarrow> cell_at ''risk_velocity_sim'' r' = CBool False"
    unfolding dfv_def by blast
  from r obtain r0 where
    e0: "r = AList.update ''base_risk_score''
               (CInt (sum_list (map (\<lambda>c. if truthy c r0 then 1 else 0) (map fst ?a)))) r0"
    unfolding dfb_def rows_base_score_block by auto
  have base: "int_of ''base_risk_score'' r' = sum_list (map (\<lambda>c. if truthy c r0 then 1 else 0) (map fst ?a))"
    using agree_off_int_of [OF ag, of "''base_risk_score''"]
    by (simp add: velocity_columns_def e0 int_of_update)
  have t0: "truthy c r' = truthy c r0" if "c \<in> fst ` set ?a" for c
    using base_risks_names [OF that] agree_off_truthy [OF ag, of c]
    by (auto simp add: velocity_columns_def e0 truthy_update)
  have t2: "truthy c r'' = truthy c r'" if "c \<in> fst ` set A" for c
  proof -
    from that have "c \<in> {''risk_amount'', ''risk_new_device'', ''risk_new_ip'',
        ''risk_location_change'', ''risk_off_hour'', ''risk_velocity_sim''}"
      using base_risks_names [of c fs] by (auto simp add: A_def velocity_risk_def split: if_splits)
    then show ?thesis unfolding e Let_def by (auto simp add: truthy_update)
  qed
  have t1: "truthy c (AList.update ''final_risk_score'' v r') = truthy c r'" if "c \<in> fst ` set A" for c v
  proof -
    from that have "c \<in> {''risk_amount'', ''risk_new_device'', ''risk_new_ip'',
        ''risk_location_change'', ''risk_off_hour'', ''risk_velocity_sim''}"
      using base_risks_names [of c fs] by (auto simp add: A_def velocity_risk_def split: if_splits)
    then show ?thesis by (auto simp add: truthy_update)
  qed
  have sum_a: "sum_list (map (\<lambda>c. if truthy c r0 then 1 else 0) (map fst ?a))
        = (sum_list (map (\<lambda>c. if truthy c r'' then 1 else 0) (map fst ?a)) :: int)"
  proof -
    have "map (\<lambda>c. if truthy c r0 then 1 else 0) (map fst ?a)
        = map (\<lambda>c. if truthy c r'' then (1::int) else 0) (map fst ?a)"
      by (rule map_cong [OF refl]) (use t0 t2 in \<open>auto simp add: A_def\<close>)
    then show ?thesis by (rule arg_cong)
  qed
  have vel: "(if truthy ''risk_velocity_sim'' r' then 1 else 0)
        = (sum_list (map (\<lambda>c. if truthy c r'' then 1 else 0) (map fst (velocity_risk sim fs))) :: int)"
  proof (cases "sim \<and> ?ts")
    case True
    then have "truthy ''risk_velocity_sim'' r'' = truthy ''risk_velocity_sim'' r'"
      by (intro t2) (simp add: A_def velocity_risk_def)
    with True show ?thesis by (simp add: velocity_risk_def)
  next
    case False
    with nov have "\<not> truthy ''risk_velocity_sim'' r'"
      by (auto simp add: truthy_def cell_at_def split: option.splits)
    with False show ?thesis by (auto simp add: velocity_risk_def)
  qed
  have n: "n = int_of ''base_risk_score'' r' + (if truthy ''risk_velocity_sim'' r' then 1 else 0)"
    unfolding n_def count_filter_sum base sum_a vel by (simp add: A_def)
  show "cell_at ''final_risk_score'' r'' = CInt n"
    unfolding e Let_def n by (simp add: cell_at_update)
  have "filter (\<lambda>check. truthy (fst check) (AList.update ''final_risk_score''
           (CInt (int_of ''base_risk_score'' r' + (if truthy ''risk_velocity_sim'' r' then 1 else 0))) r')) A
      = filter (\<lambda>check. truthy (fst check) r'') A"
    by (rule filter_truthy_cong) (simp add: t1 t2)
  then show "cell_at ''final_reasons'' r'' = CList (map snd (filter (\<lambda>check. truthy (fst check) r'') A))"
    unfolding e Let_def by (simp add: cell_at_update build_reasons_filter)
  show "cell_at ''final_is_anomalous'' r'' = CBool (n \<ge> select_threshold (length A))"
    unfolding e Let_def n by (simp add: cell_at_update int_of_update)
qed

lemma one_record_stage1: "timestamp_block True one_record = Inr one_record_1"
  by code_simp

lemma one_record_stage2: "amount_block False (one_record_1, []) = Inr one_record_2"
  by code_simp

lemma one_record_stage3: "device_block False one_record_2 = Inr one_record_3"
  by code_simp

lemma one_record_stage4: "ip_block False one_record_3 = Inr one_record_4"
  by code_simp

lemma one_record_stage5: "location_block True one_record_4 = Inr one_record_5"
  by code_simp

lemma one_record_stage6: "off_hour_block True one_record_5 = Inr one_record_6"
  by code_simp

lemma one_record_stage7: "base_score_block one_record_6 = one_record_7"
  by code_simp

lemma one_record_stage8: "velocity_block True True one_record_7 = one_record_8"
  by code_simp

lemma one_record_stage9: "final_block (set (columns one_record)) one_record_8 = one_record_9"
  by code_simp

lemma one_record_features:
  "(''timestamp'' \<in> set (columns one_record)) = True"
  "(''amount'' \<in> set (columns one_record)) = False"
  "(''device_hash'' \<in> set (columns one_record)) = False"
  "(''ip_address'' \<in> set (columns one_record)) = False"
  "(''location'' \<in> set (columns one_record)) = True"
  by (simp_all add: one_record_def)

lemma process_one_record: "process_transactions one_record True None = Inr one_record_9"
  unfolding process_transactions_def Let_def option.case one_record_features
  by (simp only: one_record_stage1 one_record_stage2 one_record_stage3 one_record_stage4 one_record_stage5
      one_record_stage6 one_record_stage7 one_record_stage8 one_record_stage9 bind_err_def sum.case)

lemma bare_records_stage1: "timestamp_block False bare_records = Inr bare_records_1"
  by code_simp

lemma bare_records_stage2: "amount_block False (bare_records_1, []) = Inr bare_records_2"
  by code_simp

lemma bare_records_stage3: "device_block False bare_records_2 = Inr bare_records_3"
  by code_simp

lemma bare_records_stage4: "ip_block False bare_records_3 = Inr bare_records_4"
  by code_simp

lemma bare_records_stage5: "location_block False bare_records_4 = Inr bare_records_5"
  by code_simp

lemma bare_records_stage6: "off_hour_block False bare_records_5 = Inr bare_records_6"
  by code_simp

lemma bare_records_stage7: "base_score_block bare_records_6 = bare_records_7"
  by code_simp

lemma bare_records_stage8: "velocity_block True False bare_records_7 = bare_records_8"
  by code_simp

lemma bare_records_stage9: "final_block (set (columns bare_records)) bare_records_8 = bare_records_9"
  by code_simp

lemma bare_records_features:
  "(''timestamp'' \<in> set (columns bare_records)) = False"
  "(''amount'' \<in> set (columns bare_records)) = False"
  "(''device_hash'' \<in> set (columns bare_records)) = False"
  "(''ip_address'' \<in> set (columns bare_records)) = False"
  "(''location'' \<in> set (columns bare_records)) = False"
  by (simp_all add: bare_records_def)

lemma process_bare_records: "process_transactions bare_records True None = Inr bare_records_9"
  unfolding process_transactions_def Let_def option.case bare_records_features
  by (simp only: bare_records_stage1 bare_records_stage2 bare_records_stage3 bare_records_stage4 bare_records_stage5
      bare_records_stage6 bare_records_stage7 bare_records_stage8 bare_records_stage9 bind_err_def sum.case)


lemma process_transactions_attrs:
  assumes "process_transactions df sim af = Inr res"
  shows "attrs_active_risks res = base_risks (features_of df af) @ velocity_risk sim (features_of df af)"
    and "attrs_threshold res = select_threshold (length (attrs_active_risks res))"
proof -
  let ?fs = "features_of df af"
  from process_transactions_tail [OF assms] obtain df6 where
    res: "res = final_block ?fs (velocity_block sim (''timestamp'' \<in> ?fs)
                  (base_score_block (df6, base_risks ?fs)))" by blast
  define dfb where "dfb = fst (base_score_block (df6, base_risks ?fs))"
  define dfv where "dfv = fst (velocity_block sim (''timestamp'' \<in> ?fs) (dfb, base_risks ?fs))"
  have b: "base_score_block (df6, base_risks ?fs) = (dfb, base_risks ?fs)"
    by (simp add: dfb_def base_score_block_risks prod_eq_iff)
  have v: "velocity_block sim (''timestamp'' \<in> ?fs) (dfb, base_risks ?fs)
      = (dfv, base_risks ?fs @ velocity_risk sim ?fs)"
    by (simp add: dfv_def velocity_block_risks prod_eq_iff velocity_risk_def)
  show "attrs_active_risks res = base_risks ?fs @ velocity_risk sim ?fs"
    and "attrs_threshold res = select_threshold (length (attrs_active_risks res))"
    unfolding res b v by (simp_all add: final_block_attrs)
qed

text \<open>
  C1. For every record of the engine's output, the final risk score is the number of
  registered checks (the per-feature checks, and the velocity check when it is registered)
  whose boolean column is true in that record, and the record is marked anomalous exactly
  when this score reaches the selected threshold.
\<close>

theorem risk_score_counts_active_checks:
  assumes "process_transactions df simulation_mode available_features = Inr res"
    and "r \<in> set (rows (data res))"
  shows "cell_at ''final_risk_score'' r
           = CInt (int (length (filter (\<lambda>check. truthy (fst check) r) (attrs_active_risks res))))
       \<and> cell_at ''final_is_anomalous'' r
           = CBool (int (length (filter (\<lambda>check. truthy (fst check) r) (attrs_active_risks res)))
                      \<ge> attrs_threshold res)"
  using output_row [OF assms] by simp

theorem risk_score_counts_active_checks_witness:
  "process_transactions one_record True None = Inr one_record_9
   \<and> rows (data one_record_9) ! 0 \<in> set (rows (data one_record_9))
   \<and> length (filter (\<lambda>check. truthy (fst check) (rows (data one_record_9) ! 0))
               (attrs_active_risks one_record_9)) = 1
   \<and> attrs_threshold one_record_9 = 3
   \<and> cell_at ''final_risk_score'' (rows (data one_record_9) ! 0) = CInt 1
   \<and> cell_at ''final_is_anomalous'' (rows (data one_record_9) ! 0) = CBool False"
proof -
  have c: "length (filter (\<lambda>check. truthy (fst check) (rows (data one_record_9) ! 0))
               (attrs_active_risks one_record_9)) = 1"
    by code_simp
  have t: "attrs_threshold one_record_9 = 3" by code_simp
  have m: "rows (data one_record_9) ! 0 \<in> set (rows (data one_record_9))" by code_simp
  show ?thesis
    using risk_score_counts_active_checks [OF process_one_record m] process_one_record m
    unfolding c t by simp
qed



text \<open>
  C9. For every record, whatever its verdict, the reasons field is the list of the
  descriptions of the registered checks whose boolean column is true in that record, in
  the order of registration: amount, new device, new network address, location change,
  off-hour, velocity. A check that is not registered contributes no entry.
\<close>

theorem final_reasons_lists_true_active_checks:
  assumes "process_transactions df simulation_mode available_features = Inr res"
    and "r \<in> set (rows (data res))"
  shows "cell_at ''final_reasons'' r
           = CList (map snd (filter (\<lambda>check. truthy (fst check) r) (attrs_active_risks res)))
       \<and> attrs_active_risks res
           = base_risks (features_of df available_features)
             @ velocity_risk simulation_mode (features_of df available_features)"
  using output_row(1,4) [OF assms] by simp

theorem final_reasons_lists_true_active_checks_witness:
  "process_transactions one_record True None = Inr one_record_9
   \<and> rows (data one_record_9) ! 0 \<in> set (rows (data one_record_9))
   \<and> attrs_active_risks one_record_9
       = [(''risk_location_change'', ''Transaction location changed''),
          (''risk_off_hour'', ''Transaction at unusual time''),
          (''risk_velocity_sim'', ''Multiple transactions in short time'')]
   \<and> cell_at ''final_reasons'' (rows (data one_record_9) ! 0)
       = CList [''Transaction location changed'']"
proof -
  have m: "rows (data one_record_9) ! 0 \<in> set (rows (data one_record_9))" by code_simp
  have a: "attrs_active_risks one_record_9
       = [(''risk_location_change'', ''Transaction location changed''),
          (''risk_off_hour'', ''Transaction at unusual time''),
          (''risk_velocity_sim'', ''Multiple transactions in short time'')]" by code_simp
  have f: "map snd (filter (\<lambda>check. truthy (fst check) (rows (data one_record_9) ! 0))
       [(''risk_location_change'', ''Transaction location changed''),
          (''risk_off_hour'', ''Transaction at unusual time''),
          (''risk_velocity_sim'', ''Multiple transactions in short time'')])
      = [''Transaction location changed'']" by code_simp
  show ?thesis
    using final_reasons_lists_true_active_checks [OF process_one_record m] process_one_record m
    unfolding a f by simp
qed

text \<open>
  C10. Calling the engine with \<open>available_features\<close> omitted gives the same result as
  calling it with the set of the batch's column names.
\<close>

theorem default_available_features:
  "process_transactions df simulation_mode None
     = process_transactions df simulation_mode (Some (set (columns df)))"
  by (simp add: process_transactions_def)

theorem default_available_features_witness:
  "process_transactions one_record True (Some (set (columns one_record))) = Inr one_record_9"
  using default_available_features [of one_record True] process_one_record by simp

lemma agree_off_trans_same: "agree_off W r r' \<Longrightarrow> agree_off W r' r'' \<Longrightarrow> agree_off W r r''"
  by (simp add: agree_off_def)

lemma rows_rel_trans:
  "list_all2 (agree_off W) xs ys \<Longrightarrow> list_all2 (agree_off W) ys zs \<Longrightarrow> list_all2 (agree_off W) xs zs"
  by (rule list_all2_trans [of "agree_off W" "agree_off W" "agree_off W"])
     (auto intro: agree_off_trans_same)

lemma rows_rel_refl: "list_all2 (agree_off W) xs xs"
  by (simp add: list_all2_conv_all_nth agree_off_refl)

lemma set_column_rel:
  assumes "length vs = length (rows df)" "c \<in> W"
  shows "list_all2 (agree_off W) (rows df) (rows (set_column c vs df))"
  using assms
  by (simp add: list_all2_conv_all_nth length_rows_set_column rows_set_column_nth agree_off_update)

lemma set_scalar_rel: "c \<in> W \<Longrightarrow> list_all2 (agree_off W) (rows df) (rows (set_scalar c v df))"
  unfolding set_scalar_def by (rule set_column_rel) simp_all

lemma all_some_length: "all_some xs = Some ys \<Longrightarrow> length ys = length xs"
  by (induction xs arbitrary: ys) (auto split: option.splits)

lemma get_column_length: "get_column c df = Inr vs \<Longrightarrow> length vs = length (rows df)"
  by (auto simp add: get_column_def split: if_splits)

lemma typed_column_length: "typed_column rd c df = Inr xs \<Longrightarrow> length xs = length (rows df)"
  by (auto simp add: typed_column_def get_column_def dest!: all_some_length
      split: if_splits option.splits)

lemma length_groupby_transform: "length (groupby_transform keys f vals) = length vals"
  by (simp add: groupby_transform_def)

lemma amount_block_rel_on:
  assumes "amount_block h (df, a) = Inr (df', a')"
    and w: "{''amount_zscore'', ''risk_amount''} \<subseteq> W"
  shows "list_all2 (agree_off W) (rows df) (rows df')"
proof (cases h)
  case False
  with assms have "df' = set_scalar ''amount_zscore'' (CInt 0) (set_scalar ''risk_amount'' (CBool False) df)"
    by (simp add: amount_block_def)
  then show ?thesis
    by (auto intro!: rows_rel_trans [OF set_scalar_rel set_scalar_rel] simp add: w [THEN subsetD])
next
  case True
  with assms have "\<exists>accts amounts. typed_column the_str ''sender_account'' df = Inr accts \<and> typed_column the_num ''amount'' df = Inr amounts
      \<and> df' = (let df1 = set_column ''amount_zscore'' (groupby_transform accts zscore amounts) df
               in set_column ''risk_amount''
                    (map (\<lambda>r. CBool (cell_ge (cell_at ''amount_zscore'' r) 1)) (rows df1)) df1)"
    by (auto simp add: amount_block_def bind_err_Inr_iff Let_def)
  then show ?thesis
  proof (elim exE conjE)
    fix accts amounts
    assume k: "typed_column the_str ''sender_account'' df = Inr accts"
      and l: "typed_column the_num ''amount'' df = Inr amounts"
      and d: "df' = (let df1 = set_column ''amount_zscore'' (groupby_transform accts zscore amounts) df
               in set_column ''risk_amount''
                    (map (\<lambda>r. CBool (cell_ge (cell_at ''amount_zscore'' r) 1)) (rows df1)) df1)"
    define df1 where "df1 = set_column ''amount_zscore'' (groupby_transform accts zscore amounts) df"
    have 1: "list_all2 (agree_off W) (rows df) (rows df1)"
      unfolding df1_def
      by (rule set_column_rel) (use w in \<open>auto simp add: length_groupby_transform typed_column_length [OF l] velocity_columns_def\<close>)
    have 2: "list_all2 (agree_off W) (rows df1) (rows df')"
      unfolding d Let_def df1_def [symmetric]
      by (rule set_column_rel) (use w in \<open>auto simp add:  velocity_columns_def\<close>)
    from 1 2 show ?thesis by (rule rows_rel_trans)
  qed
qed

lemma amount_block_rel:
  assumes "amount_block h (df, a) = Inr (df', a')"
  shows "list_all2 (agree_off derived_columns) (rows df) (rows df')"
  using assms by (rule amount_block_rel_on) (simp add: derived_columns_def)

lemma first_seen_block_rel:
  assumes "first_seen_block h feature is_new risk description (df, a) = Inr (df', a')"
    and "is_new \<in> W" "risk \<in> W"
  shows "list_all2 (agree_off W) (rows df) (rows df')"
proof (cases h)
  case False
  with assms have "df' = set_scalar risk (CBool False) (set_scalar is_new (CBool False) df)"
    by (simp add: first_seen_block_def)
  then show ?thesis
    by (auto intro!: rows_rel_trans [OF set_scalar_rel set_scalar_rel] simp add: assms)
next
  case True
  with assms have "\<exists>accts vals. typed_column the_str ''sender_account'' df = Inr accts \<and> get_column feature df = Inr vals
      \<and> df' = (let df1 = set_column is_new (groupby_transform accts not_duplicated vals) df
               in set_column risk (map (cell_at is_new) (rows df1)) df1)"
    by (auto simp add: first_seen_block_def bind_err_Inr_iff Let_def)
  then show ?thesis
  proof (elim exE conjE)
    fix accts vals
    assume k: "typed_column the_str ''sender_account'' df = Inr accts"
      and l: "get_column feature df = Inr vals"
      and d: "df' = (let df1 = set_column is_new (groupby_transform accts not_duplicated vals) df
               in set_column risk (map (cell_at is_new) (rows df1)) df1)"
    define df1 where "df1 = set_column is_new (groupby_transform accts not_duplicated vals) df"
    have 1: "list_all2 (agree_off W) (rows df) (rows df1)"
      unfolding df1_def
      by (rule set_column_rel) (simp_all add: length_groupby_transform get_column_length [OF l] assms)
    have 2: "list_all2 (agree_off W) (rows df1) (rows df')"
      unfolding d Let_def df1_def [symmetric]
      by (rule set_column_rel) (simp_all add: assms)
    from 1 2 show ?thesis by (rule rows_rel_trans)
  qed
qed

lemma location_block_rel_on:
  assumes "location_block h (df, a) = Inr (df', a')"
    and w: "{''prev_location'', ''location_changed'', ''risk_location_change''} \<subseteq> W"
  shows "list_all2 (agree_off W) (rows df) (rows df')"
proof (cases h)
  case False
  with assms have "df' = set_scalar ''risk_location_change'' (CBool False)
               (set_scalar ''location_changed'' (CBool False)
                  (set_scalar ''prev_location'' CNa df))"
    by (simp add: location_block_def)
  then show ?thesis
    by (auto intro!: rows_rel_trans [OF set_scalar_rel rows_rel_trans [OF set_scalar_rel set_scalar_rel]]
        simp add: w [THEN subsetD])
next
  case True
  with assms have "\<exists>accts locs. typed_column the_str ''sender_account'' df = Inr accts \<and> get_column ''location'' df = Inr locs
      \<and> df' = (let df1 = set_column ''prev_location'' (groupby_transform accts shift1 locs) df;
              df2 = set_column ''location_changed''
                      (map (\<lambda>r. CBool (cell_ne (cell_at ''location'' r) (cell_at ''prev_location'' r)))
                           (rows df1)) df1
          in set_column ''risk_location_change'' (map (cell_at ''location_changed'') (rows df2)) df2)"
    by (auto simp add: location_block_def bind_err_Inr_iff Let_def)
  then show ?thesis
  proof (elim exE conjE)
    fix accts locs
    assume k: "typed_column the_str ''sender_account'' df = Inr accts"
      and l: "get_column ''location'' df = Inr locs"
      and d: "df' = (let df1 = set_column ''prev_location'' (groupby_transform accts shift1 locs) df;
              df2 = set_column ''location_changed''
                      (map (\<lambda>r. CBool (cell_ne (cell_at ''location'' r) (cell_at ''prev_location'' r)))
                           (rows df1)) df1
          in set_column ''risk_location_change'' (map (cell_at ''location_changed'') (rows df2)) df2)"
    define df1 where "df1 = set_column ''prev_location'' (groupby_transform accts shift1 locs) df"
    define df2 where "df2 = set_column ''location_changed''
                        (map (\<lambda>r. CBool (cell_ne (cell_at ''location'' r) (cell_at ''prev_location'' r)))
                             (rows df1)) df1"
    have 1: "list_all2 (agree_off W) (rows df) (rows df1)"
      unfolding df1_def
      by (rule set_column_rel) (use w in \<open>auto simp add: length_groupby_transform get_column_length [OF l] velocity_columns_def\<close>)
    have 2: "list_all2 (agree_off W) (rows df1) (rows df2)"
      unfolding df2_def by (rule set_column_rel) (use w in \<open>auto simp add:  velocity_columns_def\<close>)
    have 3: "list_all2 (agree_off W) (rows df2) (rows df')"
      unfolding d Let_def df1_def [symmetric] df2_def [symmetric]
      by (rule set_column_rel) (use w in \<open>auto simp add:  velocity_columns_def\<close>)
    from 1 2 3 show ?thesis by (blast intro: rows_rel_trans)
  qed
qed

lemma location_block_rel:
  assumes "location_block h (df, a) = Inr (df', a')"
  shows "list_all2 (agree_off derived_columns) (rows df) (rows df')"
  using assms by (rule location_block_rel_on) (simp add: derived_columns_def)

lemma off_hour_block_rel_on:
  assumes "off_hour_block h (df, a) = Inr (df', a')"
    and w: "{''dominant_hour'', ''off_hour_txn'', ''risk_off_hour''} \<subseteq> W"
  shows "list_all2 (agree_off W) (rows df) (rows df')"
proof (cases h)
  case False
  with assms have "df' = set_scalar ''risk_off_hour'' (CBool False)
               (set_scalar ''off_hour_txn'' (CBool False)
                  (set_scalar ''dominant_hour'' (CInt 12) df))"
    by (simp add: off_hour_block_def)
  then show ?thesis
    by (auto intro!: rows_rel_trans [OF set_scalar_rel rows_rel_trans [OF set_scalar_rel set_scalar_rel]]
        simp add: w [THEN subsetD])
next
  case True
  with assms have "\<exists>accts dominant. typed_column the_str ''sender_account'' df = Inr accts \<and> typed_column the_str ''sender_account'' df = Inr accts
      \<and> df' = (let df1 = set_column ''dominant_hour''
                      (map (\<lambda>a. case map_of dominant a of Some h \<Rightarrow> CInt h | None \<Rightarrow> CNa) accts) df;
              df2 = set_column ''off_hour_txn''
                      (map (\<lambda>r. CBool (cell_ne (cell_at ''hour'' r) (cell_at ''dominant_hour'' r)))
                           (rows df1)) df1
          in set_column ''risk_off_hour'' (map (cell_at ''off_hour_txn'') (rows df2)) df2)"
    by (auto simp add: off_hour_block_def bind_err_Inr_iff Let_def)
  then show ?thesis
  proof (elim exE conjE)
    fix accts dominant
    assume k: "typed_column the_str ''sender_account'' df = Inr accts"
      and l: "typed_column the_str ''sender_account'' df = Inr accts"
      and d: "df' = (let df1 = set_column ''dominant_hour''
                      (map (\<lambda>a. case map_of dominant a of Some h \<Rightarrow> CInt h | None \<Rightarrow> CNa) accts) df;
              df2 = set_column ''off_hour_txn''
                      (map (\<lambda>r. CBool (cell_ne (cell_at ''hour'' r) (cell_at ''dominant_hour'' r)))
                           (rows df1)) df1
          in set_column ''risk_off_hour'' (map (cell_at ''off_hour_txn'') (rows df2)) df2)"
    define df1 where "df1 = set_column ''dominant_hour''
                        (map (\<lambda>a. case map_of dominant a of Some h \<Rightarrow> CInt h | None \<Rightarrow> CNa) accts) df"
    define df2 where "df2 = set_column ''off_hour_txn''
                        (map (\<lambda>r. CBool (cell_ne (cell_at ''hour'' r) (cell_at ''dominant_hour'' r)))
                             (rows df1)) df1"
    have 1: "list_all2 (agree_off W) (rows df) (rows df1)"
      unfolding df1_def
      by (rule set_column_rel) (use w in \<open>auto simp add: typed_column_length [OF l] velocity_columns_def\<close>)
    have 2: "list_all2 (agree_off W) (rows df1) (rows df2)"
      unfolding df2_def by (rule set_column_rel) (use w in \<open>auto simp add:  velocity_columns_def\<close>)
    have 3: "list_all2 (agree_off W) (rows df2) (rows df')"
      unfolding d Let_def df1_def [symmetric] df2_def [symmetric]
      by (rule set_column_rel) (use w in \<open>auto simp add:  velocity_columns_def\<close>)
    from 1 2 3 show ?thesis by (blast intro: rows_rel_trans)
  qed
qed

lemma off_hour_block_rel:
  assumes "off_hour_block h (df, a) = Inr (df', a')"
  shows "list_all2 (agree_off derived_columns) (rows df) (rows df')"
  using assms by (rule off_hour_block_rel_on) (simp add: derived_columns_def)

lemma base_score_block_rel_on:
  assumes w: "{''base_risk_score''} \<subseteq> W"
  shows "list_all2 (agree_off W) (rows df) (rows (fst (base_score_block (df, a))))"
  unfolding rows_base_score_block
  using w by (auto simp add: list_all2_conv_all_nth agree_off_update)

lemma base_score_block_rel:
  "list_all2 (agree_off derived_columns) (rows df) (rows (fst (base_score_block (df, a))))"
  by (rule base_score_block_rel_on) (simp add: derived_columns_def velocity_columns_def)

lemma final_block_rel_on:
  assumes w: "{''final_risk_score'', ''final_reasons'', ''final_is_anomalous''} \<subseteq> W"
  shows "list_all2 (agree_off W) (rows df) (rows (data (final_block fs (df, a))))"
  unfolding rows_final_block
  using w by (auto simp add: list_all2_conv_all_nth Let_def agree_off_def update_conv')

lemma final_block_rel:
  "list_all2 (agree_off derived_columns) (rows df) (rows (data (final_block fs (df, a))))"
  by (rule final_block_rel_on) (simp add: derived_columns_def velocity_columns_def)

lemma rel_mset_list_all2:
  "list_all2 R xs ys \<Longrightarrow> mset ys' = mset ys \<Longrightarrow> rel_mset R (mset xs) (mset ys')"
  unfolding rel_mset_def by metis

lemma rel_mset_trans:
  assumes "rel_mset R X Y" "rel_mset S Y Z" "\<And>a b c. R a b \<Longrightarrow> S b c \<Longrightarrow> T a c"
  shows "rel_mset T X Z"
proof -
  have "(rel_mset R OO rel_mset S) X Z" using assms(1,2) by blast
  then have "rel_mset (R OO S) X Z" by (simp add: multiset.rel_compp)
  moreover have "R OO S \<le> T" using assms(3) by blast
  ultimately show ?thesis using multiset.rel_mono [of "R OO S" T] by blast
qed

lemma all_some_nth:
  "all_some xs = Some ys \<Longrightarrow> i < length xs \<Longrightarrow> xs ! i = Some (ys ! i)"
proof (induction xs arbitrary: ys i)
  case Nil
  then show ?case by simp
next
  case (Cons x xs)
  then show ?case by (cases i) (auto split: option.splits)
qed

lemma typed_column_nth:
  assumes "typed_column rd c df = Inr xs" "i < length (rows df)"
  shows "rd (cell_at c (rows df ! i)) = Some (xs ! i)"
proof -
  from assms(1) have "all_some (map rd (map (cell_at c) (rows df))) = Some xs"
    by (auto simp add: typed_column_def get_column_def split: if_splits option.splits)
  from all_some_nth [OF this, of i] assms(2) show ?thesis by simp
qed

lemma the_str_Some: "the_str v = Some s \<Longrightarrow> v = CStr s"
  by (cases v) simp_all

lemma stems_from_False: "stems_from False = agree_off derived_columns"
  by (simp add: fun_eq_iff stems_from_def engine_columns_def)

lemma timestamp_block_rel:
  assumes "timestamp_block h df = Inr df'"
  shows "rel_mset (stems_from h) (mset (rows df)) (mset (rows df'))"
proof (cases h)
  case False
  with assms have d: "df' = set_scalar ''hour'' (CInt 12) df"
    by (simp add: timestamp_block_def)
  have "list_all2 (agree_off derived_columns) (rows df) (rows df')"
    unfolding d by (rule set_scalar_rel) (simp add: derived_columns_def)
  then have "list_all2 (stems_from h) (rows df) (rows df')"
    using False by (simp add: stems_from_False)
  then show ?thesis by (rule rel_mset_list_all2) simp
next
  case True
  with assms have "\<exists>raw ts. typed_column the_str ''timestamp'' df = Inr raw
      \<and> all_some (map to_datetime raw) = Some ts
      \<and> df' = (let df1 = set_column ''timestamp'' (map CTime ts) df;
                   df2 = sort_values (\<lambda>r. (str_of ''sender_account'' r, time_of ''timestamp'' r)) df1
               in set_column ''hour'' (map (\<lambda>r. CInt (hour_of (time_of ''timestamp'' r))) (rows df2)) df2)"
    by (auto simp add: timestamp_block_def bind_err_Inr_iff Let_def split: option.splits)
  then show ?thesis
  proof (elim exE conjE)
    fix raw ts
    assume raw: "typed_column the_str ''timestamp'' df = Inr raw"
      and ts: "all_some (map to_datetime raw) = Some ts"
      and d: "df' = (let df1 = set_column ''timestamp'' (map CTime ts) df;
                   df2 = sort_values (\<lambda>r. (str_of ''sender_account'' r, time_of ''timestamp'' r)) df1
               in set_column ''hour'' (map (\<lambda>r. CInt (hour_of (time_of ''timestamp'' r))) (rows df2)) df2)"
    define df1 where "df1 = set_column ''timestamp'' (map CTime ts) df"
    define df2 where "df2 = sort_values (\<lambda>r. (str_of ''sender_account'' r, time_of ''timestamp'' r)) df1"
    have d': "df' = set_column ''hour'' (map (\<lambda>r. CInt (hour_of (time_of ''timestamp'' r))) (rows df2)) df2"
      unfolding d Let_def df1_def df2_def ..
    have lr: "length raw = length (rows df)" by (rule typed_column_length [OF raw])
    have lt: "length ts = length (rows df)" using all_some_length [OF ts] lr by simp
    have 1: "list_all2 (stems_from True) (rows df) (rows df1)"
    proof (rule list_all2_all_nthI)
      show "length (rows df) = length (rows df1)"
        unfolding df1_def by (simp add: length_rows_set_column lt)
      fix i assume i: "i < length (rows df)"
      have e: "rows df1 ! i = AList.update ''timestamp'' (CTime (ts ! i)) (rows df ! i)"
        unfolding df1_def using rows_set_column_nth [of "map CTime ts" df i] i lt by simp
      have s: "cell_at ''timestamp'' (rows df ! i) = CStr (raw ! i)"
        using typed_column_nth [OF raw i] by (rule the_str_Some)
      have p: "to_datetime (raw ! i) = Some (ts ! i)"
        using all_some_nth [OF ts, of i] i lr by simp
      show "stems_from True (rows df ! i) (rows df1 ! i)"
        unfolding stems_from_def e using s p
        by (auto simp add: cell_at_update engine_columns_def intro: agree_off_update)
    qed
    have 2: "mset (rows df2) = mset (rows df1)" by (simp add: df2_def sort_values_def)
    have 3: "list_all2 (agree_off derived_columns) (rows df2) (rows df')"
      unfolding d' by (rule set_column_rel) (simp_all add: derived_columns_def)
    have a: "rel_mset (stems_from True) (mset (rows df)) (mset (rows df2))"
      using 1 2 by (rule rel_mset_list_all2)
    have b: "rel_mset (agree_off derived_columns) (mset (rows df2)) (mset (rows df'))"
      using 3 by (rule rel_mset_list_all2) simp
    have "rel_mset (stems_from True) (mset (rows df)) (mset (rows df'))"
      using a b
    proof (rule rel_mset_trans)
      fix r r' r''
      assume "stems_from True r r'" "agree_off derived_columns r' r''"
      then show "stems_from True r r''"
        by (auto simp add: stems_from_def engine_columns_def agree_off_def cell_at_def derived_columns_def)
    qed
    with True show ?thesis by simp
  qed
qed

lemma velocity_block_rel_on:
  assumes w: "velocity_columns \<subseteq> W"
  shows "rel_mset (agree_off W) (mset (rows df))
     (mset (rows (fst (velocity_block sim ts (df, a)))))"
proof -
  define df1 where "df1 = set_scalar ''risk_velocity_sim'' (CBool False) df"
  define df2 where "df2 = set_scalar ''txn_count_sim'' (CInt 1) df1"
  define df3 where "df3 = set_scalar ''session_id'' CNa df2"
  define df4 where "df4 = (if ts then set_column ''sim_timestamp'' (map (cell_at ''timestamp'') (rows df3)) df3
                           else set_scalar ''sim_timestamp'' CNa df3)"
  have 1: "list_all2 (agree_off W) (rows df) (rows df1)"
    unfolding df1_def by (rule set_scalar_rel) (use w in \<open>auto simp add:  velocity_columns_def\<close>)
  have 2: "list_all2 (agree_off W) (rows df1) (rows df2)"
    unfolding df2_def by (rule set_scalar_rel) (use w in \<open>auto simp add:  velocity_columns_def\<close>)
  have 3: "list_all2 (agree_off W) (rows df2) (rows df3)"
    unfolding df3_def by (rule set_scalar_rel) (use w in \<open>auto simp add:  velocity_columns_def\<close>)
  have 4: "list_all2 (agree_off W) (rows df3) (rows df4)"
    unfolding df4_def
    using w by (cases ts) (auto intro!: set_scalar_rel set_column_rel simp add: velocity_columns_def)
  have r4: "list_all2 (agree_off W) (rows df) (rows df4)"
    using 1 2 3 4 by (blast intro: rows_rel_trans)
  show ?thesis
  proof (cases "sim \<and> ts")
    case False
    then have "fst (velocity_block sim ts (df, a)) = df4"
      by (auto simp add: velocity_block_def Let_def df4_def df3_def df2_def df1_def)
    with r4 show ?thesis by (simp add: rel_mset_list_all2)
  next
    case True
    define df5 where "df5 = df4\<lparr>rows := foldl (\<lambda>rs s. assign_session 5 s rs) (rows df4)
                                       [0..<min 100 (length (rows df4) div 5)]\<rparr>"
    define df6 where "df6 = sort_values session_key df5"
    define df7 where "df7 = set_column ''txn_count_sim''
                       (map (\<lambda>c. cell_add c 1) (cumcount (map (cell_at ''session_id'') (rows df6)))) df6"
    define df8 where "df8 = set_column ''risk_velocity_sim''
                       (map (\<lambda>r. CBool (cell_ge (cell_at ''txn_count_sim'' r) 3)) (rows df7)) df7"
    have out: "fst (velocity_block sim ts (df, a)) = df8"
      using True by (simp add: velocity_block_def Let_def df8_def df7_def df6_def df5_def df4_def
          df3_def df2_def df1_def)
    have 5: "list_all2 (agree_off W) (rows df4) (rows df5)"
      unfolding df5_def using w by (simp add: simulate_agree velocity_columns_def)
    have 6: "mset (rows df6) = mset (rows df5)" by (simp add: df6_def sort_values_def)
    have 7: "list_all2 (agree_off W) (rows df6) (rows df7)"
      unfolding df7_def by (rule set_column_rel) (use w in \<open>auto simp add: length_cumcount velocity_columns_def\<close>)
    have 8: "list_all2 (agree_off W) (rows df7) (rows df8)"
      unfolding df8_def by (rule set_column_rel) (use w in \<open>auto simp add:  velocity_columns_def\<close>)
    have a: "rel_mset (agree_off W) (mset (rows df)) (mset (rows df6))"
      using rows_rel_trans [OF r4 5] 6 by (rule rel_mset_list_all2)
    have b: "rel_mset (agree_off W) (mset (rows df6)) (mset (rows df8))"
      using rows_rel_trans [OF 7 8] by (rule rel_mset_list_all2) simp
    show ?thesis unfolding out using a b
      by (rule rel_mset_trans) (rule agree_off_trans_same)
  qed
qed

lemma velocity_block_rel:
  "rel_mset (agree_off derived_columns) (mset (rows df))
     (mset (rows (fst (velocity_block sim ts (df, a)))))"
  by (rule velocity_block_rel_on) (simp add: derived_columns_def velocity_columns_def)

lemma stems_from_agree:
  "stems_from h r r' \<Longrightarrow> agree_off derived_columns r' r'' \<Longrightarrow> stems_from h r r''"
  by (auto simp add: stems_from_def engine_columns_def agree_off_def cell_at_def derived_columns_def)

lemma process_transactions_stages:
  assumes "process_transactions df sim af = Inr res"
  shows "\<exists>df1 df6. timestamp_block (''timestamp'' \<in> features_of df af) df = Inr df1
           \<and> list_all2 (agree_off derived_columns) (rows df1) (rows df6)
           \<and> res = final_block (features_of df af)
                  (velocity_block sim (''timestamp'' \<in> features_of df af)
                     (base_score_block (df6, base_risks (features_of df af))))"
proof -
  let ?fs = "features_of df af"
  from assms obtain df1 st2 st3 st4 st5 st6 where
    b1: "timestamp_block (''timestamp'' \<in> ?fs) df = Inr df1" and
    b2: "amount_block (''amount'' \<in> ?fs) (df1, []) = Inr st2" and
    b3: "device_block (''device_hash'' \<in> ?fs) st2 = Inr st3" and
    b4: "ip_block (''ip_address'' \<in> ?fs) st3 = Inr st4" and
    b5: "location_block (''location'' \<in> ?fs) st4 = Inr st5" and
    b6: "off_hour_block (''timestamp'' \<in> ?fs) st5 = Inr st6" and
    r: "res = final_block ?fs (velocity_block sim (''timestamp'' \<in> ?fs) (base_score_block st6))"
    unfolding process_transactions_def features_of_def Let_def bind_err_Inr_iff by auto
  have a2: "snd st2 = (if ''amount'' \<in> ?fs then [(''risk_amount'', ''Unusual transaction amount'')] else [])"
    using amount_block_risks [of _ df1 "[]" "fst st2" "snd st2"] b2 by simp
  have a3: "snd st3 = snd st2 @ (if ''device_hash'' \<in> ?fs then [(''risk_new_device'', ''New device detected'')] else [])"
    using first_seen_block_risks [of _ _ _ _ _ "fst st2" "snd st2" "fst st3" "snd st3"] b3
    by (simp add: device_block_def)
  have a4: "snd st4 = snd st3 @ (if ''ip_address'' \<in> ?fs then [(''risk_new_ip'', ''New IP address detected'')] else [])"
    using first_seen_block_risks [of _ _ _ _ _ "fst st3" "snd st3" "fst st4" "snd st4"] b4
    by (simp add: ip_block_def)
  have a5: "snd st5 = snd st4 @ (if ''location'' \<in> ?fs then [(''risk_location_change'', ''Transaction location changed'')] else [])"
    using location_block_risks [of _ "fst st4" "snd st4" "fst st5" "snd st5"] b5 by simp
  have a6: "snd st6 = snd st5 @ (if ''timestamp'' \<in> ?fs then [(''risk_off_hour'', ''Transaction at unusual time'')] else [])"
    using off_hour_block_risks [of _ "fst st5" "snd st5" "fst st6" "snd st6"] b6 by simp
  have "snd st6 = base_risks ?fs"
    unfolding base_risks_def a6 a5 a4 a3 a2 by simp
  then have s6: "st6 = (fst st6, base_risks ?fs)" by (simp add: prod_eq_iff)
  have r2: "list_all2 (agree_off derived_columns) (rows df1) (rows (fst st2))"
    using amount_block_rel [of _ df1 "[]" "fst st2" "snd st2"] b2 by simp
  have r3: "list_all2 (agree_off derived_columns) (rows (fst st2)) (rows (fst st3))"
    using first_seen_block_rel [of _ _ _ _ _ "fst st2" "snd st2" "fst st3" "snd st3" derived_columns] b3
    by (simp add: device_block_def derived_columns_def)
  have r4: "list_all2 (agree_off derived_columns) (rows (fst st3)) (rows (fst st4))"
    using first_seen_block_rel [of _ _ _ _ _ "fst st3" "snd st3" "fst st4" "snd st4" derived_columns] b4
    by (simp add: ip_block_def derived_columns_def)
  have r5: "list_all2 (agree_off derived_columns) (rows (fst st4)) (rows (fst st5))"
    using location_block_rel [of _ "fst st4" "snd st4" "fst st5" "snd st5"] b5 by simp
  have r6: "list_all2 (agree_off derived_columns) (rows (fst st5)) (rows (fst st6))"
    using off_hour_block_rel [of _ "fst st5" "snd st5" "fst st6" "snd st6"] b6 by simp
  have "list_all2 (agree_off derived_columns) (rows df1) (rows (fst st6))"
    using r2 r3 r4 r5 r6 by (blast intro: rows_rel_trans)
  with b1 r s6 show ?thesis by metis
qed

lemma process_transactions_rel:
  assumes "process_transactions df sim af = Inr res"
  shows "rel_mset (stems_from (''timestamp'' \<in> features_of df af))
           (mset (rows df)) (mset (rows (data res)))"
proof -
  let ?fs = "features_of df af"
  let ?h = "''timestamp'' \<in> ?fs"
  from process_transactions_stages [OF assms] obtain df1 df6 where
    b1: "timestamp_block ?h df = Inr df1" and
    r16: "list_all2 (agree_off derived_columns) (rows df1) (rows df6)" and
    res: "res = final_block ?fs (velocity_block sim ?h (base_score_block (df6, base_risks ?fs)))"
    by blast
  define dfb where "dfb = fst (base_score_block (df6, base_risks ?fs))"
  define stv where "stv = velocity_block sim ?h (dfb, base_risks ?fs)"
  have stb: "base_score_block (df6, base_risks ?fs) = (dfb, base_risks ?fs)"
    by (simp add: dfb_def base_score_block_risks prod_eq_iff)
  have res': "res = final_block ?fs (fst stv, snd stv)" by (simp add: res stb stv_def)
  have "list_all2 (agree_off derived_columns) (rows df1) (rows dfb)"
    using r16 base_score_block_rel [of df6 "base_risks ?fs"] unfolding dfb_def
    by (rule rows_rel_trans)
  then have a: "rel_mset (agree_off derived_columns) (mset (rows df1)) (mset (rows dfb))"
    by (rule rel_mset_list_all2) simp
  have b: "rel_mset (agree_off derived_columns) (mset (rows dfb)) (mset (rows (fst stv)))"
    unfolding stv_def by (rule velocity_block_rel)
  have c: "rel_mset (agree_off derived_columns) (mset (rows (fst stv))) (mset (rows (data res)))"
    unfolding res' by (rule rel_mset_list_all2 [OF final_block_rel [of "fst stv" ?fs "snd stv"]]) simp
  have "rel_mset (agree_off derived_columns) (mset (rows df1)) (mset (rows (data res)))"
    by (rule rel_mset_trans [OF rel_mset_trans [OF a b agree_off_trans_same] c agree_off_trans_same])
  with timestamp_block_rel [OF b1] show ?thesis
    by (rule rel_mset_trans) (rule stems_from_agree)
qed

text \<open>
  C6 (as amended). The output records correspond one to one to the input records, in some
  order. Each output record keeps the value of every input column that is not written by
  the engine; the engine writes its derived columns and, when the time stamp feature is
  available, the time stamp column itself, which it replaces by the parsed UTC instant of
  the input string.
\<close>

theorem input_columns_kept_except_engine_columns:
  assumes "process_transactions df simulation_mode available_features = Inr res"
  shows "rel_mset (stems_from (''timestamp'' \<in> features_of df available_features))
           (mset (rows df)) (mset (rows (data res)))"
  using assms by (rule process_transactions_rel)

theorem input_columns_kept_except_engine_columns_witness:
  "process_transactions one_record True None = Inr one_record_9
   \<and> (''timestamp'' \<in> features_of one_record None)
   \<and> rel_mset (stems_from True) (mset (rows one_record)) (mset (rows (data one_record_9)))"
proof -
  have f: "(''timestamp'' \<in> features_of one_record None) = True"
    by (simp add: features_of_def one_record_features)
  show ?thesis
    using input_columns_kept_except_engine_columns [OF process_one_record] process_one_record
    unfolding f by simp
qed

text \<open>
  C6 fails as stated: the engine overwrites the time stamp column. On a batch of one
  record the input cell is the string \<open>2024-01-01T10:00:00+05:30\<close> and the output
  cell is the instant 1704083400.
\<close>

theorem timestamp_column_is_overwritten:
  "process_transactions one_record True None = Inr one_record_9
   \<and> length (rows one_record) = 1 \<and> length (rows (data one_record_9)) = 1
   \<and> cell_at ''timestamp'' (rows one_record ! 0) = CStr ''2024-01-01T10:00:00+05:30''
   \<and> cell_at ''timestamp'' (rows (data one_record_9) ! 0) = CTime 1704083400
   \<and> cell_at ''timestamp'' (rows (data one_record_9) ! 0) \<noteq> cell_at ''timestamp'' (rows one_record ! 0)"
proof -
  have "length (rows one_record) = 1" "length (rows (data one_record_9)) = 1"
    "cell_at ''timestamp'' (rows one_record ! 0) = CStr ''2024-01-01T10:00:00+05:30''"
    "cell_at ''timestamp'' (rows (data one_record_9) ! 0) = CTime 1704083400"
    by code_simp+
  then show ?thesis using process_one_record by simp
qed

lemma cumcount_nth_na:
  "i < length ks \<Longrightarrow> ks ! i = CNa \<Longrightarrow> cumcount ks ! i = CNa"
  by (simp add: cumcount_def)

text \<open>A row that received no session does not fire the velocity check.\<close>

lemma velocity_block_unsessioned:
  assumes "r' \<in> set (rows (fst (velocity_block sim ts (df, a))))"
    and "cell_at ''session_id'' r' = CNa"
  shows "cell_at ''risk_velocity_sim'' r' = CBool False"
proof (cases "sim \<and> ts")
  case False
  with velocity_block_rows [OF assms(1)] show ?thesis by blast
next
  case True
  define df4 where "df4 = (let df1 = set_scalar ''risk_velocity_sim'' (CBool False) df;
          df2 = set_scalar ''txn_count_sim'' (CInt 1) df1;
          df3 = set_scalar ''session_id'' CNa df2
       in if ts then set_column ''sim_timestamp'' (map (cell_at ''timestamp'') (rows df3)) df3
          else set_scalar ''sim_timestamp'' CNa df3)"
  define df5 where "df5 = df4\<lparr>rows := foldl (\<lambda>rs s. assign_session 5 s rs) (rows df4)
                                       [0..<min 100 (length (rows df4) div 5)]\<rparr>"
  define df6 where "df6 = sort_values session_key df5"
  define ks where "ks = map (cell_at ''session_id'') (rows df6)"
  define df7 where "df7 = set_column ''txn_count_sim'' (map (\<lambda>c. cell_add c 1) (cumcount ks)) df6"
  define df8 where "df8 = set_column ''risk_velocity_sim''
                       (map (\<lambda>r. CBool (cell_ge (cell_at ''txn_count_sim'' r) 3)) (rows df7)) df7"
  have out: "fst (velocity_block sim ts (df, a)) = df8"
    using True by (simp add: velocity_block_def Let_def df8_def df7_def ks_def df6_def df5_def df4_def)
  have l7: "length (rows df7) = length (rows df6)"
    unfolding df7_def by (rule length_rows_set_column) (simp add: length_cumcount ks_def)
  have l8: "length (rows df8) = length (rows df6)"
    unfolding df8_def using l7 by (simp add: length_rows_set_column)
  from assms(1) out obtain i where i: "i < length (rows df6)" and r': "r' = rows df8 ! i"
    using l8 by (metis in_set_conv_nth)
  have e7: "rows df7 ! i = AList.update ''txn_count_sim'' (cell_add (cumcount ks ! i) 1) (rows df6 ! i)"
    unfolding df7_def using rows_set_column_nth [of "map (\<lambda>c. cell_add c 1) (cumcount ks)" df6 i] i
    by (simp add: length_cumcount ks_def)
  have e8: "rows df8 ! i = AList.update ''risk_velocity_sim''
        (CBool (cell_ge (cell_at ''txn_count_sim'' (rows df7 ! i)) 3)) (rows df7 ! i)"
    unfolding df8_def
    using rows_set_column_nth [of "map (\<lambda>r. CBool (cell_ge (cell_at ''txn_count_sim'' r) 3)) (rows df7)" df7 i] i l7
    by simp
  have "cell_at ''session_id'' r' = ks ! i"
    unfolding r' e8 e7 ks_def using i by (simp add: cell_at_update)
  with assms(2) have "cumcount ks ! i = CNa"
    using cumcount_nth_na [of i ks] i by (simp add: ks_def)
  then show ?thesis unfolding r' e8 e7 by (simp add: cell_at_update)
qed

text \<open>Below five records no session is created.\<close>

lemma velocity_block_few_records:
  assumes "r' \<in> set (rows (fst (velocity_block sim ts (df, a))))"
    and "length (rows df) < 5"
  shows "cell_at ''session_id'' r' = CNa"
proof -
  define df3 where "df3 = set_scalar ''session_id'' CNa (set_scalar ''txn_count_sim'' (CInt 1)
                            (set_scalar ''risk_velocity_sim'' (CBool False) df))"
  define df4 where "df4 = (if ts then set_column ''sim_timestamp'' (map (cell_at ''timestamp'') (rows df3)) df3
                           else set_scalar ''sim_timestamp'' CNa df3)"
  have r3: "rows df3 = map (\<lambda>r. AList.update ''session_id'' CNa (AList.update ''txn_count_sim'' (CInt 1)
                (AList.update ''risk_velocity_sim'' (CBool False) r))) (rows df)"
    by (simp add: df3_def rows_set_scalar)
  have r4: "rows df4 = map (\<lambda>r. AList.update ''sim_timestamp''
                (if ts then cell_at ''timestamp'' r else CNa) r) (rows df3)"
    unfolding df4_def by (cases ts) (simp_all add: rows_set_column_map rows_set_scalar)
  have l4: "length (rows df4) = length (rows df)" by (simp add: r4 r3)
  have s4: "\<forall>r\<in>set (rows df4). cell_at ''session_id'' r = CNa"
    unfolding r4 r3 by (auto simp add: cell_at_update)
  show ?thesis
  proof (cases "sim \<and> ts")
    case False
    then have "fst (velocity_block sim ts (df, a)) = df4"
      by (auto simp add: velocity_block_def Let_def df4_def df3_def)
    with assms(1) s4 show ?thesis by simp
  next
    case True
    define df6 where "df6 = sort_values session_key df4"
    define df7 where "df7 = set_column ''txn_count_sim''
                       (map (\<lambda>c. cell_add c 1) (cumcount (map (cell_at ''session_id'') (rows df6)))) df6"
    define df8 where "df8 = set_column ''risk_velocity_sim''
                       (map (\<lambda>r. CBool (cell_ge (cell_at ''txn_count_sim'' r) 3)) (rows df7)) df7"
    have n0: "min 100 (length (rows df4) div 5) = 0" using assms(2) l4 by simp
    have out: "fst (velocity_block sim ts (df, a)) = df8"
      using True n0
      by (simp add: velocity_block_def Let_def df8_def df7_def df6_def df4_def df3_def)
    have s6: "\<forall>r\<in>set (rows df6). cell_at ''session_id'' r = CNa"
      using s4 by (simp add: df6_def sort_values_def)
    from assms(1) out have "r' \<in> set (rows df8)" by simp
    then obtain r7 where r7: "r7 \<in> set (rows df7)"
        and e8: "r' = AList.update ''risk_velocity_sim'' (CBool (cell_ge (cell_at ''txn_count_sim'' r7) 3)) r7"
      by (auto simp add: df8_def rows_set_column_map)
    have "\<exists>r6 v. r6 \<in> set (rows df6) \<and> v \<in> set (map (\<lambda>c. cell_add c 1) (cumcount (map (cell_at ''session_id'') (rows df6))))
            \<and> r7 = AList.update ''txn_count_sim'' v r6"
      by (rule set_rows_set_column) (use r7 in \<open>simp_all add: length_cumcount df7_def\<close>)
    then obtain r6 v where r6: "r6 \<in> set (rows df6)" and e7: "r7 = AList.update ''txn_count_sim'' v r6"
      by blast
    show ?thesis unfolding e8 e7 using s6 r6 by (simp add: cell_at_update)
  qed
qed

lemma process_transactions_velocity_row:
  assumes "process_transactions df sim af = Inr res" and "r'' \<in> set (rows (data res))"
  shows "\<exists>dfb a. length (rows dfb) = length (rows df)
           \<and> (\<exists>r'\<in>set (rows (fst (velocity_block sim (''timestamp'' \<in> features_of df af) (dfb, a)))).
                cell_at ''risk_velocity_sim'' r'' = cell_at ''risk_velocity_sim'' r'
                \<and> cell_at ''session_id'' r'' = cell_at ''session_id'' r')"
proof -
  let ?fs = "features_of df af"
  let ?h = "''timestamp'' \<in> ?fs"
  from process_transactions_stages [OF assms(1)] obtain df1 df6 where
    b1: "timestamp_block ?h df = Inr df1" and
    r16: "list_all2 (agree_off derived_columns) (rows df1) (rows df6)" and
    res: "res = final_block ?fs (velocity_block sim ?h (base_score_block (df6, base_risks ?fs)))"
    by blast
  define dfb where "dfb = fst (base_score_block (df6, base_risks ?fs))"
  define stv where "stv = velocity_block sim ?h (dfb, base_risks ?fs)"
  have stb: "base_score_block (df6, base_risks ?fs) = (dfb, base_risks ?fs)"
    by (simp add: dfb_def base_score_block_risks prod_eq_iff)
  have res': "res = final_block ?fs (fst stv, snd stv)" by (simp add: res stb stv_def)
  have "size (mset (rows df)) = size (mset (rows df1))"
    by (rule rel_mset_size [OF timestamp_block_rel [OF b1]])
  moreover have "length (rows df1) = length (rows df6)" using r16 by (rule list_all2_lengthD)
  moreover have "length (rows dfb) = length (rows df6)"
    by (simp add: dfb_def rows_base_score_block)
  ultimately have l: "length (rows dfb) = length (rows df)" by simp
  from assms(2) obtain r' where r': "r' \<in> set (rows (fst stv))" and
    e: "r'' = (let r1 = AList.update ''final_risk_score''
                        (CInt (int_of ''base_risk_score'' r' + (if truthy ''risk_velocity_sim'' r' then 1 else 0))) r';
                 r2 = AList.update ''final_reasons'' (CList (build_reasons (dict_of (snd stv)) r1)) r1
             in AList.update ''final_is_anomalous''
                  (CBool (int_of ''final_risk_score'' r2 \<ge> select_threshold (length (snd stv)))) r2)"
    unfolding res' rows_final_block by auto
  have "cell_at ''risk_velocity_sim'' r'' = cell_at ''risk_velocity_sim'' r'"
    "cell_at ''session_id'' r'' = cell_at ''session_id'' r'"
    unfolding e Let_def by (simp_all add: cell_at_update)
  with l r' show ?thesis unfolding stv_def by blast
qed

text \<open>
  C3 (as amended). The velocity check is registered exactly when simulation mode is on and
  the time stamp feature is available, whether or not it fired for any record. On a batch
  of fewer than five records it fires for no record.
\<close>

theorem velocity_check_registered_iff_simulated:
  assumes "process_transactions df simulation_mode available_features = Inr res"
  shows "((''risk_velocity_sim'', ''Multiple transactions in short time'') \<in> set (attrs_active_risks res)
            \<longleftrightarrow> simulation_mode \<and> ''timestamp'' \<in> features_of df available_features)
       \<and> (length (rows df) < 5 \<longrightarrow>
            (\<forall>r\<in>set (rows (data res)). cell_at ''risk_velocity_sim'' r = CBool False))"
proof (intro conjI impI ballI)
  show "((''risk_velocity_sim'', ''Multiple transactions in short time'') \<in> set (attrs_active_risks res))
      = (simulation_mode \<and> ''timestamp'' \<in> features_of df available_features)"
    unfolding process_transactions_attrs(1) [OF assms]
    by (auto simp add: base_risks_def velocity_risk_def)
next
  fix r assume n: "length (rows df) < 5" and r: "r \<in> set (rows (data res))"
  from process_transactions_velocity_row [OF assms r] obtain dfb a r' where
    l: "length (rows dfb) = length (rows df)" and
    r': "r' \<in> set (rows (fst (velocity_block simulation_mode
            (''timestamp'' \<in> features_of df available_features) (dfb, a))))" and
    e: "cell_at ''risk_velocity_sim'' r = cell_at ''risk_velocity_sim'' r'" by blast
  from velocity_block_few_records [OF r'] l n have "cell_at ''session_id'' r' = CNa" by simp
  from velocity_block_unsessioned [OF r' this] e
  show "cell_at ''risk_velocity_sim'' r = CBool False" by simp
qed

theorem velocity_check_registered_iff_simulated_witness:
  "process_transactions one_record True None = Inr one_record_9
   \<and> (''timestamp'' \<in> features_of one_record None)
   \<and> length (rows one_record) < 5
   \<and> (''risk_velocity_sim'', ''Multiple transactions in short time'') \<in> set (attrs_active_risks one_record_9)
   \<and> rows (data one_record_9) ! 0 \<in> set (rows (data one_record_9))
   \<and> cell_at ''risk_velocity_sim'' (rows (data one_record_9) ! 0) = CBool False"
proof -
  have f: "(''timestamp'' \<in> features_of one_record None) = True"
    by (simp add: features_of_def one_record_features)
  have n: "length (rows one_record) < 5" by code_simp
  have m: "rows (data one_record_9) ! 0 \<in> set (rows (data one_record_9))" by code_simp
  show ?thesis
    using velocity_check_registered_iff_simulated [OF process_one_record] process_one_record n m
    unfolding f by simp
qed

text \<open>
  C3 fails as stated: on a batch of one record with time stamps and simulation mode on, the
  velocity check is registered although it fired for no record.
\<close>

theorem velocity_check_registered_without_firing:
  "process_transactions one_record True None = Inr one_record_9
   \<and> (''risk_velocity_sim'', ''Multiple transactions in short time'') \<in> set (attrs_active_risks one_record_9)
   \<and> \<not> (\<exists>r\<in>set (rows (data one_record_9)). truthy ''risk_velocity_sim'' r)"
proof -
  have "(''risk_velocity_sim'', ''Multiple transactions in short time'') \<in> set (attrs_active_risks one_record_9)"
    "\<not> (\<exists>r\<in>set (rows (data one_record_9)). truthy ''risk_velocity_sim'' r)"
    by code_simp+
  then show ?thesis using process_one_record by simp
qed

text \<open>
  C4, on the code: a batch of one record with a location. The record is the first of its
  account, its previous location is missing, and the location-change check fires for it
  and enters its reasons.
\<close>

theorem first_record_fires_location_change:
  "process_transactions one_record True None = Inr one_record_9
   \<and> length (rows one_record) = 1 \<and> length (rows (data one_record_9)) = 1
   \<and> cell_at ''location'' (rows (data one_record_9) ! 0) = CStr ''NYC''
   \<and> cell_at ''prev_location'' (rows (data one_record_9) ! 0) = CNa
   \<and> cell_at ''risk_location_change'' (rows (data one_record_9) ! 0) = CBool True
   \<and> cell_at ''final_reasons'' (rows (data one_record_9) ! 0) = CList [''Transaction location changed'']"
proof -
  have "length (rows one_record) = 1" "length (rows (data one_record_9)) = 1"
   "cell_at ''location'' (rows (data one_record_9) ! 0) = CStr ''NYC''"
   "cell_at ''prev_location'' (rows (data one_record_9) ! 0) = CNa"
   "cell_at ''risk_location_change'' (rows (data one_record_9) ! 0) = CBool True"
   "cell_at ''final_reasons'' (rows (data one_record_9) ! 0) = CList [''Transaction location changed'']"
    by code_simp+
  then show ?thesis using process_one_record by simp
qed

lemma map_of_first:
  "map_of xs k = Some v \<Longrightarrow> \<exists>i<length xs. xs ! i = (k, v) \<and> (\<forall>j<i. fst (xs ! j) \<noteq> k)"
proof (induction xs)
  case Nil
  then show ?case by simp
next
  case (Cons x xs)
  show ?case
  proof (cases "fst x = k")
    case True
    with Cons.prems have "x = (k, v)" by (cases x) simp
    then show ?thesis by (intro exI [of _ 0]) simp
  next
    case False
    with Cons.prems have "map_of xs k = Some v" by (cases x) simp
    from Cons.IH [OF this] obtain i where
      i: "i < length xs" "xs ! i = (k, v)" "\<forall>j<i. fst (xs ! j) \<noteq> k" by blast
    have "\<forall>j<Suc i. fst ((x # xs) ! j) \<noteq> k"
      using False i(3) by (auto simp add: nth_Cons split: nat.splits)
    with i(1,2) show ?thesis by (intro exI [of _ "Suc i"]) simp
  qed
qed

lemma map_of_head_from:
  "map_of (map fst (head_from seen (\<lambda>kc. fst (fst kc)) xs)) a
     = (if a \<in> set seen then None else map_of (map fst xs) a)"
proof (induction xs arbitrary: seen a)
  case Nil
  then show ?case by simp
next
  case (Cons x xs)
  obtain b h c where x: "x = ((b, h), c)" by (metis prod.collapse)
  show ?case unfolding x by (simp add: Cons.IH) 
qed

lemma sorted_wrt_filter_nth:
  "sorted_wrt R (filter P xs) \<Longrightarrow> i < j \<Longrightarrow> j < length xs \<Longrightarrow> P (xs ! i) \<Longrightarrow> P (xs ! j)
   \<Longrightarrow> R (xs ! i) (xs ! j)"
proof (induction xs arbitrary: i j)
  case Nil
  then show ?case by simp
next
  case (Cons x xs)
  from Cons.prems(2) obtain j' where j: "j = Suc j'" by (cases j) simp_all
  show ?case
  proof (cases i)
    case 0
    with Cons.prems j have "P x" and "xs ! j' \<in> set (filter P xs)" by auto
    with Cons.prems(1) have "R x (xs ! j')" by auto
    with 0 j show ?thesis by simp
  next
    case (Suc i')
    have "sorted_wrt R (filter P xs)" using Cons.prems(1) by (cases "P x") simp_all
    from Cons.IH [OF this, of i' j'] Cons.prems Suc j show ?thesis by simp
  qed
qed

lemma dominant_hour_correct:
  assumes "(a, h0) \<in> set pairs"
  shows "\<exists>h. map_of (dominant_hour pairs) a = Some h \<and> is_dominant_hour pairs a h"
proof -
  define sizes where "sizes = map (\<lambda>k. (k, count_list pairs k)) (sort (remdups pairs))"
  define K where "K = (\<lambda>kc::(string \<times> int) \<times> nat. (fst (fst kc), - int (snd kc)))"
  define srt where "srt = sort_key K sizes"
  have dom: "dominant_hour pairs = map fst (head_from [] (\<lambda>kc. fst (fst kc)) srt)"
    by (simp add: dominant_hour_def Let_def sizes_def K_def srt_def)
  have mo: "map_of (dominant_hour pairs) a = map_of (map fst srt) a"
    by (simp add: dom map_of_head_from)
  have set_srt: "set srt = (\<lambda>k. (k, count_list pairs k)) ` set pairs"
    by (simp add: srt_def sizes_def)
  have "a \<in> fst ` set (map fst srt)" using assms set_srt by force
  then obtain h where h: "map_of (map fst srt) a = Some h"
    by (metis map_of_eq_None_iff not_Some_eq)
  from map_of_first [OF h] obtain i where
    i: "i < length srt" and e: "fst (srt ! i) = (a, h)" and
    first: "\<forall>j<i. fst (fst (srt ! j)) \<noteq> a" by auto
  have "srt ! i \<in> set srt" using i by simp
  with set_srt e have si: "srt ! i = ((a, h), count_list pairs (a, h))" and mem: "(a, h) \<in> set pairs"
    by auto
  have ss: "sorted_wrt (\<lambda>x y. fst x < fst y) sizes"
    unfolding sizes_def by (simp add: sorted_wrt_map strict_sorted_iff)
  have sk: "sorted (map K srt)" by (simp add: srt_def)
  have "count_list pairs (a, h') < count_list pairs (a, h)
        \<or> (count_list pairs (a, h') = count_list pairs (a, h) \<and> h \<le> h')"
    if "(a, h') \<in> set pairs" for h'
  proof -
    from that set_srt have "((a, h'), count_list pairs (a, h')) \<in> set srt" by auto
    then obtain j where j: "j < length srt" and sj: "srt ! j = ((a, h'), count_list pairs (a, h'))"
      by (auto simp add: in_set_conv_nth)
    from first sj have ij: "i \<le> j" by (metis fst_conv not_le)
    show ?thesis
    proof (cases "i = j")
      case True
      with si sj show ?thesis by simp
    next
      case False
      with ij have lt: "i < j" by simp
      from sk lt j have "K (srt ! i) \<le> K (srt ! j)"
        by (simp add: sorted_iff_nth_mono_less)
      then have le: "count_list pairs (a, h') \<le> count_list pairs (a, h)"
        by (simp add: K_def si sj)
      show ?thesis
      proof (cases "count_list pairs (a, h') = count_list pairs (a, h)")
        case False
        with le show ?thesis by simp
      next
        case True
        then have keq: "K (srt ! j) = K (srt ! i)" by (simp add: K_def si sj)
        have "filter (\<lambda>y. K y = K (srt ! i)) srt = filter (\<lambda>y. K y = K (srt ! i)) sizes"
          unfolding srt_def by (rule sort_key_stable)
        moreover have "sorted_wrt (\<lambda>x y. fst x < fst y) (filter (\<lambda>y. K y = K (srt ! i)) sizes)"
          using ss by (rule sorted_wrt_filter)
        ultimately have "sorted_wrt (\<lambda>x y. fst x < fst y) (filter (\<lambda>y. K y = K (srt ! i)) srt)"
          by simp
        from sorted_wrt_filter_nth [OF this lt j _ keq]
        have "fst (srt ! i) < fst (srt ! j)" by simp
        then have "h < h'" by (simp add: si sj)
        with True show ?thesis by simp
      qed
    qed
  qed
  with mem mo h show ?thesis by (auto simp add: is_dominant_hour_def)
qed

lemma is_dominant_hour_unique:
  "is_dominant_hour pairs a h \<Longrightarrow> is_dominant_hour pairs a h' \<Longrightarrow> h = h'"
  unfolding is_dominant_hour_def by (metis less_irrefl order_antisym less_asym)

lemma is_dominant_hour_mset:
  assumes "mset pairs = mset pairs'"
  shows "is_dominant_hour pairs a h = is_dominant_hour pairs' a h"
proof -
  have "set pairs = set pairs'" using assms by (rule mset_eq_setD)
  moreover have "count_list pairs k = count_list pairs' k" for k
    using assms by (metis count_mset)
  ultimately show ?thesis by (simp add: is_dominant_hour_def)
qed

lemma process_transactions_blocks:
  assumes "process_transactions df sim af = Inr res"
  shows "\<exists>df1 df4 a4 df5 a5 df6.
           timestamp_block (''timestamp'' \<in> features_of df af) df = Inr df1
           \<and> list_all2 (agree_off mid_columns) (rows df1) (rows df4)
           \<and> location_block (''location'' \<in> features_of df af) (df4, a4) = Inr (df5, a5)
           \<and> off_hour_block (''timestamp'' \<in> features_of df af) (df5, a5)
                = Inr (df6, base_risks (features_of df af))
           \<and> res = final_block (features_of df af)
                  (velocity_block sim (''timestamp'' \<in> features_of df af)
                     (base_score_block (df6, base_risks (features_of df af))))"
proof -
  let ?fs = "features_of df af"
  from assms obtain df1 st2 st3 st4 st5 st6 where
    b1: "timestamp_block (''timestamp'' \<in> ?fs) df = Inr df1" and
    b2: "amount_block (''amount'' \<in> ?fs) (df1, []) = Inr st2" and
    b3: "device_block (''device_hash'' \<in> ?fs) st2 = Inr st3" and
    b4: "ip_block (''ip_address'' \<in> ?fs) st3 = Inr st4" and
    b5: "location_block (''location'' \<in> ?fs) st4 = Inr st5" and
    b6: "off_hour_block (''timestamp'' \<in> ?fs) st5 = Inr st6" and
    r: "res = final_block ?fs (velocity_block sim (''timestamp'' \<in> ?fs) (base_score_block st6))"
    unfolding process_transactions_def features_of_def Let_def bind_err_Inr_iff by auto
  have a2: "snd st2 = (if ''amount'' \<in> ?fs then [(''risk_amount'', ''Unusual transaction amount'')] else [])"
    using amount_block_risks [of _ df1 "[]" "fst st2" "snd st2"] b2 by simp
  have a3: "snd st3 = snd st2 @ (if ''device_hash'' \<in> ?fs then [(''risk_new_device'', ''New device detected'')] else [])"
    using first_seen_block_risks [of _ _ _ _ _ "fst st2" "snd st2" "fst st3" "snd st3"] b3
    by (simp add: device_block_def)
  have a4: "snd st4 = snd st3 @ (if ''ip_address'' \<in> ?fs then [(''risk_new_ip'', ''New IP address detected'')] else [])"
    using first_seen_block_risks [of _ _ _ _ _ "fst st3" "snd st3" "fst st4" "snd st4"] b4
    by (simp add: ip_block_def)
  have a5: "snd st5 = snd st4 @ (if ''location'' \<in> ?fs then [(''risk_location_change'', ''Transaction location changed'')] else [])"
    using location_block_risks [of _ "fst st4" "snd st4" "fst st5" "snd st5"] b5 by simp
  have a6: "snd st6 = snd st5 @ (if ''timestamp'' \<in> ?fs then [(''risk_off_hour'', ''Transaction at unusual time'')] else [])"
    using off_hour_block_risks [of _ "fst st5" "snd st5" "fst st6" "snd st6"] b6 by simp
  have "snd st6 = base_risks ?fs"
    unfolding base_risks_def a6 a5 a4 a3 a2 by simp
  then have s6: "st6 = (fst st6, base_risks ?fs)" by (simp add: prod_eq_iff)
  have r2: "list_all2 (agree_off mid_columns) (rows df1) (rows (fst st2))"
    using amount_block_rel_on [of _ df1 "[]" "fst st2" "snd st2" mid_columns] b2
    by (simp add: mid_columns_def)
  have r3: "list_all2 (agree_off mid_columns) (rows (fst st2)) (rows (fst st3))"
    using first_seen_block_rel [of _ _ _ _ _ "fst st2" "snd st2" "fst st3" "snd st3" mid_columns] b3
    by (simp add: device_block_def mid_columns_def)
  have r4: "list_all2 (agree_off mid_columns) (rows (fst st3)) (rows (fst st4))"
    using first_seen_block_rel [of _ _ _ _ _ "fst st3" "snd st3" "fst st4" "snd st4" mid_columns] b4
    by (simp add: ip_block_def mid_columns_def)
  have r14: "list_all2 (agree_off mid_columns) (rows df1) (rows (fst st4))"
    using r2 r3 r4 by (blast intro: rows_rel_trans)
  have b5': "location_block (''location'' \<in> ?fs) (fst st4, snd st4) = Inr (fst st5, snd st5)"
    using b5 by simp
  have b6': "off_hour_block (''timestamp'' \<in> ?fs) (fst st5, snd st5) = Inr (fst st6, base_risks ?fs)"
    using b6 s6 by simp
  have r': "res = final_block ?fs (velocity_block sim (''timestamp'' \<in> ?fs)
              (base_score_block (fst st6, base_risks ?fs)))"
    using r s6 by simp
  from b1 r14 b5' b6' r' show ?thesis by blast
qed

lemma tail_rel:
  "rel_mset (agree_off late_columns) (mset (rows df6))
     (mset (rows (data (final_block fs (velocity_block sim h (base_score_block (df6, a)))))))"
proof -
  define dfb where "dfb = fst (base_score_block (df6, a))"
  define stv where "stv = velocity_block sim h (dfb, a)"
  have stb: "base_score_block (df6, a) = (dfb, a)"
    by (simp add: dfb_def base_score_block_risks prod_eq_iff)
  have "list_all2 (agree_off late_columns) (rows df6) (rows dfb)"
    unfolding dfb_def by (rule base_score_block_rel_on) (simp add: late_columns_def)
  then have x: "rel_mset (agree_off late_columns) (mset (rows df6)) (mset (rows dfb))"
    by (rule rel_mset_list_all2) simp
  have y: "rel_mset (agree_off late_columns) (mset (rows dfb)) (mset (rows (fst stv)))"
    unfolding stv_def by (rule velocity_block_rel_on) (simp add: late_columns_def velocity_columns_def)
  have "list_all2 (agree_off late_columns) (rows (fst stv))
          (rows (data (final_block fs (fst stv, snd stv))))"
    by (rule final_block_rel_on) (simp add: late_columns_def)
  then have z: "rel_mset (agree_off late_columns) (mset (rows (fst stv)))
          (mset (rows (data (final_block fs stv))))"
    by (simp add: rel_mset_list_all2)
  show ?thesis unfolding stb stv_def [symmetric]
    by (rule rel_mset_trans [OF rel_mset_trans [OF x y agree_off_trans_same] z agree_off_trans_same])
qed

lemma rel_mset_ex:
  assumes "rel_mset R (mset xs) (mset ys)" "y \<in> set ys"
  shows "\<exists>x\<in>set xs. R x y"
proof -
  from assms(1) obtain xs' ys' where
    x: "mset xs' = mset xs" and y: "mset ys' = mset ys" and l: "list_all2 R xs' ys'"
    unfolding rel_mset_def by blast
  from assms(2) y have "y \<in> set ys'" by (metis mset_eq_setD)
  then obtain i where "i < length ys'" "ys' ! i = y" by (auto simp add: in_set_conv_nth)
  with l have "R (xs' ! i) y" "xs' ! i \<in> set xs'"
    by (auto simp add: list_all2_conv_all_nth)
  with x show ?thesis by (metis mset_eq_setD)
qed

lemma rel_mset_map:
  assumes "rel_mset R (mset xs) (mset ys)" "\<And>x y. R x y \<Longrightarrow> g x = g y"
  shows "mset (map g xs) = mset (map g ys)"
proof -
  from assms(1) obtain xs' ys' where
    x: "mset xs' = mset xs" and y: "mset ys' = mset ys" and l: "list_all2 R xs' ys'"
    unfolding rel_mset_def by blast
  have "map g xs' = map g ys'"
    using l assms(2) by (auto simp add: list_all2_conv_all_nth intro!: nth_equalityI)
  moreover have "mset (map g xs') = mset (map g xs)" "mset (map g ys') = mset (map g ys)"
    using x y by (metis mset_map)+
  ultimately show ?thesis by simp
qed

lemma str_of_agree: "agree_off W r r' \<Longrightarrow> c \<notin> W \<Longrightarrow> str_of c r' = str_of c r"
  by (simp add: str_of_def agree_off_cell_at)

lemma time_of_agree: "agree_off W r r' \<Longrightarrow> c \<notin> W \<Longrightarrow> time_of c r' = time_of c r"
  by (simp add: time_of_def agree_off_cell_at)

lemma hour_of_range: "0 \<le> hour_of t \<and> hour_of t < 24"
  by (simp add: hour_of_def)

lemma timestamp_block_hour:
  assumes "timestamp_block h df = Inr df1" "r \<in> set (rows df1)"
  shows "cell_at ''hour'' r = CInt (if h then hour_of (time_of ''timestamp'' r) else 12)"
proof (cases h)
  case False
  with assms show ?thesis
    by (auto simp add: timestamp_block_def rows_set_scalar cell_at_update)
next
  case True
  with assms(1) have "\<exists>df2. df1 = set_column ''hour''
        (map (\<lambda>r. CInt (hour_of (time_of ''timestamp'' r))) (rows df2)) df2"
    by (auto simp add: timestamp_block_def bind_err_Inr_iff Let_def split: option.splits)
  then obtain df2 where d: "df1 = set_column ''hour''
        (map (\<lambda>r. CInt (hour_of (time_of ''timestamp'' r))) (rows df2)) df2"
    by blast
  have "rows df1 = map (\<lambda>r. AList.update ''hour''
        (CInt (hour_of (time_of ''timestamp'' r))) r) (rows df2)"
    unfolding d by (rule rows_set_column_map)
  with assms(2) True show ?thesis
    by (auto simp add: cell_at_update time_of_def)
qed

lemma off_hour_block_rows:
  assumes "off_hour_block True (df5, a5) = Inr (df6, a6)" "i < length (rows df5)"
  shows "cell_at ''dominant_hour'' (rows df6 ! i)
           = (case map_of (dominant_hour (hours_by_account (rows df5)))
                     (str_of ''sender_account'' (rows df5 ! i))
              of Some h \<Rightarrow> CInt h | None \<Rightarrow> CNa)"
    and "cell_at ''risk_off_hour'' (rows df6 ! i)
           = CBool (cell_ne (cell_at ''hour'' (rows df5 ! i)) (cell_at ''dominant_hour'' (rows df6 ! i)))"
proof -
  let ?dom = "dominant_hour (hours_by_account (rows df5))"
  from assms(1) have "\<exists>accts. typed_column the_str ''sender_account'' df5 = Inr accts
      \<and> df6 = (let df1 = set_column ''dominant_hour''
                      (map (\<lambda>a. case map_of ?dom a of Some h \<Rightarrow> CInt h | None \<Rightarrow> CNa) accts) df5;
              df2 = set_column ''off_hour_txn''
                      (map (\<lambda>r. CBool (cell_ne (cell_at ''hour'' r) (cell_at ''dominant_hour'' r)))
                           (rows df1)) df1
          in set_column ''risk_off_hour'' (map (cell_at ''off_hour_txn'') (rows df2)) df2)"
    by (auto simp add: off_hour_block_def bind_err_Inr_iff Let_def hours_by_account_def)
  then have "cell_at ''dominant_hour'' (rows df6 ! i)
           = (case map_of ?dom (str_of ''sender_account'' (rows df5 ! i))
              of Some h \<Rightarrow> CInt h | None \<Rightarrow> CNa)
      \<and> cell_at ''risk_off_hour'' (rows df6 ! i)
           = CBool (cell_ne (cell_at ''hour'' (rows df5 ! i)) (cell_at ''dominant_hour'' (rows df6 ! i)))"
  proof (elim exE conjE)
    fix accts
    assume k: "typed_column the_str ''sender_account'' df5 = Inr accts"
      and d: "df6 = (let df1 = set_column ''dominant_hour''
                      (map (\<lambda>a. case map_of ?dom a of Some h \<Rightarrow> CInt h | None \<Rightarrow> CNa) accts) df5;
              df2 = set_column ''off_hour_txn''
                      (map (\<lambda>r. CBool (cell_ne (cell_at ''hour'' r) (cell_at ''dominant_hour'' r)))
                           (rows df1)) df1
          in set_column ''risk_off_hour'' (map (cell_at ''off_hour_txn'') (rows df2)) df2)"
    define vs where "vs = map (\<lambda>a. case map_of ?dom a of Some h \<Rightarrow> CInt h | None \<Rightarrow> CNa) accts"
    define df1 where "df1 = set_column ''dominant_hour'' vs df5"
    define df2 where "df2 = set_column ''off_hour_txn''
                      (map (\<lambda>r. CBool (cell_ne (cell_at ''hour'' r) (cell_at ''dominant_hour'' r)))
                           (rows df1)) df1"
    have d': "df6 = set_column ''risk_off_hour'' (map (cell_at ''off_hour_txn'') (rows df2)) df2"
      unfolding d Let_def df2_def df1_def vs_def ..
    have la: "length accts = length (rows df5)" by (rule typed_column_length [OF k])
    have acct: "accts ! i = str_of ''sender_account'' (rows df5 ! i)"
      using the_str_Some [OF typed_column_nth [OF k assms(2)]] by (simp add: str_of_def)
    have l1: "length (rows df1) = length (rows df5)"
      unfolding df1_def by (rule length_rows_set_column) (simp add: vs_def la)
    have l2: "length (rows df2) = length (rows df5)"
      unfolding df2_def using l1 by (simp add: length_rows_set_column)
    have e1: "rows df1 ! i = AList.update ''dominant_hour'' (vs ! i) (rows df5 ! i)"
      unfolding df1_def by (rule rows_set_column_nth) (simp_all add: vs_def la assms(2))
    have e2: "rows df2 ! i = AList.update ''off_hour_txn''
        (CBool (cell_ne (cell_at ''hour'' (rows df1 ! i)) (cell_at ''dominant_hour'' (rows df1 ! i))))
        (rows df1 ! i)"
      unfolding df2_def
      using rows_set_column_nth [of "map (\<lambda>r. CBool (cell_ne (cell_at ''hour'' r)
          (cell_at ''dominant_hour'' r))) (rows df1)" df1 i "''off_hour_txn''"] l1 assms(2)
      by simp
    have e3: "rows df6 ! i = AList.update ''risk_off_hour'' (cell_at ''off_hour_txn'' (rows df2 ! i))
        (rows df2 ! i)"
      unfolding d'
      using rows_set_column_nth [of "map (cell_at ''off_hour_txn'') (rows df2)" df2 i "''risk_off_hour''"]
        l2 assms(2)
      by simp
    have v: "vs ! i = (case map_of ?dom (str_of ''sender_account'' (rows df5 ! i))
              of Some h \<Rightarrow> CInt h | None \<Rightarrow> CNa)"
      unfolding vs_def using la assms(2) acct by simp
    show ?thesis unfolding e3 e2 e1 v by (simp add: cell_at_update)
  qed
  then show "cell_at ''dominant_hour'' (rows df6 ! i)
           = (case map_of ?dom (str_of ''sender_account'' (rows df5 ! i))
              of Some h \<Rightarrow> CInt h | None \<Rightarrow> CNa)"
    and "cell_at ''risk_off_hour'' (rows df6 ! i)
           = CBool (cell_ne (cell_at ''hour'' (rows df5 ! i)) (cell_at ''dominant_hour'' (rows df6 ! i)))"
    by simp_all
qed

lemma off_hour_block_inactive:
  assumes "off_hour_block False (df5, a5) = Inr (df6, a6)" "r \<in> set (rows df6)"
  shows "cell_at ''risk_off_hour'' r = CBool False"
  using assms by (auto simp add: off_hour_block_def rows_set_scalar cell_at_update)

lemma four_hours_stage1: "timestamp_block True four_hours = Inr four_hours_1"
  by code_simp

lemma four_hours_stage2: "amount_block False (four_hours_1, []) = Inr four_hours_2"
  by code_simp

lemma four_hours_stage3: "device_block False four_hours_2 = Inr four_hours_3"
  by code_simp

lemma four_hours_stage4: "ip_block False four_hours_3 = Inr four_hours_4"
  by code_simp

lemma four_hours_stage5: "location_block False four_hours_4 = Inr four_hours_5"
  by code_simp

lemma four_hours_stage6: "off_hour_block True four_hours_5 = Inr four_hours_6"
  by code_simp

lemma four_hours_stage7: "base_score_block four_hours_6 = four_hours_7"
  by code_simp

lemma four_hours_stage8: "velocity_block False True four_hours_7 = four_hours_8"
  by code_simp

lemma four_hours_stage9: "final_block (set (columns four_hours)) four_hours_8 = four_hours_9"
  by code_simp

lemma four_hours_features:
  "(''timestamp'' \<in> set (columns four_hours)) = True"
  "(''amount'' \<in> set (columns four_hours)) = False"
  "(''device_hash'' \<in> set (columns four_hours)) = False"
  "(''ip_address'' \<in> set (columns four_hours)) = False"
  "(''location'' \<in> set (columns four_hours)) = False"
  by (simp_all add: four_hours_def)

lemma process_four_hours: "process_transactions four_hours False None = Inr four_hours_9"
  unfolding process_transactions_def Let_def option.case four_hours_features
  by (simp only: four_hours_stage1 four_hours_stage2 four_hours_stage3 four_hours_stage4 four_hours_stage5
      four_hours_stage6 four_hours_stage7 four_hours_stage8 four_hours_stage9 bind_err_def sum.case)

lemma process_transactions_off_hour_row:
  assumes run: "process_transactions df sim af = Inr res"
    and row: "r'' \<in> set (rows (data res))"
  shows "\<exists>df1 df5 a5 df6 i.
           timestamp_block (''timestamp'' \<in> features_of df af) df = Inr df1
           \<and> off_hour_block (''timestamp'' \<in> features_of df af) (df5, a5)
                = Inr (df6, base_risks (features_of df af))
           \<and> list_all2 (agree_off mid_columns) (rows df1) (rows df5)
           \<and> list_all2 (agree_off off_hour_columns) (rows df5) (rows df6)
           \<and> i < length (rows df6) \<and> agree_off late_columns (rows df6 ! i) r''
           \<and> mset (hours_by_account (rows (data res))) = mset (hours_by_account (rows df5))"
proof -
  let ?fs = "features_of df af"
  let ?h = "''timestamp'' \<in> ?fs"
  from process_transactions_blocks [OF run] obtain df1 df4 a4 df5 a5 df6 where
    b1: "timestamp_block ?h df = Inr df1" and
    r14: "list_all2 (agree_off mid_columns) (rows df1) (rows df4)" and
    b5: "location_block (''location'' \<in> ?fs) (df4, a4) = Inr (df5, a5)" and
    b6: "off_hour_block ?h (df5, a5) = Inr (df6, base_risks ?fs)" and
    res: "res = final_block ?fs (velocity_block sim ?h (base_score_block (df6, base_risks ?fs)))"
    by blast
  have r45: "list_all2 (agree_off mid_columns) (rows df4) (rows df5)"
    using b5 by (rule location_block_rel_on) (simp add: mid_columns_def)
  have r15: "list_all2 (agree_off mid_columns) (rows df1) (rows df5)"
    using r14 r45 by (rule rows_rel_trans)
  have r56: "list_all2 (agree_off off_hour_columns) (rows df5) (rows df6)"
    using b6 by (rule off_hour_block_rel_on) (simp add: off_hour_columns_def)
  have t: "rel_mset (agree_off late_columns) (mset (rows df6)) (mset (rows (data res)))"
    unfolding res by (rule tail_rel)
  from rel_mset_ex [OF t row] obtain i where
    i: "i < length (rows df6)" and a: "agree_off late_columns (rows df6 ! i) r''"
    by (auto simp add: in_set_conv_nth)
  have "mset (map (\<lambda>r. (str_of ''sender_account'' r, int_of ''hour'' r)) (rows df6))
      = mset (map (\<lambda>r. (str_of ''sender_account'' r, int_of ''hour'' r)) (rows (data res)))"
    using t by (rule rel_mset_map)
      (simp add: str_of_agree late_columns_def agree_off_int_of)
  moreover have "map (\<lambda>r. (str_of ''sender_account'' r, int_of ''hour'' r)) (rows df5)
      = map (\<lambda>r. (str_of ''sender_account'' r, int_of ''hour'' r)) (rows df6)"
    using r56
    by (auto simp add: list_all2_conv_all_nth str_of_agree agree_off_int_of off_hour_columns_def
        intro!: nth_equalityI)
  ultimately have m: "mset (hours_by_account (rows (data res))) = mset (hours_by_account (rows df5))"
    by (simp add: hours_by_account_def)
  from b1 b6 r15 r56 i a m show ?thesis by blast
qed

text \<open>
  C8. With time stamps, every output record carries its account's dominant hour: an hour of
  day between 0 and 23 that occurs for this account, that no other hour of the account
  exceeds in the number of transactions, and that is the smallest among the hours of equal
  count. The record's hour is the UTC hour of its time stamp, and the off-hour check fires
  exactly when the hour differs from the dominant hour. Without time stamps, every record
  has hour 12, the off-hour column is false and the check is not registered.
\<close>

theorem off_hour_check_against_dominant_hour:
  assumes "process_transactions df simulation_mode available_features = Inr res"
    and "r \<in> set (rows (data res))"
  shows "(''timestamp'' \<in> features_of df available_features \<longrightarrow>
            (\<exists>h. cell_at ''dominant_hour'' r = CInt h \<and> 0 \<le> h \<and> h < 24
                 \<and> is_dominant_hour (hours_by_account (rows (data res)))
                      (str_of ''sender_account'' r) h
                 \<and> cell_at ''hour'' r = CInt (hour_of (time_of ''timestamp'' r))
                 \<and> cell_at ''risk_off_hour'' r = CBool (cell_at ''hour'' r \<noteq> CInt h)))
       \<and> (''timestamp'' \<notin> features_of df available_features \<longrightarrow>
            cell_at ''hour'' r = CInt 12 \<and> cell_at ''risk_off_hour'' r = CBool False
            \<and> ''risk_off_hour'' \<notin> fst ` set (attrs_active_risks res))"
proof -
  let ?fs = "features_of df available_features"
  let ?h = "''timestamp'' \<in> ?fs"
  from process_transactions_off_hour_row [OF assms] obtain df1 df5 a5 df6 i where
    b1: "timestamp_block ?h df = Inr df1" and
    b6: "off_hour_block ?h (df5, a5) = Inr (df6, base_risks ?fs)" and
    r15: "list_all2 (agree_off mid_columns) (rows df1) (rows df5)" and
    r56: "list_all2 (agree_off off_hour_columns) (rows df5) (rows df6)" and
    i: "i < length (rows df6)" and a: "agree_off late_columns (rows df6 ! i) r" and
    m: "mset (hours_by_account (rows (data res))) = mset (hours_by_account (rows df5))"
    by blast
  have l56: "length (rows df5) = length (rows df6)" using r56 by (rule list_all2_lengthD)
  have l15: "length (rows df1) = length (rows df5)" using r15 by (rule list_all2_lengthD)
  define r1 where "r1 = rows df1 ! i"
  define r5 where "r5 = rows df5 ! i"
  define r6 where "r6 = rows df6 ! i"
  have a15: "agree_off mid_columns r1 r5"
    unfolding r1_def r5_def using r15 i l56 by (simp add: list_all2_conv_all_nth)
  have a56: "agree_off off_hour_columns r5 r6"
    unfolding r5_def r6_def using r56 i l56 by (simp add: list_all2_conv_all_nth)
  have a6: "agree_off late_columns r6 r" using a by (simp add: r6_def)
  have hr1: "\<And>x. x \<in> set (rows df1) \<Longrightarrow>
      cell_at ''hour'' x = CInt (if ?h then hour_of (time_of ''timestamp'' x) else 12)"
    by (rule timestamp_block_hour [OF b1])
  have r1in: "r1 \<in> set (rows df1)" unfolding r1_def using i l15 l56 by simp
  have hour5: "\<And>j. j < length (rows df5) \<Longrightarrow>
      cell_at ''hour'' (rows df5 ! j)
        = CInt (if ?h then hour_of (time_of ''timestamp'' (rows df1 ! j)) else 12)"
  proof -
    fix j assume j: "j < length (rows df5)"
    have "agree_off mid_columns (rows df1 ! j) (rows df5 ! j)"
      using r15 j by (simp add: list_all2_conv_all_nth)
    then have "cell_at ''hour'' (rows df5 ! j) = cell_at ''hour'' (rows df1 ! j)"
      by (rule agree_off_cell_at) (simp add: mid_columns_def)
    with hr1 [of "rows df1 ! j"] j l15 show "cell_at ''hour'' (rows df5 ! j)
        = CInt (if ?h then hour_of (time_of ''timestamp'' (rows df1 ! j)) else 12)" by simp
  qed
  have hour_r: "cell_at ''hour'' r = cell_at ''hour'' r5"
    using agree_off_cell_at [OF a6, of "''hour''"] agree_off_cell_at [OF a56, of "''hour''"]
    by (simp add: late_columns_def off_hour_columns_def)
  have time_r: "time_of ''timestamp'' r = time_of ''timestamp'' r1"
    using time_of_agree [OF a6, of "''timestamp''"] time_of_agree [OF a56, of "''timestamp''"]
      time_of_agree [OF a15, of "''timestamp''"]
    by (simp add: late_columns_def off_hour_columns_def mid_columns_def)
  have acct_r: "str_of ''sender_account'' r = str_of ''sender_account'' r5"
    using str_of_agree [OF a6, of "''sender_account''"] str_of_agree [OF a56, of "''sender_account''"]
    by (simp add: late_columns_def off_hour_columns_def)
  have off_r: "cell_at ''risk_off_hour'' r = cell_at ''risk_off_hour'' r6"
      "cell_at ''dominant_hour'' r = cell_at ''dominant_hour'' r6"
    using agree_off_cell_at [OF a6] by (simp_all add: late_columns_def)
  have h5: "cell_at ''hour'' r5 = CInt (if ?h then hour_of (time_of ''timestamp'' r1) else 12)"
    unfolding r5_def r1_def using hour5 [of i] i l56 by simp
  show ?thesis
  proof (intro conjI impI)
    assume h: ?h
    let ?P = "hours_by_account (rows df5)"
    from b6 h have b6': "off_hour_block True (df5, a5) = Inr (df6, base_risks ?fs)" by simp
    have i5: "i < length (rows df5)" using i l56 by simp
    have "(str_of ''sender_account'' r5, int_of ''hour'' r5) \<in> set ?P"
      unfolding hours_by_account_def r5_def using i5 by simp
    from dominant_hour_correct [OF this] obtain d where
      d: "map_of (dominant_hour ?P) (str_of ''sender_account'' r5) = Some d" and
      dom: "is_dominant_hour ?P (str_of ''sender_account'' r5) d" by blast
    have c1: "cell_at ''dominant_hour'' r6 = CInt d"
      unfolding r6_def using off_hour_block_rows(1) [OF b6' i5] d by (simp add: r5_def)
    have c2: "cell_at ''risk_off_hour'' r6 = CBool (cell_at ''hour'' r5 \<noteq> CInt d)"
      unfolding r6_def using off_hour_block_rows(2) [OF b6' i5] c1 h5
      by (simp add: r5_def r6_def cell_ne_def)
    from dom have "(str_of ''sender_account'' r5, d) \<in> set ?P" by (simp add: is_dominant_hour_def)
    then obtain x where x: "x \<in> set (rows df5)" and dx: "d = int_of ''hour'' x"
      by (auto simp add: hours_by_account_def)
    from x obtain j where j: "j < length (rows df5)" "x = rows df5 ! j"
      by (auto simp add: in_set_conv_nth)
    have range: "0 \<le> d \<and> d < 24"
      unfolding dx j(2) using hour5 [OF j(1)] h hour_of_range by (simp add: int_of_def)
    have "is_dominant_hour (hours_by_account (rows (data res))) (str_of ''sender_account'' r) d"
      using dom is_dominant_hour_mset [OF m] acct_r by simp
    with range c1 c2 h5 h off_r hour_r time_r
    show "\<exists>h. cell_at ''dominant_hour'' r = CInt h \<and> 0 \<le> h \<and> h < 24
                 \<and> is_dominant_hour (hours_by_account (rows (data res)))
                      (str_of ''sender_account'' r) h
                 \<and> cell_at ''hour'' r = CInt (hour_of (time_of ''timestamp'' r))
                 \<and> cell_at ''risk_off_hour'' r = CBool (cell_at ''hour'' r \<noteq> CInt h)"
      by (intro exI [of _ d]) simp
  next
    assume h: "\<not> ?h"
    with h5 hour_r show "cell_at ''hour'' r = CInt 12" by simp
  next
    assume h: "\<not> ?h"
    have "r6 \<in> set (rows df6)" unfolding r6_def using i by simp
    with b6 h off_hour_block_inactive [of df5 a5 df6 "base_risks ?fs" r6] off_r(1)
    show "cell_at ''risk_off_hour'' r = CBool False" by simp
  next
    assume h: "\<not> ?h"
    show "''risk_off_hour'' \<notin> fst ` set (attrs_active_risks res)"
      unfolding process_transactions_attrs(1) [OF assms(1)] using h
      by (auto simp add: base_risks_def velocity_risk_def)
  qed
qed

theorem off_hour_check_against_dominant_hour_witness:
  "process_transactions four_hours False None = Inr four_hours_9
   \<and> ''timestamp'' \<in> features_of four_hours None
   \<and> map (cell_at ''hour'') (rows (data four_hours_9)) = [CInt 9, CInt 9, CInt 9, CInt 14]
   \<and> map (cell_at ''dominant_hour'') (rows (data four_hours_9)) = [CInt 9, CInt 9, CInt 9, CInt 9]
   \<and> map (cell_at ''risk_off_hour'') (rows (data four_hours_9))
       = [CBool False, CBool False, CBool False, CBool True]
   \<and> is_dominant_hour (hours_by_account (rows (data four_hours_9))) ''A'' 9
   \<and> process_transactions bare_records True None = Inr bare_records_9
   \<and> ''timestamp'' \<notin> features_of bare_records None
   \<and> map (cell_at ''hour'') (rows (data bare_records_9)) = [CInt 12, CInt 12]
   \<and> map (cell_at ''risk_off_hour'') (rows (data bare_records_9)) = [CBool False, CBool False]
   \<and> ''risk_off_hour'' \<notin> fst ` set (attrs_active_risks bare_records_9)"
proof -
  have f: "''timestamp'' \<in> features_of four_hours None"
    by (simp add: features_of_def four_hours_features)
  have g: "''timestamp'' \<notin> features_of bare_records None"
    by (simp add: features_of_def bare_records_features)
  have m: "rows (data four_hours_9) ! 3 \<in> set (rows (data four_hours_9))"
    "rows (data bare_records_9) ! 0 \<in> set (rows (data bare_records_9))" by code_simp+
  have c: "map (cell_at ''hour'') (rows (data four_hours_9)) = [CInt 9, CInt 9, CInt 9, CInt 14]"
    "map (cell_at ''dominant_hour'') (rows (data four_hours_9)) = [CInt 9, CInt 9, CInt 9, CInt 9]"
    "map (cell_at ''risk_off_hour'') (rows (data four_hours_9))
       = [CBool False, CBool False, CBool False, CBool True]"
    "map (cell_at ''hour'') (rows (data bare_records_9)) = [CInt 12, CInt 12]"
    "map (cell_at ''risk_off_hour'') (rows (data bare_records_9)) = [CBool False, CBool False]"
    "''risk_off_hour'' \<notin> fst ` set (attrs_active_risks bare_records_9)"
    by code_simp+
  have d: "cell_at ''dominant_hour'' (rows (data four_hours_9) ! 3) = CInt 9"
    "str_of ''sender_account'' (rows (data four_hours_9) ! 3) = ''A''" by code_simp+
  from off_hour_check_against_dominant_hour [OF process_four_hours m(1)] f
  have "is_dominant_hour (hours_by_account (rows (data four_hours_9))) ''A'' 9"
    unfolding d by auto
  with off_hour_check_against_dominant_hour [OF process_bare_records m(2)]
    process_four_hours process_bare_records f g c
  show ?thesis by simp
qed

lemma str_nat_decode:
  "foldl (\<lambda>acc c. 10 * acc + (of_char c - 48)) (0::nat) (str_nat n) = n"
proof (induction n rule: str_nat.induct)
  case (1 n)
  show ?case
  proof (cases "n < 10")
    case True
    then show ?thesis by (subst str_nat.simps) simp
  next
    case False
    then have "foldl (\<lambda>acc c. 10 * acc + (of_char c - 48)) (0::nat) (str_nat (n div 10)) = n div 10"
      using 1 by simp
    moreover have "n mod 10 < 10" by simp
    then have "(48 + n mod 10) mod 256 = 48 + n mod 10" by simp
    ultimately show ?thesis using False
      by (subst str_nat.simps) (simp add: foldl_append)
  qed
qed

lemma str_nat_inj: "str_nat m = str_nat n \<Longrightarrow> m = n"
  by (metis str_nat_decode)

lemma insort_key_map:
  "insort_key f (g x) (map g ys) = map g (insort_key (\<lambda>y. f (g y)) x ys)"
  by (induction ys) simp_all

lemma sort_key_map:
  "sort_key f (map g xs) = map g (sort_key (\<lambda>y. f (g y)) xs)"
  by (induction xs) (simp_all add: insort_key_map)

lemma filter_take_nth:
  assumes "p < length xs" "Q (xs ! p)"
  shows "length (filter Q (take p xs)) < length (filter Q xs)
       \<and> filter Q xs ! length (filter Q (take p xs)) = xs ! p"
proof -
  have "xs = take p xs @ xs ! p # drop (Suc p) xs"
    using assms(1) by (simp add: id_take_nth_drop)
  then have "filter Q xs = filter Q (take p xs) @ xs ! p # filter Q (drop (Suc p) xs)"
    using assms(2) by (metis filter.simps(2) filter_append)
  then show ?thesis by (simp add: nth_append)
qed

lemma session_name_inj: "session_name s = session_name s' \<Longrightarrow> s = s'"
  by (simp add: session_name_def str_nat_inj)

lemma length_foldl_update:
  "length (foldl (\<lambda>rs' j. rs'[f j := g rs' j]) rs js) = length rs"
  by (induction js arbitrary: rs) simp_all

lemma foldl_update_nth:
  assumes "b + m \<le> length rs"
  shows "foldl (\<lambda>rs' j. rs'[b + j := u j (rs' ! (b + j))]) rs [0..<m] ! i
       = (if b \<le> i \<and> i < b + m then u (i - b) (rs ! i) else rs ! i)"
  using assms
proof (induction m arbitrary: i)
  case 0
  then show ?case by auto
next
  case (Suc m)
  let ?F = "foldl (\<lambda>rs' j. rs'[b + j := u j (rs' ! (b + j))]) rs [0..<m]"
  have l: "length ?F = length rs" by (rule length_foldl_update)
  have ih: "?F ! x = (if b \<le> x \<and> x < b + m then u (x - b) (rs ! x) else rs ! x)" for x
    using Suc by simp
  have "foldl (\<lambda>rs' j. rs'[b + j := u j (rs' ! (b + j))]) rs [0..<Suc m]
      = ?F[b + m := u m (?F ! (b + m))]" by simp
  then show ?case using Suc.prems l
    by (auto simp add: nth_list_update ih)
qed

lemma assign_session_nth:
  assumes "s * 5 + 5 \<le> length rs"
  shows "assign_session 5 s rs ! i
       = (if s * 5 \<le> i \<and> i < s * 5 + 5
          then sessioned s (time_of ''timestamp'' (rs ! (s * 5))) (i - s * 5) (rs ! i)
          else rs ! i)"
  unfolding assign_session_def Let_def sessioned_def session_name_def
  using foldl_update_nth [OF assms, of "\<lambda>j. AList.update ''sim_timestamp''
      (CTime (time_of ''timestamp'' (rs ! (s * 5)) + 10 * int j))
      \<circ> AList.update ''session_id'' (CStr (''SIM_SESSION_'' @ str_nat s))" i]
  by simp

lemma length_assign_session: "length (assign_session z s rs) = length rs"
  unfolding assign_session_def Let_def by (rule length_foldl_update)

lemma length_simulate: "length (foldl (\<lambda>rs s. assign_session z s rs) rs ss) = length rs"
  by (induction ss arbitrary: rs) (simp_all add: length_assign_session)

lemma time_of_sessioned: "time_of ''timestamp'' (sessioned s b j r) = time_of ''timestamp'' r"
  by (simp add: sessioned_def time_of_def cell_at_update)

lemma simulate_nth:
  assumes "k * 5 \<le> length rs"
  shows "foldl (\<lambda>rs s. assign_session 5 s rs) rs [0..<k] ! i
       = (if i < k * 5
          then sessioned (i div 5) (time_of ''timestamp'' (rs ! (i div 5 * 5))) (i mod 5) (rs ! i)
          else rs ! i)"
  using assms
proof (induction k arbitrary: i)
  case 0
  then show ?case by simp
next
  case (Suc k)
  let ?F = "foldl (\<lambda>rs s. assign_session 5 s rs) rs [0..<k]"
  have l: "length ?F = length rs" by (rule length_simulate)
  have ih: "?F ! x = (if x < k * 5
          then sessioned (x div 5) (time_of ''timestamp'' (rs ! (x div 5 * 5))) (x mod 5) (rs ! x)
          else rs ! x)" for x
    using Suc by simp
  have e: "foldl (\<lambda>rs s. assign_session 5 s rs) rs [0..<Suc k] = assign_session 5 k ?F" by simp
  have b: "k * 5 + 5 \<le> length ?F" using Suc.prems l by simp
  show ?case
  proof (cases "k * 5 \<le> i \<and> i < k * 5 + 5")
    case True
    then have d: "i div 5 = k" "i mod 5 = i - k * 5" by presburger+
    show ?thesis unfolding e assign_session_nth [OF b] using True d
      by (simp add: ih)
  next
    case False
    then have "i < k * 5 \<or> \<not> i < Suc k * 5" by auto
    then show ?thesis unfolding e assign_session_nth [OF b] using False
      by (auto simp add: ih)
  qed
qed

lemma num_sessions_le: "num_sessions n * 5 \<le> n"
proof -
  have "num_sessions n \<le> n div 5" by (simp add: num_sessions_def)
  then have "num_sessions n * 5 \<le> n div 5 * 5" by (rule mult_le_mono1)
  also have "\<dots> \<le> n" by simp
  finally show ?thesis .
qed

lemma div5_below: "i < 5 * s \<Longrightarrow> i div 5 \<noteq> (s::nat)" by presburger
lemma div5_in: "5 * s \<le> i \<Longrightarrow> i < 5 * s + 5 \<Longrightarrow> i div 5 = (s::nat)" by presburger
lemma div5_above: "5 * s + 5 \<le> i \<Longrightarrow> i div 5 \<noteq> (s::nat)" by presburger

lemma filter_upt_session:
  assumes "5 * s + 5 \<le> n"
  shows "filter (\<lambda>i. i div 5 = s) [0..<n] = [5 * s..<5 * s + 5]"
proof -
  obtain d where n: "n = 5 * s + 5 + d" using assms by (metis le_Suc_ex)
  have 1: "[0..<5 * s + (5 + d)] = [0..<5 * s] @ [5 * s..<5 * s + (5 + d)]"
    by (rule upt_add_eq_append) simp
  have 2: "[5 * s..<5 * s + 5 + d] = [5 * s..<5 * s + 5] @ [5 * s + 5..<5 * s + 5 + d]"
    by (rule upt_add_eq_append) simp
  have s: "[0..<n] = [0..<5 * s] @ [5 * s..<5 * s + 5] @ [5 * s + 5..<n]"
    unfolding n using 1 2 by (simp add: add.assoc)
  have a: "filter (\<lambda>i. i div 5 = s) [0..<5 * s] = []"
    by (rule filter_False) (simp add: div5_below)
  have b: "filter (\<lambda>i. i div 5 = s) [5 * s..<5 * s + 5] = [5 * s..<5 * s + 5]"
    by (rule filter_True) (simp add: div5_in)
  have c: "filter (\<lambda>i. i div 5 = s) [5 * s + 5..<n] = []"
    by (rule filter_False) (simp add: div5_above)
  show ?thesis by (subst s) (simp only: filter_append a b c append_Nil append_Nil2)
qed

lemma session_rank:
  fixes K :: "nat \<Rightarrow> 'k::linorder"
  assumes "5 * s + 5 \<le> n" and "sorted (map K [5 * s..<5 * s + 5])"
    and "p < n" and "sort_key K [0..<n] ! p div 5 = s"
  shows "length (filter (\<lambda>i. i div 5 = s) (take p (sort_key K [0..<n])))
           = sort_key K [0..<n] ! p mod 5"
proof -
  define perm where "perm = sort_key K [0..<n]"
  define c where "c = length (filter (\<lambda>i. i div 5 = s) (take p perm))"
  have "filter (\<lambda>i. i div 5 = s) perm = sort_key K (filter (\<lambda>i. i div 5 = s) [0..<n])"
    unfolding perm_def by (rule filter_sort)
  also have "\<dots> = sort_key K [5 * s..<5 * s + 5]"
    by (simp only: filter_upt_session [OF assms(1)])
  also have "\<dots> = [5 * s..<5 * s + 5]" by (rule sort_key_id_if_sorted [OF assms(2)])
  finally have f: "filter (\<lambda>i. i div 5 = s) perm = [5 * s..<5 * s + 5]" .
  have lp: "p < length perm" using assms(3) by (simp add: perm_def)
  have q: "perm ! p div 5 = s" using assms(4) by (simp add: perm_def)
  from filter_take_nth [of p perm "\<lambda>i. i div 5 = s", OF lp q]
  have "c < length [5 * s..<5 * s + 5]" and "[5 * s..<5 * s + 5] ! c = perm ! p"
    unfolding f c_def by blast+
  then have "c < 5" and "5 * s + c = perm ! p" by simp_all
  with q have "c = perm ! p mod 5" by presburger
  then show ?thesis by (simp add: c_def perm_def)
qed

lemma time_of_prepared: "time_of ''timestamp'' (prepared r) = time_of ''timestamp'' r"
  by (simp add: prepared_def time_of_def cell_at_update)

lemma session_of_presorted:
  "cell_at ''session_id'' (presorted rs i)
     = (if i < num_sessions (length rs) * 5 then CStr (session_name (i div 5)) else CNa)"
  by (simp add: presorted_def sessioned_def prepared_def cell_at_update)

lemma session_key_presorted:
  "i < num_sessions (length rs) * 5 \<Longrightarrow>
   session_key (presorted rs i)
     = ((0, session_name (i div 5)),
        (0, time_of ''timestamp'' (rs ! (i div 5 * 5)) + 10 * int (i mod 5)))"
  by (simp add: session_key_def presorted_def sessioned_def cell_at_update)

lemma sorted_session_keys:
  assumes "s < num_sessions (length rs)"
  shows "sorted (map (\<lambda>i. session_key (presorted rs i)) [5 * s..<5 * s + 5])"
proof -
  have k: "session_key (presorted rs (5 * s + j))
      = ((0, session_name s), (0, time_of ''timestamp'' (rs ! (s * 5)) + 10 * int j))"
    if "j < 5" for j
  proof -
    have "5 * s + j < num_sessions (length rs) * 5" using assms that by simp
    moreover have "(5 * s + j) div 5 = s" "(5 * s + j) mod 5 = j" using that by simp_all
    ultimately show ?thesis using session_key_presorted [of "5 * s + j" rs] by simp
  qed
  show ?thesis
    by (simp add: sorted_iff_nth_mono k)
qed

lemma cumcount_sessions:
  assumes p: "p < length rs"
  shows "cumcount (map (cell_at ''session_id'')
            (map (presorted rs) (sort_key (\<lambda>i. session_key (presorted rs i)) [0..<length rs]))) ! p
       = (if sort_key (\<lambda>i. session_key (presorted rs i)) [0..<length rs] ! p
               < num_sessions (length rs) * 5
          then CInt (int (sort_key (\<lambda>i. session_key (presorted rs i)) [0..<length rs] ! p mod 5))
          else CNa)"
proof -
  define n where "n = length rs"
  define perm where "perm = sort_key (\<lambda>i. session_key (presorted rs i)) [0..<n]"
  define sess where "sess = (\<lambda>i. cell_at ''session_id'' (presorted rs i))"
  define keys where "keys = map (cell_at ''session_id'') (map (presorted rs) perm)"
  have lp: "length perm = n" by (simp add: perm_def)
  have pn: "p < n" using p by (simp add: n_def)
  have ks: "keys = map sess perm" by (simp add: keys_def sess_def)
  have kp: "keys ! p = sess (perm ! p)" using pn lp by (simp add: ks)
  have goal: "cumcount keys ! p = (if perm ! p < num_sessions n * 5 then CInt (int (perm ! p mod 5)) else CNa)"
  proof (cases "perm ! p < num_sessions n * 5")
    case False
    then have "keys ! p = CNa" unfolding kp by (simp add: sess_def session_of_presorted n_def)
    then show ?thesis using False pn lp by (simp add: cumcount_def ks)
  next
    case True
    define s where "s = perm ! p div 5"
    have s: "s < num_sessions n" using True by (simp add: s_def)
    have b: "5 * s + 5 \<le> n" using s num_sessions_le [of n] by simp
    have sp: "sess (perm ! p) = CStr (session_name s)"
      using True by (simp add: sess_def session_of_presorted n_def s_def)
    have same: "(sess i = sess (perm ! p)) = (i div 5 = s)" for i
    proof (cases "i < num_sessions n * 5")
      case True
      then show ?thesis unfolding sp
        by (auto simp add: sess_def session_of_presorted n_def dest: session_name_inj)
    next
      case False
      then have "i div 5 \<noteq> s" using s by auto
      with False show ?thesis unfolding sp by (simp add: sess_def session_of_presorted n_def)
    qed
    have "filter (\<lambda>c. c = keys ! p) (take p keys)
        = map sess (filter (\<lambda>i. i div 5 = s) (take p perm))"
    proof -
      have "map sess perm ! p = sess (perm ! p)" using pn lp by simp
      then show ?thesis unfolding ks by (simp add: take_map filter_map o_def same)
    qed
    then have "length (filter (\<lambda>c. c = keys ! p) (take p keys))
        = length (filter (\<lambda>i. i div 5 = s) (take p perm))" by simp
    also have "\<dots> = perm ! p mod 5"
      unfolding perm_def
    proof (rule session_rank [OF b _ pn])
      show "sorted (map (\<lambda>i. session_key (presorted rs i)) [5 * s..<5 * s + 5])"
        by (rule sorted_session_keys) (use s in \<open>simp add: n_def\<close>)
      show "sort_key (\<lambda>i. session_key (presorted rs i)) [0..<n] ! p div 5 = s"
        by (simp add: s_def perm_def)
    qed
    finally have c: "length (filter (\<lambda>c. c = keys ! p) (take p keys)) = perm ! p mod 5" .
    have "keys ! p \<noteq> CNa" unfolding kp sp by simp
    with c True pn lp show ?thesis by (simp add: cumcount_def ks)
  qed
  then show ?thesis unfolding keys_def perm_def n_def .
qed

lemma velocity_block_rows_exact:
  "rows (fst (velocity_block True True (df, a)))
     = map (simulated (rows df))
         (sort_key (\<lambda>i. session_key (presorted (rows df) i)) [0..<length (rows df)])"
proof -
  define rs where "rs = rows df"
  define n where "n = length rs"
  define perm where "perm = sort_key (\<lambda>i. session_key (presorted rs i)) [0..<n]"
  define df3 where "df3 = set_scalar ''session_id'' CNa (set_scalar ''txn_count_sim'' (CInt 1)
                            (set_scalar ''risk_velocity_sim'' (CBool False) df))"
  define df4 where "df4 = set_column ''sim_timestamp'' (map (cell_at ''timestamp'') (rows df3)) df3"
  define df5 where "df5 = df4\<lparr>rows := foldl (\<lambda>rs s. assign_session 5 s rs) (rows df4)
                                       [0..<min 100 (length (rows df4) div 5)]\<rparr>"
  define df6 where "df6 = sort_values session_key df5"
  define keys where "keys = map (cell_at ''session_id'') (rows df6)"
  define df7 where "df7 = set_column ''txn_count_sim'' (map (\<lambda>c. cell_add c 1) (cumcount keys)) df6"
  define df8 where "df8 = set_column ''risk_velocity_sim''
                       (map (\<lambda>r. CBool (cell_ge (cell_at ''txn_count_sim'' r) 3)) (rows df7)) df7"
  have out: "fst (velocity_block True True (df, a)) = df8"
    by (simp add: velocity_block_def Let_def df8_def df7_def keys_def df6_def df5_def df4_def df3_def)
  have r3: "rows df3 = map (\<lambda>r. AList.update ''session_id'' CNa (AList.update ''txn_count_sim'' (CInt 1)
                (AList.update ''risk_velocity_sim'' (CBool False) r))) rs"
    by (simp add: df3_def rows_set_scalar rs_def)
  have "rows df4 = map (\<lambda>r. AList.update ''sim_timestamp'' (cell_at ''timestamp'' r) r) (rows df3)"
    unfolding df4_def by (rule rows_set_column_map)
  then have r4: "rows df4 = map prepared rs"
    unfolding r3 by (simp add: prepared_def cell_at_update)
  have l4: "length (rows df4) = n" by (simp add: r4 n_def)
  have k: "min 100 (length (rows df4) div 5) = num_sessions n" by (simp add: l4 num_sessions_def)
  have r5: "rows df5 = map (presorted rs) [0..<n]"
  proof (rule nth_equalityI)
    show "length (rows df5) = length (map (presorted rs) [0..<n])"
      by (simp add: df5_def length_simulate l4)
    fix i assume "i < length (rows df5)"
    then have i: "i < n" by (simp add: df5_def length_simulate l4)
    have b: "num_sessions n * 5 \<le> length (rows df4)" using num_sessions_le [of n] l4 by simp
    have d: "i div 5 * 5 < n" using i by (metis div_times_less_eq_dividend le_less_trans)
    have f: "rows df5 = foldl (\<lambda>rs s. assign_session 5 s rs) (rows df4) [0..<num_sessions n]"
      by (simp add: df5_def k)
    have g: "rows df5 ! i = (if i < num_sessions n * 5
          then sessioned (i div 5) (time_of ''timestamp'' (rows df4 ! (i div 5 * 5))) (i mod 5)
                 (rows df4 ! i)
          else rows df4 ! i)"
      unfolding f by (rule simulate_nth [OF b])
    have x: "rows df4 ! i = prepared (rs ! i)" "rows df4 ! (i div 5 * 5) = prepared (rs ! (i div 5 * 5))"
      using i d by (simp_all add: r4 n_def)
    show "rows df5 ! i = map (presorted rs) [0..<n] ! i"
      unfolding g x using i by (simp add: presorted_def time_of_prepared n_def)
  qed
  have r6: "rows df6 = map (presorted rs) perm"
    by (simp add: df6_def sort_values_def r5 sort_key_map perm_def)
  have lperm: "length perm = n" by (simp add: perm_def)
  have l6: "length (rows df6) = n" by (simp add: r6 lperm)
  have l7: "length (rows df7) = n"
    unfolding df7_def by (simp add: length_rows_set_column length_cumcount keys_def l6)
  have cc: "cumcount keys ! p
       = (if perm ! p < num_sessions n * 5 then CInt (int (perm ! p mod 5)) else CNa)"
    if "p < n" for p
    using cumcount_sessions [of p rs] that
    by (simp add: keys_def r6 perm_def n_def)
  have e7: "rows df7 ! p = AList.update ''txn_count_sim''
        (if perm ! p < num_sessions n * 5 then CInt (int (perm ! p mod 5) + 1) else CNa)
        (presorted rs (perm ! p))" if "p < n" for p
  proof -
    have "rows df7 ! p = AList.update ''txn_count_sim''
        (map (\<lambda>c. cell_add c 1) (cumcount keys) ! p) (rows df6 ! p)"
      unfolding df7_def
      by (rule rows_set_column_nth) (simp_all add: length_cumcount keys_def l6 that)
    moreover have "map (\<lambda>c. cell_add c 1) (cumcount keys) ! p = cell_add (cumcount keys ! p) 1"
      using that by (simp add: length_cumcount keys_def l6)
    ultimately show ?thesis using that by (simp add: cc r6 lperm)
  qed
  have e8: "rows df8 ! p = simulated rs (perm ! p)" if "p < n" for p
  proof -
    have "rows df8 ! p = AList.update ''risk_velocity_sim''
        (map (\<lambda>r. CBool (cell_ge (cell_at ''txn_count_sim'' r) 3)) (rows df7) ! p) (rows df7 ! p)"
      unfolding df8_def by (rule rows_set_column_nth) (simp_all add: l7 that)
    then have "rows df8 ! p = AList.update ''risk_velocity_sim''
        (CBool (cell_ge (cell_at ''txn_count_sim'' (rows df7 ! p)) 3)) (rows df7 ! p)"
      using that l7 by simp
    then show ?thesis unfolding e7 [OF that]
      by (auto simp add: simulated_def cell_at_update n_def)
  qed
  have "rows df8 = map (simulated rs) perm"
  proof (rule nth_equalityI)
    show "length (rows df8) = length (map (simulated rs) perm)"
      unfolding df8_def by (simp add: length_rows_set_column l7 lperm)
    fix p assume "p < length (rows df8)"
    then have "p < n" unfolding df8_def by (simp add: length_rows_set_column l7)
    then show "rows df8 ! p = map (simulated rs) perm ! p" by (simp add: e8 lperm)
  qed
  then show ?thesis unfolding out perm_def n_def rs_def .
qed

lemma seventeen_records_stage1: "timestamp_block True seventeen_records = Inr seventeen_records_1"
  by code_simp

lemma seventeen_records_stage2: "amount_block False (seventeen_records_1, []) = Inr seventeen_records_2"
  by code_simp

lemma seventeen_records_stage3: "device_block False seventeen_records_2 = Inr seventeen_records_3"
  by code_simp

lemma seventeen_records_stage4: "ip_block False seventeen_records_3 = Inr seventeen_records_4"
  by code_simp

lemma seventeen_records_stage5: "location_block False seventeen_records_4 = Inr seventeen_records_5"
  by code_simp

lemma seventeen_records_stage6: "off_hour_block True seventeen_records_5 = Inr seventeen_records_6"
  by code_simp

lemma seventeen_records_stage7: "base_score_block seventeen_records_6 = seventeen_records_7"
  by code_simp

lemma seventeen_records_stage8: "velocity_block True True seventeen_records_7 = seventeen_records_8"
  by code_simp

lemma seventeen_records_stage9: "final_block (set (columns seventeen_records)) seventeen_records_8 = seventeen_records_9"
  by code_simp

lemma seventeen_records_features:
  "(''timestamp'' \<in> set (columns seventeen_records)) = True"
  "(''amount'' \<in> set (columns seventeen_records)) = False"
  "(''device_hash'' \<in> set (columns seventeen_records)) = False"
  "(''ip_address'' \<in> set (columns seventeen_records)) = False"
  "(''location'' \<in> set (columns seventeen_records)) = False"
  by (simp_all add: seventeen_records_def)

lemma process_seventeen_records: "process_transactions seventeen_records True None = Inr seventeen_records_9"
  unfolding process_transactions_def Let_def option.case seventeen_records_features
  by (simp only: seventeen_records_stage1 seventeen_records_stage2 seventeen_records_stage3 seventeen_records_stage4 seventeen_records_stage5
      seventeen_records_stage6 seventeen_records_stage7 seventeen_records_stage8 seventeen_records_stage9 bind_err_def sum.case)

lemma timestamp_block_sorted:
  assumes "timestamp_block True df = Inr df1"
  shows "sorted (map (\<lambda>r. (str_of ''sender_account'' r, time_of ''timestamp'' r)) (rows df1))"
proof -
  from assms have "\<exists>dfa. df1 = (let df2 = sort_values
        (\<lambda>r. (str_of ''sender_account'' r, time_of ''timestamp'' r)) dfa
      in set_column ''hour'' (map (\<lambda>r. CInt (hour_of (time_of ''timestamp'' r))) (rows df2)) df2)"
    by (auto simp add: timestamp_block_def bind_err_Inr_iff Let_def split: option.splits)
  then obtain dfa where d: "df1 = (let df2 = sort_values
        (\<lambda>r. (str_of ''sender_account'' r, time_of ''timestamp'' r)) dfa
      in set_column ''hour'' (map (\<lambda>r. CInt (hour_of (time_of ''timestamp'' r))) (rows df2)) df2)"
    by blast
  define df2 where "df2 = sort_values (\<lambda>r. (str_of ''sender_account'' r, time_of ''timestamp'' r)) dfa"
  have "rows df1 = map (\<lambda>r. AList.update ''hour'' (CInt (hour_of (time_of ''timestamp'' r))) r) (rows df2)"
    unfolding d Let_def df2_def [symmetric] by (rule rows_set_column_map)
  then have "map (\<lambda>r. (str_of ''sender_account'' r, time_of ''timestamp'' r)) (rows df1)
      = map (\<lambda>r. (str_of ''sender_account'' r, time_of ''timestamp'' r)) (rows df2)"
    by (simp add: o_def str_of_def time_of_def cell_at_update)
  moreover have "sorted (map (\<lambda>r. (str_of ''sender_account'' r, time_of ''timestamp'' r)) (rows df2))"
    by (simp add: df2_def sort_values_def)
  ultimately show ?thesis by simp
qed

lemma simulated_cells:
  "cell_at ''session_id'' (simulated rs i)
     = (if i < num_sessions (length rs) * 5 then CStr (session_name (i div 5)) else CNa)"
  "cell_at ''sim_timestamp'' (simulated rs i)
     = (if i < num_sessions (length rs) * 5
        then CTime (time_of ''timestamp'' (rs ! (i div 5 * 5)) + 10 * int (i mod 5))
        else cell_at ''timestamp'' (rs ! i))"
  "cell_at ''txn_count_sim'' (simulated rs i)
     = (if i < num_sessions (length rs) * 5 then CInt (int (i mod 5) + 1) else CNa)"
  "cell_at ''risk_velocity_sim'' (simulated rs i)
     = CBool (i < num_sessions (length rs) * 5 \<and> 3 \<le> i mod 5 + 1)"
  by (simp_all add: simulated_def presorted_def sessioned_def prepared_def cell_at_update)

lemma simulated_agree: "agree_off velocity_columns (rs ! i) (simulated rs i)"
  by (simp add: simulated_def presorted_def sessioned_def prepared_def agree_off_def
      update_conv' velocity_columns_def)

text \<open>
  C5. With simulation mode on and time stamps available, list the output records in the
  order of the batch sorted by account and time. Then the first
  \<open>5 * min 100 (batch_size div 5)\<close> records are cut into consecutive sessions of five: the
  record at position \<open>i\<close> belongs to session \<open>i div 5\<close>, its synthetic time stamp is the
  real time stamp of the first record of its session plus \<open>10 * (i mod 5)\<close> seconds, its
  sequence number within the session is \<open>i mod 5 + 1\<close>, and the velocity check fires exactly
  when that number is at least three. The records behind them receive no session and do not
  fire. Distinct sessions have distinct names.
\<close>

theorem session_simulation:
  assumes "process_transactions df True available_features = Inr res"
    and "''timestamp'' \<in> features_of df available_features"
  shows "\<exists>ys. mset ys = mset (rows (data res)) \<and> length ys = length (rows df)
      \<and> sorted (map (\<lambda>r. (str_of ''sender_account'' r, time_of ''timestamp'' r)) ys)
      \<and> (\<forall>i<length ys.
            (i < min 100 (length (rows df) div 5) * 5 \<longrightarrow>
               cell_at ''session_id'' (ys ! i) = CStr (session_name (i div 5))
               \<and> cell_at ''sim_timestamp'' (ys ! i)
                   = CTime (time_of ''timestamp'' (ys ! (i div 5 * 5)) + 10 * int (i mod 5))
               \<and> cell_at ''txn_count_sim'' (ys ! i) = CInt (int (i mod 5) + 1)
               \<and> cell_at ''risk_velocity_sim'' (ys ! i) = CBool (3 \<le> i mod 5 + 1))
          \<and> (min 100 (length (rows df) div 5) * 5 \<le> i \<longrightarrow>
               cell_at ''session_id'' (ys ! i) = CNa
               \<and> cell_at ''sim_timestamp'' (ys ! i) = cell_at ''timestamp'' (ys ! i)
               \<and> cell_at ''txn_count_sim'' (ys ! i) = CNa
               \<and> cell_at ''risk_velocity_sim'' (ys ! i) = CBool False))
      \<and> inj session_name"
proof -
  let ?fs = "features_of df available_features"
  let ?key = "\<lambda>r. (str_of ''sender_account'' r, time_of ''timestamp'' r)"
  from process_transactions_stages [OF assms(1)] assms(2) obtain df1 df6 where
    b1: "timestamp_block True df = Inr df1" and
    r16: "list_all2 (agree_off derived_columns) (rows df1) (rows df6)" and
    res: "res = final_block ?fs (velocity_block True True (base_score_block (df6, base_risks ?fs)))"
    by auto
  define dfb where "dfb = fst (base_score_block (df6, base_risks ?fs))"
  define rs where "rs = rows dfb"
  define n where "n = length rs"
  define stv where "stv = velocity_block True True (dfb, base_risks ?fs)"
  define perm where "perm = sort_key (\<lambda>i. session_key (presorted rs i)) [0..<n]"
  define F where "F = (\<lambda>r. let r1 = AList.update ''final_risk_score''
                        (CInt (int_of ''base_risk_score'' r + (if truthy ''risk_velocity_sim'' r then 1 else 0))) r;
                 r2 = AList.update ''final_reasons'' (CList (build_reasons (dict_of (snd stv)) r1)) r1
             in AList.update ''final_is_anomalous''
                  (CBool (int_of ''final_risk_score'' r2 \<ge> select_threshold (length (snd stv)))) r2)"
  define ys where "ys = map (\<lambda>i. F (simulated rs i)) [0..<n]"
  have stb: "base_score_block (df6, base_risks ?fs) = (dfb, base_risks ?fs)"
    by (simp add: dfb_def base_score_block_risks prod_eq_iff)
  have res': "res = final_block ?fs (fst stv, snd stv)" by (simp add: res stb stv_def)
  have rv: "rows (fst stv) = map (simulated rs) perm"
    unfolding stv_def perm_def n_def rs_def by (rule velocity_block_rows_exact)
  have out: "rows (data res) = map (\<lambda>i. F (simulated rs i)) perm"
    unfolding res' rows_final_block rv F_def by (simp add: o_def)
  have "mset perm = mset [0..<n]" by (simp add: perm_def)
  then have m: "mset ys = mset (rows (data res))"
    unfolding out ys_def by (metis mset_map)
  have r1b: "list_all2 (agree_off derived_columns) (rows df1) rs"
    unfolding rs_def dfb_def using r16 base_score_block_rel by (rule rows_rel_trans)
  have "size (mset (rows df)) = size (mset (rows df1))"
    by (rule rel_mset_size [OF timestamp_block_rel [OF b1]])
  moreover have l1: "length (rows df1) = n" unfolding n_def using r1b by (rule list_all2_lengthD)
  ultimately have n: "n = length (rows df)" by simp
  have ly: "length ys = n" by (simp add: ys_def)
  have Fa: "agree_off derived_columns r (F r)" for r
    by (simp add: F_def Let_def agree_off_def update_conv' derived_columns_def)
  have ag: "agree_off derived_columns (rows df1 ! i) (ys ! i)" if "i < n" for i
  proof -
    have "agree_off derived_columns (rows df1 ! i) (rs ! i)"
      using r1b that l1 by (simp add: list_all2_conv_all_nth)
    moreover have "agree_off derived_columns (rs ! i) (simulated rs i)"
      by (rule agree_off_mono [OF simulated_agree]) (simp add: derived_columns_def velocity_columns_def)
    ultimately have "agree_off derived_columns (rows df1 ! i) (F (simulated rs i))"
      using Fa by (blast intro: agree_off_trans_same)
    then show ?thesis using that by (simp add: ys_def)
  qed
  have keys: "map ?key ys = map ?key (rows df1)"
  proof (rule nth_equalityI)
    show "length (map ?key ys) = length (map ?key (rows df1))" by (simp add: ly l1)
    fix i assume "i < length (map ?key ys)"
    then have i: "i < n" by (simp add: ly)
    from ag [OF i] have "?key (ys ! i) = ?key (rows df1 ! i)"
      by (simp add: str_of_agree time_of_agree derived_columns_def)
    with i show "map ?key ys ! i = map ?key (rows df1) ! i" by (simp add: ly l1)
  qed
  have srt: "sorted (map ?key ys)" unfolding keys by (rule timestamp_block_sorted [OF b1])
  have Fc: "cell_at c (F r) = cell_at c r"
    if "c \<notin> {''final_risk_score'', ''final_reasons'', ''final_is_anomalous''}" for c r
    using that by (simp add: F_def Let_def cell_at_update)
  have Ft: "time_of ''timestamp'' (F r) = time_of ''timestamp'' r" for r
    by (simp add: time_of_def Fc)
  have St: "time_of ''timestamp'' (simulated rs i) = time_of ''timestamp'' (rs ! i)" for i
    using time_of_agree [OF simulated_agree, of "''timestamp''" rs i] by (simp add: velocity_columns_def)
  have Sc: "cell_at ''timestamp'' (simulated rs i) = cell_at ''timestamp'' (rs ! i)" for i
    using agree_off_cell_at [OF simulated_agree, of "''timestamp''" rs i] by (simp add: velocity_columns_def)
  have k: "min 100 (length (rows df) div 5) = num_sessions (length rs)"
    using n by (simp add: num_sessions_def n_def)
  have cells: "(i < min 100 (length (rows df) div 5) * 5 \<longrightarrow>
               cell_at ''session_id'' (ys ! i) = CStr (session_name (i div 5))
               \<and> cell_at ''sim_timestamp'' (ys ! i)
                   = CTime (time_of ''timestamp'' (ys ! (i div 5 * 5)) + 10 * int (i mod 5))
               \<and> cell_at ''txn_count_sim'' (ys ! i) = CInt (int (i mod 5) + 1)
               \<and> cell_at ''risk_velocity_sim'' (ys ! i) = CBool (3 \<le> i mod 5 + 1))
          \<and> (min 100 (length (rows df) div 5) * 5 \<le> i \<longrightarrow>
               cell_at ''session_id'' (ys ! i) = CNa
               \<and> cell_at ''sim_timestamp'' (ys ! i) = cell_at ''timestamp'' (ys ! i)
               \<and> cell_at ''txn_count_sim'' (ys ! i) = CNa
               \<and> cell_at ''risk_velocity_sim'' (ys ! i) = CBool False)" if "i < n" for i
  proof -
    have d: "i div 5 * 5 < n" using that by (metis div_times_less_eq_dividend le_less_trans)
    have y: "ys ! i = F (simulated rs i)" "ys ! (i div 5 * 5) = F (simulated rs (i div 5 * 5))"
      using that d by (simp_all add: ys_def)
    show ?thesis unfolding k y
      by (simp add: Fc Ft St Sc simulated_cells)
  qed
  have "inj session_name" by (rule injI) (rule session_name_inj)
  with m ly n srt cells show ?thesis
    by (intro exI [of _ ys]) simp
qed

theorem session_simulation_witness:
  "process_transactions seventeen_records True None = Inr seventeen_records_9
   \<and> ''timestamp'' \<in> features_of seventeen_records None
   \<and> length (rows seventeen_records) = 17
   \<and> map (cell_at ''session_id'') (rows (data seventeen_records_9))
       = [CStr ''SIM_SESSION_0'', CStr ''SIM_SESSION_0'', CStr ''SIM_SESSION_0'',
          CStr ''SIM_SESSION_0'', CStr ''SIM_SESSION_0'', CStr ''SIM_SESSION_1'',
          CStr ''SIM_SESSION_1'', CStr ''SIM_SESSION_1'', CStr ''SIM_SESSION_1'',
          CStr ''SIM_SESSION_1'', CStr ''SIM_SESSION_2'', CStr ''SIM_SESSION_2'',
          CStr ''SIM_SESSION_2'', CStr ''SIM_SESSION_2'', CStr ''SIM_SESSION_2'', CNa, CNa]
   \<and> map (cell_at ''timestamp'') (rows (data seventeen_records_9))
       = [CTime 1704096000, CTime 1704112560, CTime 1704196620, CTime 1704277080,
          CTime 1704361140, CTime 1704374100, CTime 1704104880, CTime 1704127920,
          CTime 1704188940, CTime 1704208380, CTime 1704269400, CTime 1704389460,
          CTime 1704120240, CTime 1704200700, CTime 1704284760, CTime 1704297720,
          CTime 1704381780]
   \<and> map (cell_at ''sim_timestamp'') (rows (data seventeen_records_9))
       = [CTime 1704096000, CTime 1704096010, CTime 1704096020, CTime 1704096030,
          CTime 1704096040, CTime 1704374100, CTime 1704374110, CTime 1704374120,
          CTime 1704374130, CTime 1704374140, CTime 1704269400, CTime 1704269410,
          CTime 1704269420, CTime 1704269430, CTime 1704269440, CTime 1704297720,
          CTime 1704381780]
   \<and> map (cell_at ''txn_count_sim'') (rows (data seventeen_records_9))
       = [CInt 1, CInt 2, CInt 3, CInt 4, CInt 5, CInt 1, CInt 2, CInt 3, CInt 4, CInt 5,
          CInt 1, CInt 2, CInt 3, CInt 4, CInt 5, CNa, CNa]
   \<and> map (cell_at ''risk_velocity_sim'') (rows (data seventeen_records_9))
       = [CBool False, CBool False, CBool True, CBool True, CBool True,
          CBool False, CBool False, CBool True, CBool True, CBool True,
          CBool False, CBool False, CBool True, CBool True, CBool True,
          CBool False, CBool False]
   \<and> min 100 (length (rows seventeen_records) div 5) * 5 = 15
   \<and> (\<exists>ys. mset ys = mset (rows (data seventeen_records_9))
          \<and> length ys = length (rows seventeen_records)
          \<and> sorted (map (\<lambda>r. (str_of ''sender_account'' r, time_of ''timestamp'' r)) ys)
          \<and> (\<forall>i<length ys.
            (i < min 100 (length (rows seventeen_records) div 5) * 5 \<longrightarrow>
               cell_at ''session_id'' (ys ! i) = CStr (session_name (i div 5))
               \<and> cell_at ''sim_timestamp'' (ys ! i)
                   = CTime (time_of ''timestamp'' (ys ! (i div 5 * 5)) + 10 * int (i mod 5))
               \<and> cell_at ''txn_count_sim'' (ys ! i) = CInt (int (i mod 5) + 1)
               \<and> cell_at ''risk_velocity_sim'' (ys ! i) = CBool (3 \<le> i mod 5 + 1))
          \<and> (min 100 (length (rows seventeen_records) div 5) * 5 \<le> i \<longrightarrow>
               cell_at ''session_id'' (ys ! i) = CNa
               \<and> cell_at ''sim_timestamp'' (ys ! i) = cell_at ''timestamp'' (ys ! i)
               \<and> cell_at ''txn_count_sim'' (ys ! i) = CNa
               \<and> cell_at ''risk_velocity_sim'' (ys ! i) = CBool False))
          \<and> inj session_name)"
proof -
  have f: "''timestamp'' \<in> features_of seventeen_records None"
    by (simp add: features_of_def seventeen_records_features)
  have l: "length (rows seventeen_records) = 17" by code_simp
  have k: "min 100 (length (rows seventeen_records) div 5) * 5 = 15" unfolding l by simp
  note t = session_simulation [OF process_seventeen_records f]
  show ?thesis
    apply (intro conjI)
             apply (rule process_seventeen_records)
            apply (rule f)
           apply (rule l)
          apply code_simp
         apply code_simp
        apply code_simp
       apply code_simp
      apply code_simp
     apply (rule k)
    apply (rule t)
    done
qed

end
